theory Spec2Isabelle
  imports Main "HOL-Library.Word" "HOL-Library.AList" "HOL-Library.Sublist"
begin

section \<open>GHS binder automation: chemical registry, deployment pipeline, file status\<close>

text \<open>
  A shallow embedding of the three JavaScript classes of the repository:
  \<^item> \<open>ChemicalManager\<close> (chemical_manager.js): add, remove, update and list the chemicals of
    one customer's configuration;
  \<^item> \<open>GHSBinderDeployer\<close> (github_deployment.js): the deployment pipeline over the GitHub
    REST client;
  \<^item> \<open>GHSManagementDashboard.handleFileStatus\<close> (dashboard.js): the reconciliation of the
    staged files with the chemical list.

  A JavaScript string is a sequence of UTF-16 code units, so it is a list of 16-bit words;
  \<open>lit\<close> embeds an ASCII literal of the source. A \<open>Buffer\<close> is a list of bytes.
\<close>

subsection \<open>Strings\<close>

type_synonym jsstring = "16 word list"
type_synonym bytes = "8 word list"

definition lit :: "string \<Rightarrow> jsstring" where
  "lit s = map of_char s"

text \<open>The character classes of the two regular expressions of \<open>generateChemicalId\<close>:
  \<open>[a-z0-9]\<close>, and \<open>\s\<close>, which in ECMAScript is the white space and line terminator
  code points (TAB, LF, VT, FF, CR, SP, NBSP, U+1680, U+2000 to U+200A, U+2028, U+2029,
  U+202F, U+205F, U+3000, U+FEFF).\<close>

definition is_digit :: "16 word \<Rightarrow> bool" where
  "is_digit c = (0x30 \<le> c \<and> c \<le> 0x39)"

definition is_az09 :: "16 word \<Rightarrow> bool" where
  "is_az09 c = ((0x61 \<le> c \<and> c \<le> 0x7A) \<or> is_digit c)"

definition is_space :: "16 word \<Rightarrow> bool" where
  "is_space c = ((0x09 \<le> c \<and> c \<le> 0x0D) \<or> c = 0x20 \<or> c = 0xA0 \<or> c = 0x1680
     \<or> (0x2000 \<le> c \<and> c \<le> 0x200A) \<or> c = 0x2028 \<or> c = 0x2029 \<or> c = 0x202F
     \<or> c = 0x205F \<or> c = 0x3000 \<or> c = 0xFEFF)"

definition hyphen :: "16 word" where
  "hyphen = 0x2D"

text \<open>\<open>s.replace(/\s+/g, '-')\<close>: every maximal run of white space becomes one hyphen.\<close>

function replace_spaces :: "jsstring \<Rightarrow> jsstring" where
  "replace_spaces [] = []"
| "replace_spaces (c # cs) =
     (if is_space c then hyphen # replace_spaces (dropWhile is_space cs)
      else c # replace_spaces cs)"
  by pat_completeness auto
termination
  by (relation "measure length") (auto simp: le_imp_less_Suc length_dropWhile_le)

text \<open>\<open>String.prototype.toLowerCase\<close> is the runtime's Unicode case mapping; it is a
  parameter of the model, so that every result holds whatever it maps a name to.
  \<open>ascii_toLowerCase\<close> is its restriction to ASCII, for running the model.\<close>

definition ascii_toLowerCase :: "jsstring \<Rightarrow> jsstring" where
  "ascii_toLowerCase s = map (\<lambda>c. if 0x41 \<le> c \<and> c \<le> 0x5A then c + 0x20 else c) s"

text \<open>\<^verbatim>\<open>
  generateChemicalId(name) {
      return name.toLowerCase().replace(/[^a-z0-9\s]/g, '').replace(/\s+/g, '-').substring(0, 50);
  }\<close>\<close>

definition generateChemicalId :: "(jsstring \<Rightarrow> jsstring) \<Rightarrow> jsstring \<Rightarrow> jsstring" where
  "generateChemicalId lower name =
     take 50 (replace_spaces (filter (\<lambda>c. is_az09 c \<or> is_space c) (lower name)))"

text \<open>\<open>s.includes(p)\<close>, \<open>s.endsWith(p)\<close> and \<open>s.startsWith(p)\<close>.\<close>

primrec js_includes :: "jsstring \<Rightarrow> jsstring \<Rightarrow> bool" where
  "js_includes [] p = (p = [])"
| "js_includes (c # cs) p = (prefix p (c # cs) \<or> js_includes cs p)"

definition endsWith :: "jsstring \<Rightarrow> jsstring \<Rightarrow> bool" where
  "endsWith s p = suffix p s"

definition startsWith :: "jsstring \<Rightarrow> jsstring \<Rightarrow> bool" where
  "startsWith s p = prefix p s"

text \<open>\<open>parseInt(s, 10)\<close>: leading white space is skipped, one sign is read, then the
  longest run of decimal digits; with no digit the result is \<open>NaN\<close>, here \<open>None\<close>.
  (The value is a double in JavaScript; rounding of numbers beyond \<open>2^53\<close> does not
  change a comparison with 1024.)\<close>

definition digits_value :: "jsstring \<Rightarrow> int" where
  "digits_value ds = foldl (\<lambda>a c. 10 * a + (uint c - 48)) 0 ds"

definition parseInt10 :: "jsstring \<Rightarrow> int option" where
  "parseInt10 s =
     (let t = dropWhile is_space s;
          neg = (t \<noteq> [] \<and> hd t = 0x2D);
          u = (if t \<noteq> [] \<and> (hd t = 0x2D \<or> hd t = 0x2B) then tl t else t);
          ds = takeWhile is_digit u
      in if ds = [] then None
         else Some (if neg then - digits_value ds else digits_value ds))"

text \<open>\<open>a < b\<close> on numbers: every comparison with \<open>NaN\<close> is false.\<close>

definition js_less :: "int option \<Rightarrow> int \<Rightarrow> bool" where
  "js_less a b = (case a of None \<Rightarrow> False | Some n \<Rightarrow> n < b)"

subsection \<open>Data model\<close>

text \<open>The JSON documents, with the fields the modelled functions read or write. A missing
  key and the empty string are both falsy, and every test the code makes on a file name is a
  truthiness test, so a file name is a string and \<open>[]\<close> stands for both. A document slot
  (\<open>literature\<close>, \<open>sds\<close>) may be missing altogether.\<close>

record doc_ref =
  doc_filename :: jsstring
  doc_url :: "jsstring option"
  doc_title :: "jsstring option"

record chemical =
  chem_id :: jsstring
  chem_name :: jsstring
  chem_description :: jsstring
  chem_hazards :: jsstring
  chem_literature :: "doc_ref option"
  chem_sds :: "doc_ref option"
  chem_supplier :: jsstring
  chem_last_updated :: jsstring
  chem_active :: bool
  chem_deactivated_date :: "jsstring option"

record contact =
  contact_company :: jsstring
  contact_phone :: jsstring
  contact_email :: jsstring
  contact_emergency :: jsstring
  contact_address :: jsstring

record branding =
  logo_url :: jsstring
  primary_color :: jsstring
  secondary_color :: jsstring

record github_repo =
  gh_name :: jsstring
  gh_url :: jsstring
  gh_custom_domain :: jsstring

record customer_info =
  ci_name :: jsstring
  ci_slug :: jsstring
  ci_contact :: contact
  ci_branding :: branding
  ci_github_repo :: github_repo

record site_settings =
  ss_last_updated :: jsstring
  ss_generation_date :: jsstring
  ss_complete_binder :: "doc_ref option"

record customer_config =
  customer_info :: customer_info
  chemicals :: "chemical list"
  site_settings :: site_settings

text \<open>The argument of \<open>addChemical\<close> and \<open>updateChemical\<close> is a JSON object that
  \<open>Object.assign\<close> merges into the stored record: each key may be present or not.\<close>

record chemical_patch =
  p_id :: "jsstring option"
  p_name :: "jsstring option"
  p_description :: "jsstring option"
  p_hazards :: "jsstring option"
  p_literature :: "doc_ref option"
  p_sds :: "doc_ref option"
  p_supplier :: "jsstring option"
  p_last_updated :: "jsstring option"
  p_active :: "bool option"
  p_deactivated_date :: "jsstring option"

subsection \<open>Errors, the GitHub client, the outside world\<close>

text \<open>A thrown value: an Octokit \<open>RequestError\<close> carries the HTTP status; a plain
  \<open>Error\<close> and a file system error have no \<open>status\<close> property.\<close>

datatype js_error =
    RequestError nat jsstring
  | Error jsstring
  | SystemError jsstring jsstring

fun error_status :: "js_error \<Rightarrow> nat option" where
  "error_status (RequestError st msg) = Some st"
| "error_status (Error msg) = None"
| "error_status (SystemError code path) = None"

fun error_message :: "js_error \<Rightarrow> jsstring" where
  "error_message (RequestError st msg) = msg"
| "error_message (Error msg) = msg"
| "error_message (SystemError code path) = code @ lit '': '' @ path"

record repo =
  repo_name :: jsstring
  repo_default_branch :: jsstring
  repo_html_url :: jsstring

record create_params =
  cp_name :: jsstring
  cp_description :: jsstring
  cp_private :: bool
  cp_homepage :: jsstring
  cp_topics :: "jsstring list"
  cp_has_issues :: bool
  cp_has_projects :: bool
  cp_has_wiki :: bool
  cp_auto_init :: bool
  cp_license_template :: jsstring

record file_commit =
  fc_owner :: jsstring
  fc_repo :: jsstring
  fc_path :: jsstring
  fc_message :: jsstring
  fc_content :: jsstring
  fc_branch :: jsstring
  fc_sha :: "jsstring option"

text \<open>What a \<open>HEAD\<close> request returns: the status and the two headers that are read.\<close>

record response =
  res_status :: nat
  res_content_type :: "jsstring option"
  res_content_length :: "jsstring option"

definition res_ok :: "response \<Rightarrow> bool" where
  "res_ok res = (200 \<le> res_status res \<and> res_status res \<le> 299)"

text \<open>Every call that leaves the process is recorded, in order, in a trace. The answer of
  the outside world to a call may depend on everything that happened before: an oracle
  takes the trace so far and the call.\<close>

datatype call =
    CreateForAuthenticatedUser create_params
  | ReposGet jsstring jsstring
  | GetContent jsstring jsstring jsstring jsstring
  | CreateOrUpdateFileContents file_commit
  | CreatePagesSite jsstring jsstring jsstring jsstring
  | FetchHead jsstring
  | ConsoleWarn jsstring
  | SetTimeout nat

datatype fs_entry = File bytes | Directory "jsstring list"

record template_data =
  CUSTOMER_NAME :: jsstring
  CUSTOMER_LOGO :: jsstring
  CUSTOMER_CONTACT :: jsstring
  CUSTOMER_EMERGENCY :: jsstring
  LAST_UPDATED :: jsstring
  GENERATION_DATE :: jsstring
  TOTAL_PRODUCTS :: nat
  TOTAL_DOCUMENTS :: nat
  COMPLETE_BINDER_URL :: "jsstring option"
  PRODUCTS_JSON :: jsstring
  CUSTOMER_INFO_JSON :: jsstring

text \<open>The environment: the library functions of the runtime (case mapping, base64 and
  UTF-8 of \<open>Buffer\<close>, number formatting in template literals, \<open>JSON.stringify\<close>,
  \<open>mustache.render\<close>, \<open>path.join\<close>), the local files, which a deployment only
  reads, the clock, and the oracles of the GitHub API and of \<open>fetch\<close>.\<close>

record env =
  toLowerCase :: "jsstring \<Rightarrow> jsstring"
  toString_base64 :: "bytes \<Rightarrow> jsstring"
  Buffer_from :: "jsstring \<Rightarrow> bytes"
  number_toString :: "int option \<Rightarrow> jsstring"
  JSON_stringify_chemicals :: "chemical list \<Rightarrow> jsstring"
  JSON_stringify_customer :: "jsstring \<times> contact \<times> branding \<Rightarrow> jsstring"
  mustache_render :: "jsstring \<Rightarrow> template_data \<Rightarrow> jsstring"
  path_join :: "jsstring list \<Rightarrow> jsstring"
  dirname :: jsstring
  local_fs :: "jsstring \<Rightarrow> fs_entry option"
  readFile_utf8 :: "jsstring \<Rightarrow> js_error + jsstring"
  toISOString_now :: "call list \<Rightarrow> jsstring"
  toLocaleDateString_now :: "call list \<Rightarrow> jsstring"
  octokit_createForAuthenticatedUser :: "call list \<Rightarrow> call \<Rightarrow> js_error + repo"
  octokit_get :: "call list \<Rightarrow> call \<Rightarrow> js_error + repo"
  octokit_getContent :: "call list \<Rightarrow> call \<Rightarrow> js_error + jsstring option"
  octokit_createOrUpdateFileContents :: "call list \<Rightarrow> call \<Rightarrow> js_error + unit"
  octokit_createPagesSite :: "call list \<Rightarrow> call \<Rightarrow> js_error + unit"
  fetch :: "call list \<Rightarrow> call \<Rightarrow> js_error + response"

definition existsSync :: "env \<Rightarrow> jsstring \<Rightarrow> bool" where
  "existsSync env p = (local_fs env p \<noteq> None)"

definition readFile :: "env \<Rightarrow> jsstring \<Rightarrow> js_error + bytes" where
  "readFile env p =
     (case local_fs env p of
        None \<Rightarrow> Inl (SystemError (lit ''ENOENT'') p)
      | Some (Directory names) \<Rightarrow> Inl (SystemError (lit ''EISDIR'') p)
      | Some (File b) \<Rightarrow> Inr b)"

definition readdir :: "env \<Rightarrow> jsstring \<Rightarrow> js_error + jsstring list" where
  "readdir env p =
     (case local_fs env p of
        None \<Rightarrow> Inl (SystemError (lit ''ENOENT'') p)
      | Some (File b) \<Rightarrow> Inl (SystemError (lit ''ENOTDIR'') p)
      | Some (Directory names) \<Rightarrow> Inr names)"

definition stat_isDirectory :: "env \<Rightarrow> jsstring \<Rightarrow> js_error + bool" where
  "stat_isDirectory env p =
     (case local_fs env p of
        None \<Rightarrow> Inl (SystemError (lit ''ENOENT'') p)
      | Some (File b) \<Rightarrow> Inr False
      | Some (Directory names) \<Rightarrow> Inr True)"

subsection \<open>Asynchronous code as a state and error monad over the trace\<close>

type_synonym 'a io = "call list \<Rightarrow> (js_error + 'a) \<times> call list"

definition io_return :: "'a \<Rightarrow> 'a io" where
  "io_return x = (\<lambda>h. (Inr x, h))"

definition io_throw :: "js_error \<Rightarrow> 'a io" where
  "io_throw e = (\<lambda>h. (Inl e, h))"

definition io_bind :: "'a io \<Rightarrow> ('a \<Rightarrow> 'b io) \<Rightarrow> 'b io" where
  "io_bind m f = (\<lambda>h. case m h of (Inl e, h') \<Rightarrow> (Inl e, h') | (Inr x, h') \<Rightarrow> f x h')"

definition io_catch :: "'a io \<Rightarrow> (js_error \<Rightarrow> 'a io) \<Rightarrow> 'a io" where
  "io_catch m handler =
     (\<lambda>h. case m h of (Inl e, h') \<Rightarrow> handler e h' | (Inr x, h') \<Rightarrow> (Inr x, h'))"

definition io_call :: "(call list \<Rightarrow> call \<Rightarrow> js_error + 'a) \<Rightarrow> call \<Rightarrow> 'a io" where
  "io_call oracle c = (\<lambda>h. (oracle h c, h @ [c]))"

definition io_emit :: "call \<Rightarrow> unit io" where
  "io_emit c = (\<lambda>h. (Inr (), h @ [c]))"

definition io_read :: "(call list \<Rightarrow> 'a) \<Rightarrow> 'a io" where
  "io_read f = (\<lambda>h. (Inr (f h), h))"

definition io_lift :: "js_error + 'a \<Rightarrow> 'a io" where
  "io_lift r = (\<lambda>h. (r, h))"

text \<open>\<open>for (const x of xs) { await body(x) }\<close>; \<open>continue\<close> is the end of the body.\<close>

primrec io_forEach :: "'a list \<Rightarrow> ('a \<Rightarrow> unit io) \<Rightarrow> unit io" where
  "io_forEach [] body = io_return ()"
| "io_forEach (x # xs) body = io_bind (body x) (\<lambda>_. io_forEach xs body)"


subsection \<open>GHSBinderDeployer\<close>

definition owner :: jsstring where
  "owner = lit ''rascoused''"

text \<open>The existence probe of both upload methods:
  \<^verbatim>\<open>
  let sha;
  try {
      const { data: existingFile } = await this.octokit.rest.repos.getContent(
          { owner, repo, path: filePath, ref: branch });
      sha = existingFile.sha;
  } catch (error) {
      // Only ignore 404 errors (file doesn't exist)
      if (error.status !== 404) { throw error; }
  }\<close>
  It is written out in each of the two methods, as in the source.\<close>

definition safeUploadBinary ::
  "env \<Rightarrow> jsstring \<Rightarrow> jsstring \<Rightarrow> jsstring \<Rightarrow> jsstring \<Rightarrow> bytes \<Rightarrow> jsstring \<Rightarrow> unit io" where
  "safeUploadBinary env ownr repo branch filePath fileBuffer commitMessage =
     (let content = toString_base64 env fileBuffer in
      io_bind
        (io_catch
           (io_call (octokit_getContent env) (GetContent ownr repo filePath branch))
           (\<lambda>error. if error_status error \<noteq> Some 404 then io_throw error else io_return None))
        (\<lambda>sha. io_call (octokit_createOrUpdateFileContents env)
           (CreateOrUpdateFileContents
              \<lparr>fc_owner = ownr, fc_repo = repo, fc_path = filePath, fc_message = commitMessage,
               fc_content = content, fc_branch = branch, fc_sha = sha\<rparr>)))"

text \<open>\<open>uploadFile\<close> wraps the same steps in a \<open>try\<close> whose handler prints the error
  and throws it again; printing to the console is not part of the model (warnings apart).\<close>

definition uploadFile ::
  "env \<Rightarrow> jsstring \<Rightarrow> jsstring \<Rightarrow> jsstring \<Rightarrow> jsstring \<Rightarrow> jsstring \<Rightarrow> unit io" where
  "uploadFile env repoName filePath content commitMessage branch =
     (let contentEncoded = toString_base64 env (Buffer_from env content) in
      io_bind
        (io_catch
           (io_call (octokit_getContent env) (GetContent owner repoName filePath branch))
           (\<lambda>error. if error_status error \<noteq> Some 404 then io_throw error else io_return None))
        (\<lambda>sha. io_call (octokit_createOrUpdateFileContents env)
           (CreateOrUpdateFileContents
              \<lparr>fc_owner = owner, fc_repo = repoName, fc_path = filePath, fc_message = commitMessage,
               fc_content = contentEncoded, fc_branch = branch, fc_sha = sha\<rparr>)))"

definition uploadCustomerAssets :: "env \<Rightarrow> jsstring \<Rightarrow> jsstring \<Rightarrow> jsstring \<Rightarrow> unit io" where
  "uploadCustomerAssets env repoName customerSlug branch =
     (let customerAssetsPath = path_join env [dirname env, lit ''..'', lit ''assets'', customerSlug] in
      if \<not> existsSync env customerAssetsPath then io_return ()
      else
        io_bind (io_lift (readdir env customerAssetsPath)) (\<lambda>files.
        io_forEach files (\<lambda>filename.
          let localPath = path_join env [customerAssetsPath, filename] in
          io_bind (io_lift (stat_isDirectory env localPath)) (\<lambda>isDirectory.
          if isDirectory \<or> startsWith filename (lit ''.'') then io_return ()
          else
            io_bind (io_lift (readFile env localPath)) (\<lambda>buffer.
            safeUploadBinary env owner repoName branch (lit ''assets/'' @ filename) buffer
              (lit ''Upload '' @ customerSlug @ lit '' asset: '' @ filename))))))"

text \<open>\<open>[chemical.literature?.filename, chemical.sds?.filename].filter(Boolean)\<close>\<close>

definition slot_filename :: "doc_ref option \<Rightarrow> jsstring" where
  "slot_filename d = (case d of None \<Rightarrow> [] | Some r \<Rightarrow> doc_filename r)"

definition pdf_filenames :: "chemical \<Rightarrow> jsstring list" where
  "pdf_filenames chemical =
     filter (\<lambda>f. f \<noteq> []) [slot_filename (chem_literature chemical), slot_filename (chem_sds chemical)]"

text \<open>The body of the \<open>try\<close> block of \<open>verifyPDFsOnPages\<close>, for one URL:
  \<^verbatim>\<open>
  const res = await fetch(url, { method: 'HEAD' });
  if (!res.ok) { throw new Error(`HTTP ${res.status}`); }
  const contentType = res.headers.get('content-type') || '';
  const contentLength = parseInt(res.headers.get('content-length') || '0', 10);
  if (!contentType.includes('pdf') || contentLength < 1024) {
      throw new Error(`Unexpected type/size: ${contentType}, ${contentLength} bytes`);
  }\<close>\<close>

definition header_or :: "jsstring option \<Rightarrow> jsstring \<Rightarrow> jsstring" where
  "header_or v d = (case v of None \<Rightarrow> d | Some s \<Rightarrow> if s = [] then d else s)"

definition checkResponse :: "env \<Rightarrow> response \<Rightarrow> unit io" where
  "checkResponse env res =
     (if \<not> res_ok res
      then io_throw (Error (lit ''HTTP '' @ number_toString env (Some (int (res_status res)))))
      else
        let contentType = header_or (res_content_type res) [];
            contentLength = parseInt10 (header_or (res_content_length res) (lit ''0''))
        in if \<not> js_includes contentType (lit ''pdf'') \<or> js_less contentLength 1024
           then io_throw (Error (lit ''Unexpected type/size: '' @ contentType @ lit '', ''
                  @ number_toString env contentLength @ lit '' bytes''))
           else io_return ())"

text \<open>The conditions under which the two tests above let a response through.\<close>

definition passes_verification :: "response \<Rightarrow> bool" where
  "passes_verification res =
     (res_ok res
      \<and> js_includes (header_or (res_content_type res) []) (lit ''pdf'')
      \<and> \<not> js_less (parseInt10 (header_or (res_content_length res) (lit ''0''))) 1024)"

text \<open>The \<open>try\<close>/\<open>catch\<close> of the inner loop, for one URL:
  \<^verbatim>\<open>
  try { ... } catch (err) {
      throw new Error(`Verification failed for ${url}: ${err.message}`);
  }\<close>\<close>

definition verifyUrl :: "env \<Rightarrow> jsstring \<Rightarrow> unit io" where
  "verifyUrl env url =
     io_catch
       (io_bind (io_call (fetch env) (FetchHead url)) (\<lambda>res. checkResponse env res))
       (\<lambda>err. io_throw (Error (lit ''Verification failed for '' @ url @ lit '': ''
                 @ error_message err)))"

definition verifyPDFsOnPages :: "env \<Rightarrow> jsstring \<Rightarrow> chemical list \<Rightarrow> unit io" where
  "verifyPDFsOnPages env repoName chems =
     (let baseUrl = lit ''https://'' @ owner @ lit ''.github.io/'' @ repoName in
      io_forEach chems (\<lambda>chemical.
        io_forEach (pdf_filenames chemical) (\<lambda>filename.
          let url = baseUrl @ lit ''/pdfs/'' @ filename in verifyUrl env url)))"

text \<open>The URLs that \<open>verifyPDFsOnPages\<close> visits, in order.\<close>

definition pdf_urls :: "jsstring \<Rightarrow> chemical list \<Rightarrow> jsstring list" where
  "pdf_urls repoName chems =
     concat (map (\<lambda>chemical.
        map (\<lambda>filename. lit ''https://'' @ owner @ lit ''.github.io/'' @ repoName
                          @ lit ''/pdfs/'' @ filename)
            (pdf_filenames chemical)) chems)"

text \<open>Whether the answer to the \<open>HEAD\<close> request for a URL, made after the trace
  \<open>h\<close>, passes the tests.\<close>

definition url_passes :: "env \<Rightarrow> call list \<Rightarrow> jsstring \<Rightarrow> bool" where
  "url_passes env h url =
     (case fetch env h (FetchHead url) of Inl e \<Rightarrow> False | Inr res \<Rightarrow> passes_verification res)"

definition createParams :: "customer_config \<Rightarrow> create_params" where
  "createParams customerConfig =
     (let repoName = gh_name (ci_github_repo (customer_info customerConfig));
          customerName = ci_name (customer_info customerConfig)
      in \<lparr>cp_name = repoName,
          cp_description = lit ''GHS Safety Binder for '' @ customerName
            @ lit '' - Professional chemical safety documentation portal'',
          cp_private = False,
          cp_homepage = gh_url (ci_github_repo (customer_info customerConfig)),
          cp_topics = [lit ''ghs'', lit ''safety'', lit ''chemical-safety'',
                       lit ''osha-compliance'', lit ''sds''],
          cp_has_issues = False, cp_has_projects = False, cp_has_wiki = False,
          cp_auto_init = True, cp_license_template = lit ''mit''\<rparr>)"

definition createRepository :: "env \<Rightarrow> customer_config \<Rightarrow> repo io" where
  "createRepository env customerConfig =
     (let repoName = gh_name (ci_github_repo (customer_info customerConfig))
      in io_catch
           (io_call (octokit_createForAuthenticatedUser env)
              (CreateForAuthenticatedUser (createParams customerConfig)))
           (\<lambda>error. if error_status error = Some 422
                    then io_call (octokit_get env) (ReposGet owner repoName)
                    else io_throw error))"

definition templatePath :: "env \<Rightarrow> jsstring" where
  "templatePath env = path_join env [dirname env, lit ''../templates/ghs_binder_template.html'']"

definition templateData :: "env \<Rightarrow> customer_config \<Rightarrow> jsstring \<Rightarrow> template_data" where
  "templateData env customerConfig date =
     (let customerInfo = customer_info customerConfig;
          chems = filter chem_active (chemicals customerConfig)
      in \<lparr>CUSTOMER_NAME = ci_name customerInfo,
          CUSTOMER_LOGO = logo_url (ci_branding customerInfo),
          CUSTOMER_CONTACT = contact_phone (ci_contact customerInfo),
          CUSTOMER_EMERGENCY = contact_emergency (ci_contact customerInfo),
          LAST_UPDATED = ss_last_updated (site_settings customerConfig),
          GENERATION_DATE = date,
          TOTAL_PRODUCTS = length chems,
          TOTAL_DOCUMENTS = length chems * 2,
          COMPLETE_BINDER_URL =
            (case ss_complete_binder (site_settings customerConfig) of
               None \<Rightarrow> None | Some b \<Rightarrow> doc_url b),
          PRODUCTS_JSON = JSON_stringify_chemicals env chems,
          CUSTOMER_INFO_JSON = JSON_stringify_customer env
            (ci_name customerInfo, ci_contact customerInfo, ci_branding customerInfo)\<rparr>)"

definition generateHTML :: "env \<Rightarrow> customer_config \<Rightarrow> jsstring io" where
  "generateHTML env customerConfig =
     io_bind (io_lift (readFile_utf8 env (templatePath env))) (\<lambda>template.
     io_bind (io_read (toLocaleDateString_now env)) (\<lambda>date.
     io_return (mustache_render env template (templateData env customerConfig date))))"

definition enablePages :: "env \<Rightarrow> jsstring \<Rightarrow> jsstring \<Rightarrow> unit io" where
  "enablePages env repoName branch =
     io_catch
       (io_call (octokit_createPagesSite env) (CreatePagesSite owner repoName branch (lit ''/'')))
       (\<lambda>error. if error_status error = Some 409 then io_return () else io_throw error)"

text \<open>The template literal of \<open>generateReadme\<close>, line by line; \<open>date\<close> is
  \<open>new Date().toLocaleDateString()\<close>.\<close>

definition generateReadme :: "env \<Rightarrow> customer_config \<Rightarrow> jsstring \<Rightarrow> jsstring" where
  "generateReadme env customerConfig date =
     (let customerName = ci_name (customer_info customerConfig);
          totalChemicals = length (filter chem_active (chemicals customerConfig))
      in concat (map (\<lambda>l. l @ [0x0A])
       [lit ''# '' @ customerName @ lit '' - GHS Safety Binder'',
        [],
        lit ''Professional chemical safety documentation portal providing 24/7 access to GHS-compliant Safety Data Sheets and product literature.'',
        [],
        lit ''## '' @ [0xD83E, 0xDDEA] @ lit '' Chemical Safety Information'',
        [],
        lit ''- **Total Products**: '' @ number_toString env (Some (int totalChemicals)),
        lit ''- **Total Documents**: '' @ number_toString env (Some (int (totalChemicals * 2))) @ lit '' (Literature + SDS per product)'',
        lit ''- **Compliance**: OSHA Hazard Communication Standard (29 CFR 1910.1200)'',
        lit ''- **Access**: 24/7 emergency access without barriers'',
        [],
        lit ''## '' @ [0xD83D, 0xDEA8] @ lit '' Emergency Access'',
        [],
        lit ''This safety information is available 24/7 without restrictions for emergency response and compliance purposes. No login or password required.'',
        [],
        lit ''## '' @ [0xD83D, 0xDCF1] @ lit '' Mobile Access'',
        [],
        lit ''All documents are optimized for mobile viewing and can be accessed via QR codes posted at chemical storage locations.'',
        [],
        lit ''## '' @ [0xD83D, 0xDEE1] @ [0xFE0F] @ lit '' Customer Responsibility'',
        [],
        lit ''**'' @ customerName @ lit ''** is solely responsible for ensuring the accuracy, completeness, and'',
        lit ''currency of all chemical safety information displayed on this site.'',
        [],
        lit ''## '' @ [0xD83C, 0xDFE2] @ lit '' System Provider'',
        [],
        lit ''Professional GHS Binder System provided by **RascoWeb, Inc.**'',
        [],
        lit ''*Generated on '' @ date @ lit ''*'']))"

definition createDirectoryStructure :: "env \<Rightarrow> jsstring \<Rightarrow> jsstring \<Rightarrow> unit io" where
  "createDirectoryStructure env repoName branch =
     io_bind
       (uploadFile env repoName (lit ''.nojekyll'') []
          (lit ''Disable Jekyll processing for GitHub Pages'') branch)
       (\<lambda>_. io_forEach [lit ''pdfs/.gitkeep'', lit ''assets/.gitkeep'', lit ''qr-codes/.gitkeep'']
          (\<lambda>dir. uploadFile env repoName dir []
             (lit ''Create '' @ takeWhile (\<lambda>c. c \<noteq> 0x2F) dir @ lit '' directory'') branch))"

record qr_codes =
  main_site :: jsstring
  mobile_optimized :: jsstring
  emergency_access :: jsstring

definition generateQRCodes :: "customer_config \<Rightarrow> qr_codes" where
  "generateQRCodes customerConfig =
     (let baseUrl = lit ''https://'' @ owner @ lit ''.github.io/''
                    @ gh_name (ci_github_repo (customer_info customerConfig))
      in \<lparr>main_site = baseUrl,
          mobile_optimized = baseUrl @ lit ''?mobile=1'',
          emergency_access = baseUrl @ lit ''?emergency=1''\<rparr>)"

record deployment_info =
  deployed_at :: jsstring
  version :: jsstring
  total_chemicals :: nat

record deploy_result =
  dr_success :: bool
  dr_repository :: repo
  dr_url :: jsstring
  dr_qr_codes :: qr_codes
  dr_deployment_info :: deployment_info

text \<open>Step 7 of \<open>deployCustomerSite\<close>, the loop that uploads the PDFs:
  \<^verbatim>\<open>
  const chemicals = customerConfig.chemicals || [];
  for (const chemical of chemicals) {
      const files = [ { type: 'Literature', data: chemical.literature },
                      { type: 'SDS', data: chemical.sds } ];
      for (const file of files) {
          if (!file.data?.filename) continue;
          const filename = file.data.filename;
          const pdfPath = path.join(__dirname, '..', 'pdfs', filename);
          if (!fs.existsSync(pdfPath)) {
              console.warn(`<warning sign>  ${file.type} PDF not found: ${pdfPath}`);
              continue;
          }
          const buffer = fs.readFileSync(pdfPath);
          await this.safeUploadBinary(this.owner, repoName, branch, `pdfs/${filename}`,
              buffer, `Upload ${file.type} PDF for ${chemical.name}`);
      }
  }\<close>\<close>

definition localPdfPath :: "env \<Rightarrow> jsstring \<Rightarrow> jsstring" where
  "localPdfPath env filename = path_join env [dirname env, lit ''..'', lit ''pdfs'', filename]"

definition not_found_warning :: "jsstring \<Rightarrow> jsstring \<Rightarrow> jsstring" where
  "not_found_warning type path =
     [0x26A0, 0xFE0F] @ lit ''  '' @ type @ lit '' PDF not found: '' @ path"

definition uploadPDF :: "env \<Rightarrow> jsstring \<Rightarrow> jsstring \<Rightarrow> chemical \<Rightarrow> jsstring \<times> doc_ref option \<Rightarrow> unit io" where
  "uploadPDF env repoName branch chemical file =
     (case file of (type, data) \<Rightarrow>
        if slot_filename data = [] then io_return ()
        else
          let filename = slot_filename data;
              pdfPath = localPdfPath env filename
          in if \<not> existsSync env pdfPath
             then io_emit (ConsoleWarn (not_found_warning type pdfPath))
             else
               io_bind (io_lift (readFile env pdfPath)) (\<lambda>buffer.
               safeUploadBinary env owner repoName branch (lit ''pdfs/'' @ filename) buffer
                 (lit ''Upload '' @ type @ lit '' PDF for '' @ chem_name chemical)))"

definition uploadPDFs :: "env \<Rightarrow> jsstring \<Rightarrow> jsstring \<Rightarrow> chemical list \<Rightarrow> unit io" where
  "uploadPDFs env repoName branch chems =
     io_forEach chems (\<lambda>chemical.
       io_forEach [(lit ''Literature'', chem_literature chemical), (lit ''SDS'', chem_sds chemical)]
         (uploadPDF env repoName branch chemical))"

text \<open>\<open>const branch = repo.default_branch || 'main';\<close>\<close>

definition deployBranch :: "repo \<Rightarrow> jsstring" where
  "deployBranch repo =
     (if repo_default_branch repo = [] then lit ''main'' else repo_default_branch repo)"

definition deployCustomerSite :: "env \<Rightarrow> customer_config \<Rightarrow> deploy_result io" where
  "deployCustomerSite env customerConfig =
     io_bind (createRepository env customerConfig) (\<lambda>repo.
     let repoName = repo_name repo;
         branch = deployBranch repo
     in
     io_bind (generateHTML env customerConfig) (\<lambda>html.
     io_bind (createDirectoryStructure env repoName branch) (\<lambda>_.
     io_bind (uploadFile env repoName (lit ''index.html'') html
                (lit ''Deploy GHS safety binder website'') branch) (\<lambda>_.
     io_bind (io_read (toLocaleDateString_now env)) (\<lambda>date.
     let readme = generateReadme env customerConfig date in
     io_bind (uploadFile env repoName (lit ''README.md'') readme
                (lit ''Add repository documentation'') branch) (\<lambda>_.
     let customerSlug = ci_slug (customer_info customerConfig) in
     io_bind (uploadCustomerAssets env repoName customerSlug branch) (\<lambda>_.
     let chems = chemicals customerConfig in
     io_bind (uploadPDFs env repoName branch chems) (\<lambda>_.
     io_bind (enablePages env repoName branch) (\<lambda>_.
     io_bind (io_emit (SetTimeout 10000)) (\<lambda>_.
     io_bind (verifyPDFsOnPages env repoName chems) (\<lambda>_.
     let qrCodes = generateQRCodes customerConfig in
     io_bind (io_read (toISOString_now env)) (\<lambda>now.
     io_return
       \<lparr>dr_success = True,
        dr_repository = repo,
        dr_url = lit ''https://'' @ owner @ lit ''.github.io/'' @ repo_name repo,
        dr_qr_codes = qrCodes,
        dr_deployment_info =
          \<lparr>deployed_at = now, version = lit ''1.0.0'',
           total_chemicals = length (chemicals customerConfig)\<rparr>\<rparr>))))))))))))"


subsection \<open>ChemicalManager\<close>

text \<open>The folder \<open>customer_configs\<close> as an association list from file names to the
  configurations that the files parse to, in the order of the directory listing;
  \<open>JSON.parse\<close> of what \<open>JSON.stringify\<close> wrote gives the configuration back, and
  writing a file of the folder does not fail. \<open>loadCustomerConfig\<close> reads
  \<open><slug>.json\<close>, which throws when there is no such file.\<close>

type_synonym config_store = "(jsstring \<times> customer_config) list"

definition loadCustomerConfig :: "config_store \<Rightarrow> jsstring \<Rightarrow> js_error + customer_config" where
  "loadCustomerConfig store customerSlug =
     (case map_of store (customerSlug @ lit ''.json'') of
        None \<Rightarrow> Inl (SystemError (lit ''ENOENT'') (customerSlug @ lit ''.json''))
      | Some config \<Rightarrow> Inr config)"

definition saveCustomerConfig :: "config_store \<Rightarrow> jsstring \<Rightarrow> customer_config \<Rightarrow> config_store" where
  "saveCustomerConfig store customerSlug config =
     AList.update (customerSlug @ lit ''.json'') config store"

text \<open>\<open>xs.findIndex(p)\<close>, with \<open>None\<close> for \<open>-1\<close>.\<close>

primrec findIndex :: "('a \<Rightarrow> bool) \<Rightarrow> 'a list \<Rightarrow> nat option" where
  "findIndex p [] = None"
| "findIndex p (x # xs) = (if p x then Some 0 else map_option Suc (findIndex p xs))"

text \<open>\<open>v || d\<close> for an optional string \<open>v\<close>.\<close>

definition or_default :: "jsstring option \<Rightarrow> jsstring \<Rightarrow> jsstring" where
  "or_default v d = (case v of None \<Rightarrow> d | Some s \<Rightarrow> if s = [] then d else s)"

text \<open>\<open>new Date().toISOString().split('T')[0]\<close>\<close>

definition today :: "env \<Rightarrow> call list \<Rightarrow> jsstring" where
  "today env h = takeWhile (\<lambda>c. c \<noteq> 0x54) (toISOString_now env h)"

text \<open>\<^verbatim>\<open>
  validateChemicalData(chemicalData) {
      const required = ['name', 'literature', 'sds'];
      const missing = required.filter(field => !chemicalData[field]);
      if (missing.length > 0) {
          throw new Error(`Missing required fields: ${missing.join(', ')}`);
      }
      if (!chemicalData.literature.filename || !chemicalData.sds.filename) {
          throw new Error('Literature and SDS filenames are required');
      }
      if (!chemicalData.literature.filename.endsWith('.pdf')) {
          throw new Error('Literature file must be a PDF');
      }
      if (!chemicalData.sds.filename.endsWith('.pdf')) {
          throw new Error('SDS file must be a PDF');
      }
  }\<close>\<close>

primrec join_comma :: "jsstring list \<Rightarrow> jsstring" where
  "join_comma [] = []"
| "join_comma (x # xs) = (if xs = [] then x else x @ lit '', '' @ join_comma xs)"

definition validateChemicalData :: "chemical_patch \<Rightarrow> js_error + unit" where
  "validateChemicalData chemicalData =
     (let missing =
            (if or_default (p_name chemicalData) [] = [] then [lit ''name''] else [])
            @ (if p_literature chemicalData = None then [lit ''literature''] else [])
            @ (if p_sds chemicalData = None then [lit ''sds''] else [])
      in if missing \<noteq> []
         then Inl (Error (lit ''Missing required fields: '' @ join_comma missing))
         else if slot_filename (p_literature chemicalData) = []
                 \<or> slot_filename (p_sds chemicalData) = []
         then Inl (Error (lit ''Literature and SDS filenames are required''))
         else if \<not> endsWith (slot_filename (p_literature chemicalData)) (lit ''.pdf'')
         then Inl (Error (lit ''Literature file must be a PDF''))
         else if \<not> endsWith (slot_filename (p_sds chemicalData)) (lit ''.pdf'')
         then Inl (Error (lit ''SDS file must be a PDF''))
         else Inr ())"

text \<open>\<open>Object.assign(chemical, updates)\<close>: every key that \<open>updates\<close> has replaces the
  value of the record.\<close>

definition Object_assign :: "chemical \<Rightarrow> chemical_patch \<Rightarrow> chemical" where
  "Object_assign chemical updates =
     \<lparr>chem_id = (case p_id updates of None \<Rightarrow> chem_id chemical | Some v \<Rightarrow> v),
      chem_name = (case p_name updates of None \<Rightarrow> chem_name chemical | Some v \<Rightarrow> v),
      chem_description =
        (case p_description updates of None \<Rightarrow> chem_description chemical | Some v \<Rightarrow> v),
      chem_hazards = (case p_hazards updates of None \<Rightarrow> chem_hazards chemical | Some v \<Rightarrow> v),
      chem_literature =
        (case p_literature updates of None \<Rightarrow> chem_literature chemical | Some v \<Rightarrow> Some v),
      chem_sds = (case p_sds updates of None \<Rightarrow> chem_sds chemical | Some v \<Rightarrow> Some v),
      chem_supplier = (case p_supplier updates of None \<Rightarrow> chem_supplier chemical | Some v \<Rightarrow> v),
      chem_last_updated =
        (case p_last_updated updates of None \<Rightarrow> chem_last_updated chemical | Some v \<Rightarrow> v),
      chem_active = (case p_active updates of None \<Rightarrow> chem_active chemical | Some v \<Rightarrow> v),
      chem_deactivated_date =
        (case p_deactivated_date updates of
           None \<Rightarrow> chem_deactivated_date chemical | Some v \<Rightarrow> Some v)\<rparr>"

record update_result =
  ur_success :: bool
  ur_updated_chemical :: chemical
  ur_deployment :: deploy_result

record add_result =
  ar_success :: bool
  ar_chemical :: chemical
  ar_deployment :: deploy_result
  ar_total_chemicals :: nat

record remove_result =
  rr_success :: bool
  rr_removed_chemical :: chemical
  rr_deployment :: deploy_result
  rr_total_chemicals :: nat

record list_result =
  lr_customer :: jsstring
  lr_total :: nat
  lr_active :: nat
  lr_inactive :: nat
  lr_chemicals :: "chemical list"

datatype add_outcome = Added add_result | Updated update_result

text \<open>The methods take the configuration folder and the trace and give both back. The
  configuration is saved before the site is redeployed, so a failed deployment leaves the
  saved change in place.\<close>

definition not_found :: "jsstring \<Rightarrow> js_error" where
  "not_found chemicalId = Error (lit ''Chemical '' @ [0x22] @ chemicalId @ [0x22] @ lit '' not found'')"

definition updateChemical ::
  "env \<Rightarrow> jsstring \<Rightarrow> jsstring \<Rightarrow> chemical_patch \<Rightarrow> config_store \<times> call list
     \<Rightarrow> (js_error + update_result) \<times> config_store \<times> call list" where
  "updateChemical env customerSlug chemicalId updates w =
     (case w of (store, h) \<Rightarrow>
      case loadCustomerConfig store customerSlug of
        Inl e \<Rightarrow> (Inl e, store, h)
      | Inr customerConfig \<Rightarrow>
         (case findIndex (\<lambda>c. chem_id c = chemicalId) (chemicals customerConfig) of
            None \<Rightarrow> (Inl (not_found chemicalId), store, h)
          | Some chemicalIndex \<Rightarrow>
             let chemical = (Object_assign (chemicals customerConfig ! chemicalIndex) updates)
                              \<lparr>chem_last_updated := today env h\<rparr>;
                 customerConfig = customerConfig
                   \<lparr>chemicals := (chemicals customerConfig)[chemicalIndex := chemical],
                    site_settings := (site_settings customerConfig)
                                       \<lparr>ss_last_updated := today env h\<rparr>\<rparr>;
                 store = saveCustomerConfig store customerSlug customerConfig
             in case deployCustomerSite env customerConfig h of
                  (Inl e, h') \<Rightarrow> (Inl e, store, h')
                | (Inr deployResult, h') \<Rightarrow>
                    (Inr \<lparr>ur_success = True, ur_updated_chemical = chemical,
                          ur_deployment = deployResult\<rparr>, store, h')))"

definition removeChemical ::
  "env \<Rightarrow> jsstring \<Rightarrow> jsstring \<Rightarrow> config_store \<times> call list
     \<Rightarrow> (js_error + remove_result) \<times> config_store \<times> call list" where
  "removeChemical env customerSlug chemicalId w =
     (case w of (store, h) \<Rightarrow>
      case loadCustomerConfig store customerSlug of
        Inl e \<Rightarrow> (Inl e, store, h)
      | Inr customerConfig \<Rightarrow>
         (case findIndex (\<lambda>c. chem_id c = chemicalId) (chemicals customerConfig) of
            None \<Rightarrow> (Inl (not_found chemicalId), store, h)
          | Some chemicalIndex \<Rightarrow>
             let chemical = (chemicals customerConfig ! chemicalIndex)
                              \<lparr>chem_active := False,
                               chem_deactivated_date := Some (today env h)\<rparr>;
                 customerConfig = customerConfig
                   \<lparr>chemicals := (chemicals customerConfig)[chemicalIndex := chemical],
                    site_settings := (site_settings customerConfig)
                                       \<lparr>ss_last_updated := today env h\<rparr>\<rparr>;
                 store = saveCustomerConfig store customerSlug customerConfig
             in case deployCustomerSite env customerConfig h of
                  (Inl e, h') \<Rightarrow> (Inl e, store, h')
                | (Inr deployResult, h') \<Rightarrow>
                    (Inr \<lparr>rr_success = True, rr_removed_chemical = chemical,
                          rr_deployment = deployResult,
                          rr_total_chemicals =
                            length (filter chem_active (chemicals customerConfig))\<rparr>,
                     store, h')))"

text \<open>The record that \<open>addChemical\<close> appends for a validated input.\<close>

definition newChemical :: "env \<Rightarrow> call list \<Rightarrow> jsstring \<Rightarrow> chemical_patch \<Rightarrow> chemical" where
  "newChemical env h chemicalId chemicalData =
     (let name = or_default (p_name chemicalData) [] in
      \<lparr>chem_id = chemicalId,
       chem_name = name,
       chem_description =
         or_default (p_description chemicalData) (lit ''Professional chemical product''),
       chem_hazards =
         or_default (p_hazards chemicalData)
           (lit ''See Safety Data Sheet for complete hazard information''),
       chem_literature =
         Some \<lparr>doc_filename = slot_filename (p_literature chemicalData),
               doc_url = Some (lit ''pdfs/'' @ slot_filename (p_literature chemicalData)),
               doc_title = Some (or_default
                 (case p_literature chemicalData of None \<Rightarrow> None | Some d \<Rightarrow> doc_title d)
                 (name @ lit '' Product Literature''))\<rparr>,
       chem_sds =
         Some \<lparr>doc_filename = slot_filename (p_sds chemicalData),
               doc_url = Some (lit ''pdfs/'' @ slot_filename (p_sds chemicalData)),
               doc_title = Some (or_default
                 (case p_sds chemicalData of None \<Rightarrow> None | Some d \<Rightarrow> doc_title d)
                 (name @ lit '' Safety Data Sheet''))\<rparr>,
       chem_supplier = or_default (p_supplier chemicalData) (lit ''Unknown Supplier''),
       chem_last_updated = today env h,
       chem_active = True,
       chem_deactivated_date = None\<rparr>)"

definition addChemical ::
  "env \<Rightarrow> jsstring \<Rightarrow> chemical_patch \<Rightarrow> config_store \<times> call list
     \<Rightarrow> (js_error + add_outcome) \<times> config_store \<times> call list" where
  "addChemical env customerSlug chemicalData w =
     (case w of (store, h) \<Rightarrow>
      case loadCustomerConfig store customerSlug of
        Inl e \<Rightarrow> (Inl e, store, h)
      | Inr customerConfig \<Rightarrow>
         (case validateChemicalData chemicalData of
            Inl e \<Rightarrow> (Inl e, store, h)
          | Inr u \<Rightarrow>
             let chemicalId = generateChemicalId (toLowerCase env)
                                (or_default (p_name chemicalData) [])
             in case findIndex (\<lambda>c. chem_id c = chemicalId) (chemicals customerConfig) of
                  Some existingIndex \<Rightarrow>
                    (case updateChemical env customerSlug chemicalId chemicalData (store, h) of
                       (Inl e, w') \<Rightarrow> (Inl e, w')
                     | (Inr r, w') \<Rightarrow> (Inr (Updated r), w'))
                | None \<Rightarrow>
                    let newChemical = newChemical env h chemicalId chemicalData;
                        customerConfig = customerConfig
                          \<lparr>chemicals := chemicals customerConfig @ [newChemical],
                           site_settings := (site_settings customerConfig)
                                              \<lparr>ss_last_updated := today env h\<rparr>\<rparr>;
                        store = saveCustomerConfig store customerSlug customerConfig
                    in case deployCustomerSite env customerConfig h of
                         (Inl e, h') \<Rightarrow> (Inl e, store, h')
                       | (Inr deployResult, h') \<Rightarrow>
                           (Inr (Added
                              \<lparr>ar_success = True, ar_chemical = newChemical,
                               ar_deployment = deployResult,
                               ar_total_chemicals =
                                 length (filter chem_active (chemicals customerConfig))\<rparr>),
                            store, h')))"

definition listChemicals :: "config_store \<Rightarrow> jsstring \<Rightarrow> bool \<Rightarrow> js_error + list_result" where
  "listChemicals store customerSlug includeInactive =
     (case loadCustomerConfig store customerSlug of
        Inl e \<Rightarrow> Inl e
      | Inr customerConfig \<Rightarrow>
          let chems = (if \<not> includeInactive then filter chem_active (chemicals customerConfig)
                       else chemicals customerConfig)
          in Inr \<lparr>lr_customer = ci_name (customer_info customerConfig),
                  lr_total = length chems,
                  lr_active = length (filter chem_active (chemicals customerConfig)),
                  lr_inactive = length (filter (\<lambda>c. \<not> chem_active c) (chemicals customerConfig)),
                  lr_chemicals = chems\<rparr>)"

subsection \<open>GHSManagementDashboard: the file status report\<close>

record customer_summary =
  cs_name :: jsstring
  cs_slug :: jsstring
  cs_url :: jsstring
  cs_chemicals :: nat
  cs_last_updated :: jsstring

text \<open>\<open>GHSBinderDeployer.listCustomerSites\<close>: one summary for each \<open>.json\<close> file of the
  configuration folder but \<open>customer_template.json\<close>.\<close>

definition listCustomerSites :: "config_store \<Rightarrow> customer_summary list" where
  "listCustomerSites store =
     map (\<lambda>(configFile, customerConfig).
            \<lparr>cs_name = ci_name (customer_info customerConfig),
             cs_slug = ci_slug (customer_info customerConfig),
             cs_url = lit ''https://'' @ owner @ lit ''.github.io/''
                      @ gh_name (ci_github_repo (customer_info customerConfig)),
             cs_chemicals = length (filter chem_active (chemicals customerConfig)),
             cs_last_updated = ss_last_updated (site_settings customerConfig)\<rparr>)
         (filter (\<lambda>(configFile, customerConfig).
                    endsWith configFile (lit ''.json'')
                    \<and> configFile \<noteq> lit ''customer_template.json'') store)"

record missing_file =
  mf_type :: jsstring
  mf_chemical :: jsstring
  mf_filename :: jsstring

record file_status =
  fs_customer :: jsstring
  fs_slug :: jsstring
  fs_totalFiles :: nat
  fs_totalChemicals :: nat
  fs_missingFiles :: nat
  fs_orphanedFiles :: nat
  fs_missingFilesList :: "missing_file list"
  fs_orphanedFilesList :: "jsstring list"
  fs_status :: jsstring

datatype status_entry = Status file_status | StatusError jsstring jsstring jsstring jsstring

text \<open>One slot of one chemical in the \<open>forEach\<close> of \<open>handleFileStatus\<close>; the state is
  the pair of \<open>missingFiles\<close> and \<open>orphanedFiles\<close>:
  \<^verbatim>\<open>
  if (chemical.literature && chemical.literature.filename) {
      if (!files.includes(chemical.literature.filename)) {
          missingFiles.push({ type: 'literature', chemical: chemical.name,
                              filename: chemical.literature.filename });
      } else {
          const index = orphanedFiles.indexOf(chemical.literature.filename);
          if (index > -1) orphanedFiles.splice(index, 1);
      }
  }\<close>\<close>

definition checkSlot ::
  "jsstring list \<Rightarrow> jsstring \<Rightarrow> chemical \<Rightarrow> doc_ref option
     \<Rightarrow> missing_file list \<times> jsstring list \<Rightarrow> missing_file list \<times> jsstring list" where
  "checkSlot files type chemical slot st =
     (case st of (missingFiles, orphanedFiles) \<Rightarrow>
        if slot_filename slot = [] then (missingFiles, orphanedFiles)
        else if \<not> List.member files (slot_filename slot)
        then (missingFiles @ [\<lparr>mf_type = type, mf_chemical = chem_name chemical,
                                mf_filename = slot_filename slot\<rparr>], orphanedFiles)
        else (missingFiles, remove1 (slot_filename slot) orphanedFiles))"

definition reconcile :: "jsstring list \<Rightarrow> chemical list \<Rightarrow> missing_file list \<times> jsstring list" where
  "reconcile files chems =
     foldl (\<lambda>st chemical.
              checkSlot files (lit ''sds'') chemical (chem_sds chemical)
                (checkSlot files (lit ''literature'') chemical (chem_literature chemical) st))
           ([], files) chems"

definition fileStatusEntry :: "env \<Rightarrow> config_store \<Rightarrow> customer_summary \<Rightarrow> status_entry" where
  "fileStatusEntry env store customer =
     (case loadCustomerConfig store (cs_slug customer) of
        Inl e \<Rightarrow>
          StatusError (cs_name customer) (cs_slug customer)
            (lit ''Could not load customer configuration'') (lit ''error'')
      | Inr customerConfig \<Rightarrow>
          let filesDir = path_join env [dirname env, lit ''../uploads'', cs_slug customer];
              files = (case readdir env filesDir of Inl dirError \<Rightarrow> [] | Inr names \<Rightarrow> names);
              chems = chemicals customerConfig
          in case reconcile files chems of (missingFiles, orphanedFiles) \<Rightarrow>
             Status \<lparr>fs_customer = cs_name customer,
                     fs_slug = cs_slug customer,
                     fs_totalFiles = length files,
                     fs_totalChemicals = length chems,
                     fs_missingFiles = length missingFiles,
                     fs_orphanedFiles = length orphanedFiles,
                     fs_missingFilesList = missingFiles,
                     fs_orphanedFilesList = orphanedFiles,
                     fs_status = (if length missingFiles = 0 then lit ''complete''
                                  else lit ''incomplete'')\<rparr>)"

definition handleFileStatus :: "env \<Rightarrow> config_store \<Rightarrow> status_entry list" where
  "handleFileStatus env store = map (fileStatusEntry env store) (listCustomerSites store)"

subsection \<open>Observations on a trace, and conditions on the outside world\<close>

text \<open>The commits and the warnings in a trace, in order.\<close>

definition commits_of :: "call list \<Rightarrow> file_commit list" where
  "commits_of t = concat (map (\<lambda>c. case c of CreateOrUpdateFileContents fc \<Rightarrow> [fc] | _ \<Rightarrow> []) t)"

definition warnings_of :: "call list \<Rightarrow> jsstring list" where
  "warnings_of t = concat (map (\<lambda>c. case c of ConsoleWarn w \<Rightarrow> [w] | _ \<Rightarrow> []) t)"

text \<open>A call names the branch \<open>b\<close> wherever it names a branch.\<close>

definition uses_branch :: "jsstring \<Rightarrow> call \<Rightarrow> bool" where
  "uses_branch b c =
     (case c of
        GetContent ownr rn path ref \<Rightarrow> ref = b
      | CreateOrUpdateFileContents fc \<Rightarrow> fc_branch fc = b
      | CreatePagesSite ownr rn br path \<Rightarrow> br = b
      | _ \<Rightarrow> True)"

text \<open>Whatever the outcome, the computation \<open>m\<close> only appends calls that satisfy \<open>P\<close>.\<close>

definition emits :: "(call \<Rightarrow> bool) \<Rightarrow> 'a io \<Rightarrow> bool" where
  "emits P m = (\<forall>h. \<exists>t. snd (m h) = h @ t \<and> list_all P t)"

text \<open>The computation \<open>m\<close> returns normally from every trace.\<close>

definition succeeds :: "'a io \<Rightarrow> bool" where
  "succeeds m = (\<forall>h. \<exists>x h'. m h = (Inr x, h'))"

text \<open>The document slots of a chemical list that name a file, with the label the
  deployment prints for them, and the content of a local file.\<close>

definition pdf_slots :: "chemical list \<Rightarrow> (jsstring \<times> chemical \<times> jsstring) list" where
  "pdf_slots chems =
     concat (map (\<lambda>chemical.
        filter (\<lambda>(type, c, filename). filename \<noteq> [])
          [(lit ''Literature'', chemical, slot_filename (chem_literature chemical)),
           (lit ''SDS'', chemical, slot_filename (chem_sds chemical))]) chems)"

definition file_bytes :: "env \<Rightarrow> jsstring \<Rightarrow> bytes" where
  "file_bytes env p = (case local_fs env p of Some (File b) \<Rightarrow> b | _ \<Rightarrow> [])"

text \<open>What Step 7 is expected to commit and to print for a list of slots: a commit of
  \<open>pdfs/<filename>\<close> with the base64 of the file's bytes for every slot whose file
  exists locally, a warning for every slot whose file does not.\<close>

definition present_documents ::
  "env \<Rightarrow> (jsstring \<times> chemical \<times> jsstring) list \<Rightarrow> (jsstring \<times> jsstring) list" where
  "present_documents env slots =
     map (\<lambda>(type, c, filename).
            (lit ''pdfs/'' @ filename,
             toString_base64 env (file_bytes env (localPdfPath env filename))))
         (filter (\<lambda>(type, c, filename). existsSync env (localPdfPath env filename)) slots)"

definition missing_warnings ::
  "env \<Rightarrow> (jsstring \<times> chemical \<times> jsstring) list \<Rightarrow> jsstring list" where
  "missing_warnings env slots =
     map (\<lambda>(type, c, filename). not_found_warning type (localPdfPath env filename))
         (filter (\<lambda>(type, c, filename). \<not> existsSync env (localPdfPath env filename)) slots)"

text \<open>GitHub accepts every request of a deployment: the probe finds the file or answers
  404, every commit is accepted, and Pages is enabled or answers 409.\<close>

definition github_accepts :: "env \<Rightarrow> bool" where
  "github_accepts env =
     (\<forall>h c. (case octokit_getContent env h c of
                Inl e \<Rightarrow> error_status e = Some 404 | Inr sha \<Rightarrow> True)
           \<and> octokit_createOrUpdateFileContents env h c = Inr ()
           \<and> (case octokit_createPagesSite env h c of
                Inl e \<Rightarrow> error_status e = Some 409 | Inr u \<Rightarrow> True))"

text \<open>No document path of the chemicals is a directory; the customer's asset folder, if
  there is one, is a directory whose entries all exist; every published document is served
  in a way that passes verification.\<close>

definition pdfs_readable :: "env \<Rightarrow> chemical list \<Rightarrow> bool" where
  "pdfs_readable env chems =
     list_all (\<lambda>(type, c, filename).
        case local_fs env (localPdfPath env filename) of
          Some (Directory names) \<Rightarrow> False | _ \<Rightarrow> True) (pdf_slots chems)"

definition assets_readable :: "env \<Rightarrow> jsstring \<Rightarrow> bool" where
  "assets_readable env customerSlug =
     (let customerAssetsPath = path_join env [dirname env, lit ''..'', lit ''assets'', customerSlug]
      in case local_fs env customerAssetsPath of
           None \<Rightarrow> True
         | Some (File b) \<Rightarrow> False
         | Some (Directory names) \<Rightarrow>
             list_all (\<lambda>n. local_fs env (path_join env [customerAssetsPath, n]) \<noteq> None) names)"

definition documents_served :: "env \<Rightarrow> bool" where
  "documents_served env =
     (\<forall>h c. case fetch env h c of Inl e \<Rightarrow> False | Inr res \<Rightarrow> passes_verification res)"

subsection \<open>A concrete environment for running the model\<close>

text \<open>Stand-ins for the library functions and an outside world in which every request
  succeeds: no file exists in the repository yet (the probe answers 404), every commit is
  accepted and every published document is served as a PDF of 2048 bytes. Two PDFs,
  \<open>a.pdf\<close> and \<open>old.pdf\<close>, are present in the local \<open>pdfs\<close> folder. The
  customer \<open>acme\<close> has one active chemical, whose SDS \<open>b.pdf\<close> is not there, and
  one chemical that was removed.\<close>

function decimal_nat :: "nat \<Rightarrow> jsstring" where
  "decimal_nat n =
     (if n < 10 then [of_nat (48 + n)] else decimal_nat (n div 10) @ [of_nat (48 + n mod 10)])"
  by pat_completeness auto
termination
  by (relation "measure id") auto

definition decimal :: "int option \<Rightarrow> jsstring" where
  "decimal v =
     (case v of None \<Rightarrow> lit ''NaN''
      | Some i \<Rightarrow> if i < 0 then 0x2D # decimal_nat (nat (- i)) else decimal_nat (nat i))"

primrec join_with_slash :: "jsstring list \<Rightarrow> jsstring" where
  "join_with_slash [] = []"
| "join_with_slash (p # ps) = (if ps = [] then p else p @ [0x2F] @ join_with_slash ps)"

definition test_env :: env where
  "test_env =
     \<lparr>toLowerCase = ascii_toLowerCase,
      toString_base64 = map ucast,
      Buffer_from = map ucast,
      number_toString = decimal,
      JSON_stringify_chemicals = (\<lambda>cs. concat (map (\<lambda>c. chem_id c @ lit '';'') cs)),
      JSON_stringify_customer = (\<lambda>(n, c, b). n),
      mustache_render = (\<lambda>template d. template @ PRODUCTS_JSON d),
      path_join = join_with_slash,
      dirname = lit ''/app'',
      local_fs = map_of [(lit ''/app/../pdfs/a.pdf'', File [0x25, 0x50, 0x44, 0x46]),
                         (lit ''/app/../pdfs/old.pdf'', File [0x25, 0x50])],
      readFile_utf8 = (\<lambda>p. Inr (lit ''<html>'')),
      toISOString_now = (\<lambda>h. lit ''2025-07-28T12:00:00.000Z''),
      toLocaleDateString_now = (\<lambda>h. lit ''7/28/2025''),
      octokit_createForAuthenticatedUser =
        (\<lambda>h c. case c of
           CreateForAuthenticatedUser p \<Rightarrow>
             Inr \<lparr>repo_name = cp_name p, repo_default_branch = lit ''main'',
                  repo_html_url = lit ''https://github.com/rascoused/'' @ cp_name p\<rparr>
         | _ \<Rightarrow> Inl (Error (lit ''bad request''))),
      octokit_get =
        (\<lambda>h c. case c of
           ReposGet ownr rn \<Rightarrow>
             Inr \<lparr>repo_name = rn, repo_default_branch = lit ''master'',
                  repo_html_url = lit ''https://github.com/rascoused/'' @ rn\<rparr>
         | _ \<Rightarrow> Inl (Error (lit ''bad request''))),
      octokit_getContent = (\<lambda>h c. Inl (RequestError 404 (lit ''Not Found''))),
      octokit_createOrUpdateFileContents = (\<lambda>h c. Inr ()),
      octokit_createPagesSite = (\<lambda>h c. Inr ()),
      fetch = (\<lambda>h c. Inr \<lparr>res_status = 200, res_content_type = Some (lit ''application/pdf''),
                             res_content_length = Some (lit ''2048'')\<rparr>)\<rparr>"


definition floor_cleaner :: chemical where
  "floor_cleaner =
     \<lparr>chem_id = lit ''floor-cleaner'', chem_name = lit ''Floor Cleaner'',
      chem_description = lit ''Cleaner'', chem_hazards = lit ''Irritant'',
      chem_literature = Some \<lparr>doc_filename = lit ''a.pdf'', doc_url = Some (lit ''pdfs/a.pdf''),
                               doc_title = None\<rparr>,
      chem_sds = Some \<lparr>doc_filename = lit ''b.pdf'', doc_url = Some (lit ''pdfs/b.pdf''),
                        doc_title = None\<rparr>,
      chem_supplier = lit ''S'', chem_last_updated = lit ''2025-07-01'',
      chem_active = True, chem_deactivated_date = None\<rparr>"

definition old_wax :: chemical where
  "old_wax =
     \<lparr>chem_id = lit ''old-wax'', chem_name = lit ''Old Wax'',
      chem_description = lit ''Wax'', chem_hazards = lit ''None'',
      chem_literature = Some \<lparr>doc_filename = lit ''old.pdf'', doc_url = Some (lit ''pdfs/old.pdf''),
                               doc_title = None\<rparr>,
      chem_sds = None,
      chem_supplier = lit ''S'', chem_last_updated = lit ''2025-06-01'',
      chem_active = False, chem_deactivated_date = Some (lit ''2025-06-15'')\<rparr>"

definition acme :: customer_config where
  "acme =
     \<lparr>customer_info =
        \<lparr>ci_name = lit ''Acme'', ci_slug = lit ''acme'',
         ci_contact = \<lparr>contact_company = lit ''Acme'', contact_phone = lit ''555'',
                       contact_email = [], contact_emergency = lit ''911'', contact_address = []\<rparr>,
         ci_branding = \<lparr>logo_url = lit ''assets/customer_logo.png'', primary_color = lit ''#3498db'',
                        secondary_color = lit ''#2c3e50''\<rparr>,
         ci_github_repo = \<lparr>gh_name = lit ''acme-ghs-binder'',
                           gh_url = lit ''https://rasco-inc.github.io/acme-ghs-binder'',
                           gh_custom_domain = []\<rparr>\<rparr>,
      chemicals = [floor_cleaner, old_wax],
      site_settings = \<lparr>ss_last_updated = lit ''2025-07-01'',
                        ss_generation_date = lit ''2025-07-01T00:00:00.000Z'',
                        ss_complete_binder = None\<rparr>\<rparr>"

text \<open>Variants of that world: the repository name is already taken, so that creation
  answers 422 and the existing repository has the default branch \<open>master\<close>; creation
  fails with a server error; the site serves an HTML page with status 200 for every URL.\<close>

definition conflict_env :: env where
  "conflict_env =
     test_env\<lparr>octokit_createForAuthenticatedUser :=
       \<lambda>h c. Inl (RequestError 422 (lit ''Repository creation failed.''))\<rparr>"

definition broken_env :: env where
  "broken_env =
     test_env\<lparr>octokit_createForAuthenticatedUser :=
       \<lambda>h c. Inl (RequestError 500 (lit ''Server Error''))\<rparr>"

definition html_env :: env where
  "html_env =
     test_env\<lparr>fetch := \<lambda>h c. Inr \<lparr>res_status = 200, res_content_type = Some (lit ''text/html''),
                                    res_content_length = Some (lit ''5000'')\<rparr>\<rparr>"

definition acme_repo :: "jsstring \<Rightarrow> repo" where
  "acme_repo branch =
     \<lparr>repo_name = lit ''acme-ghs-binder'', repo_default_branch = branch,
      repo_html_url = lit ''https://github.com/rascoused/acme-ghs-binder''\<rparr>"

text \<open>The configuration folder with the one customer \<open>acme\<close>; an input for
  \<open>addChemical\<close> that names the active chemical of \<open>acme\<close> and carries an \<open>id\<close> key
  of its own, the id of the other chemical; an input for a chemical that \<open>acme\<close> does
  not have; the configuration folder where \<open>acme\<close> has its active chemical only, which
  refers to \<open>a.pdf\<close> and \<open>b.pdf\<close>; a world where the staging directory of \<open>acme\<close>
  holds \<open>b.pdf\<close> and \<open>c.pdf\<close>; the summary that \<open>listCustomerSites\<close> gives of \<open>acme\<close>.\<close>

definition acme_store :: config_store where
  "acme_store = [(lit ''acme.json'', acme)]"

definition relabel_input :: chemical_patch where
  "relabel_input =
     \<lparr>p_id = Some (lit ''old-wax''), p_name = Some (lit ''Floor Cleaner''),
      p_description = None, p_hazards = None,
      p_literature = Some \<lparr>doc_filename = lit ''a.pdf'', doc_url = None, doc_title = None\<rparr>,
      p_sds = Some \<lparr>doc_filename = lit ''b.pdf'', doc_url = None, doc_title = None\<rparr>,
      p_supplier = None, p_last_updated = None, p_active = None, p_deactivated_date = None\<rparr>"

definition glass_cleaner_input :: chemical_patch where
  "glass_cleaner_input =
     \<lparr>p_id = None, p_name = Some (lit ''Glass Cleaner''),
      p_description = None, p_hazards = None,
      p_literature = Some \<lparr>doc_filename = lit ''x_lit.pdf'', doc_url = None, doc_title = None\<rparr>,
      p_sds = Some \<lparr>doc_filename = lit ''x_sds.pdf'', doc_url = None, doc_title = None\<rparr>,
      p_supplier = None, p_last_updated = None, p_active = None, p_deactivated_date = None\<rparr>"

definition active_store :: config_store where
  "active_store = [(lit ''acme.json'', acme\<lparr>chemicals := [floor_cleaner]\<rparr>)]"

definition staging_env :: env where
  "staging_env =
     test_env\<lparr>local_fs := (local_fs test_env)
       (lit ''/app/../uploads/acme'' \<mapsto> Directory [lit ''b.pdf'', lit ''c.pdf''])\<rparr>"

definition acme_summary :: customer_summary where
  "acme_summary =
     \<lparr>cs_name = lit ''Acme'', cs_slug = lit ''acme'',
      cs_url = lit ''https://'' @ owner @ lit ''.github.io/'' @ lit ''acme-ghs-binder'',
      cs_chemicals = 1, cs_last_updated = lit ''2025-07-01''\<rparr>"

text \<open>Further variants: the existing repository has the default branch \<open>trunk\<close>; the
  site serves every document as a PDF whose \<open>content-length\<close> header is not a number.\<close>

definition trunk_env :: env where
  "trunk_env =
     conflict_env\<lparr>octokit_get :=
       \<lambda>h c. case c of
           ReposGet ownr rn \<Rightarrow>
             Inr \<lparr>repo_name = rn, repo_default_branch = lit ''trunk'',
                  repo_html_url = lit ''https://github.com/rascoused/'' @ rn\<rparr>
         | _ \<Rightarrow> Inl (Error (lit ''bad request''))\<rparr>"


section \<open>Properties\<close>

subsection \<open>Chemical ids\<close>

lemma replace_spaces_chars:
  "\<forall>c \<in> set s. is_az09 c \<or> is_space c \<Longrightarrow>
   \<forall>c \<in> set (replace_spaces s). is_az09 c \<or> c = hyphen"
proof (induction s rule: replace_spaces.induct)
  case 1
  show ?case by simp
next
  case (2 c cs)
  show ?case
  proof (cases "is_space c")
    case True
    have "\<forall>x \<in> set (dropWhile is_space cs). is_az09 x \<or> is_space x"
      using "2.prems" by (auto dest: set_dropWhileD)
    with True "2.IH"(1) show ?thesis by simp
  next
    case False
    with "2.prems" "2.IH"(2) show ?thesis by simp
  qed
qed

text \<open>
  Claim C6. For every chemical name the derived id consists only of the lowercase letters
  a to z, the digits and the hyphen, and has at most 50 code units; the id is a function of
  the name alone (the source reads nothing but its argument), so the same name always gives
  the same id. This holds for every case mapping the runtime may implement.
\<close>

theorem generateChemicalId_charset_length_stable:
  "(\<forall>c \<in> set (generateChemicalId lower name). is_az09 c \<or> c = hyphen)
   \<and> length (generateChemicalId lower name) \<le> 50
   \<and> (\<forall>name'. name' = name \<longrightarrow>
         generateChemicalId lower name' = generateChemicalId lower name)"
proof -
  have "\<forall>c \<in> set (replace_spaces (filter (\<lambda>c. is_az09 c \<or> is_space c) (lower name))).
          is_az09 c \<or> c = hyphen"
    by (rule replace_spaces_chars) simp
  then have "\<forall>c \<in> set (generateChemicalId lower name). is_az09 c \<or> c = hyphen"
    unfolding generateChemicalId_def by (auto dest: in_set_takeD)
  moreover have "length (generateChemicalId lower name) \<le> 50"
    unfolding generateChemicalId_def by simp
  ultimately show ?thesis by simp
qed

theorem generateChemicalId_witness:
  "list_all (\<lambda>c. is_az09 c \<or> c = hyphen)
     (generateChemicalId ascii_toLowerCase (lit ''Floor  Cleaner #20!''))
   \<and> length (generateChemicalId ascii_toLowerCase (lit ''Floor  Cleaner #20!'')) \<le> 50
   \<and> generateChemicalId ascii_toLowerCase (lit ''Floor  Cleaner #20!'') = lit ''floor-cleaner-20''"
proof -
  have "generateChemicalId ascii_toLowerCase (lit ''Floor  Cleaner #20!'') = lit ''floor-cleaner-20''"
    by (simp add: generateChemicalId_def ascii_toLowerCase_def lit_def is_az09_def is_digit_def
        is_space_def hyphen_def)
  moreover note generateChemicalId_charset_length_stable
      [of ascii_toLowerCase "lit ''Floor  Cleaner #20!''"]
  ultimately show ?thesis unfolding list_all_iff by blast
qed

subsection \<open>The existence probe of the upload methods\<close>

text \<open>
  Claim C3. Both upload methods, \<open>safeUploadBinary\<close> for binary and \<open>uploadFile\<close> for
  text content, first ask for the file at the target path on the branch. When that probe
  fails with status 404 the commit is made without a revision marker, and the outcome of
  the method is the outcome of the commit; when it fails with any other error (a status
  such as 500, or none) the method stops there and throws that error, without committing;
  when it finds the file the commit carries the marker it returned.
\<close>

theorem upload_probe_not_found_vs_other:
  "(octokit_getContent env h (GetContent ownr repo filePath branch) = Inl e
      \<and> error_status e = Some 404 \<longrightarrow>
     safeUploadBinary env ownr repo branch filePath fileBuffer commitMessage h
       = (octokit_createOrUpdateFileContents env (h @ [GetContent ownr repo filePath branch])
            (CreateOrUpdateFileContents
              \<lparr>fc_owner = ownr, fc_repo = repo, fc_path = filePath, fc_message = commitMessage,
               fc_content = toString_base64 env fileBuffer, fc_branch = branch, fc_sha = None\<rparr>),
          h @ [GetContent ownr repo filePath branch,
               CreateOrUpdateFileContents
              \<lparr>fc_owner = ownr, fc_repo = repo, fc_path = filePath, fc_message = commitMessage,
               fc_content = toString_base64 env fileBuffer, fc_branch = branch, fc_sha = None\<rparr>]))
   \<and> (octokit_getContent env h (GetContent ownr repo filePath branch) = Inl e
      \<and> error_status e \<noteq> Some 404 \<longrightarrow>
     safeUploadBinary env ownr repo branch filePath fileBuffer commitMessage h
       = (Inl e, h @ [GetContent ownr repo filePath branch]))
   \<and> (octokit_getContent env h (GetContent ownr repo filePath branch) = Inr sha \<longrightarrow>
     safeUploadBinary env ownr repo branch filePath fileBuffer commitMessage h
       = (octokit_createOrUpdateFileContents env (h @ [GetContent ownr repo filePath branch])
            (CreateOrUpdateFileContents
              \<lparr>fc_owner = ownr, fc_repo = repo, fc_path = filePath, fc_message = commitMessage,
               fc_content = toString_base64 env fileBuffer, fc_branch = branch, fc_sha = sha\<rparr>),
          h @ [GetContent ownr repo filePath branch,
               CreateOrUpdateFileContents
              \<lparr>fc_owner = ownr, fc_repo = repo, fc_path = filePath, fc_message = commitMessage,
               fc_content = toString_base64 env fileBuffer, fc_branch = branch, fc_sha = sha\<rparr>]))
   \<and> (octokit_getContent env h (GetContent owner repo filePath branch) = Inl e
      \<and> error_status e = Some 404 \<longrightarrow>
     uploadFile env repo filePath content commitMessage branch h
       = (octokit_createOrUpdateFileContents env (h @ [GetContent owner repo filePath branch])
            (CreateOrUpdateFileContents
              \<lparr>fc_owner = owner, fc_repo = repo, fc_path = filePath, fc_message = commitMessage,
               fc_content = toString_base64 env (Buffer_from env content), fc_branch = branch,
               fc_sha = None\<rparr>),
          h @ [GetContent owner repo filePath branch,
               CreateOrUpdateFileContents
              \<lparr>fc_owner = owner, fc_repo = repo, fc_path = filePath, fc_message = commitMessage,
               fc_content = toString_base64 env (Buffer_from env content), fc_branch = branch,
               fc_sha = None\<rparr>]))
   \<and> (octokit_getContent env h (GetContent owner repo filePath branch) = Inl e
      \<and> error_status e \<noteq> Some 404 \<longrightarrow>
     uploadFile env repo filePath content commitMessage branch h
       = (Inl e, h @ [GetContent owner repo filePath branch]))
   \<and> (octokit_getContent env h (GetContent owner repo filePath branch) = Inr sha \<longrightarrow>
     uploadFile env repo filePath content commitMessage branch h
       = (octokit_createOrUpdateFileContents env (h @ [GetContent owner repo filePath branch])
            (CreateOrUpdateFileContents
              \<lparr>fc_owner = owner, fc_repo = repo, fc_path = filePath, fc_message = commitMessage,
               fc_content = toString_base64 env (Buffer_from env content), fc_branch = branch,
               fc_sha = sha\<rparr>),
          h @ [GetContent owner repo filePath branch,
               CreateOrUpdateFileContents
              \<lparr>fc_owner = owner, fc_repo = repo, fc_path = filePath, fc_message = commitMessage,
               fc_content = toString_base64 env (Buffer_from env content), fc_branch = branch,
               fc_sha = sha\<rparr>]))"
  by (simp add: safeUploadBinary_def uploadFile_def io_bind_def io_catch_def io_call_def
      io_throw_def io_return_def Let_def)

theorem upload_probe_witness:
  "safeUploadBinary test_env owner (lit ''r'') (lit ''main'') (lit ''a.pdf'') [1, 2] (lit ''m'') []
     = (Inr (), [GetContent owner (lit ''r'') (lit ''a.pdf'') (lit ''main''),
                 CreateOrUpdateFileContents
                   \<lparr>fc_owner = owner, fc_repo = lit ''r'', fc_path = lit ''a.pdf'',
                    fc_message = lit ''m'', fc_content = [1, 2], fc_branch = lit ''main'',
                    fc_sha = None\<rparr>])
   \<and> safeUploadBinary
        (test_env\<lparr>octokit_getContent := \<lambda>h c. Inl (RequestError 500 (lit ''Server Error''))\<rparr>)
        owner (lit ''r'') (lit ''main'') (lit ''a.pdf'') [1, 2] (lit ''m'') []
     = (Inl (RequestError 500 (lit ''Server Error'')),
        [GetContent owner (lit ''r'') (lit ''a.pdf'') (lit ''main'')])
   \<and> fst (uploadFile test_env (lit ''r'') (lit ''a.pdf'') (lit ''x'') (lit ''m'') (lit ''main'') [])
     = Inr ()
   \<and> uploadFile
        (test_env\<lparr>octokit_getContent := \<lambda>h c. Inl (RequestError 500 (lit ''Server Error''))\<rparr>)
        (lit ''r'') (lit ''a.pdf'') (lit ''x'') (lit ''m'') (lit ''main'') []
     = (Inl (RequestError 500 (lit ''Server Error'')),
        [GetContent owner (lit ''r'') (lit ''a.pdf'') (lit ''main'')])"
  using upload_probe_not_found_vs_other
      [where env = test_env and h = "[]" and ownr = owner and repo = "lit ''r''"
         and filePath = "lit ''a.pdf''" and branch = "lit ''main''"
         and e = "RequestError 404 (lit ''Not Found'')" and fileBuffer = "[1, 2]"
         and commitMessage = "lit ''m''" and content = "lit ''x''"]
    upload_probe_not_found_vs_other
      [where env = "test_env\<lparr>octokit_getContent := \<lambda>h c. Inl (RequestError 500 (lit ''Server Error''))\<rparr>"
         and h = "[]" and ownr = owner and repo = "lit ''r''"
         and filePath = "lit ''a.pdf''" and branch = "lit ''main''"
         and e = "RequestError 500 (lit ''Server Error'')" and fileBuffer = "[1, 2]"
         and commitMessage = "lit ''m''" and content = "lit ''x''"]
  by (simp add: test_env_def)

subsection \<open>Laws of the monad\<close>

lemma io_bind_Inr: "m h = (Inr x, h1) \<Longrightarrow> io_bind m f h = f x h1"
  by (simp add: io_bind_def)

lemma io_bind_Inl: "m h = (Inl e, h1) \<Longrightarrow> io_bind m f h = (Inl e, h1)"
  by (simp add: io_bind_def)

lemma io_bind_InrE:
  assumes "io_bind m f h = (Inr y, h2)"
  obtains x h1 where "m h = (Inr x, h1)" and "f x h1 = (Inr y, h2)"
  using assms by (auto simp: io_bind_def split: prod.splits sum.splits)

lemma io_bind_assoc: "io_bind (io_bind m f) g = io_bind m (\<lambda>x. io_bind (f x) g)"
  by (auto simp: io_bind_def fun_eq_iff split: prod.splits sum.splits)

lemma io_return_bind: "io_bind (io_return x) f = f x"
  by (simp add: io_bind_def io_return_def)

lemma io_bind_return: "io_bind m io_return = m"
  by (auto simp: io_bind_def io_return_def fun_eq_iff split: prod.splits sum.splits)

lemma io_bind_return_unit: "io_bind m (\<lambda>_. io_return ()) = (m :: unit io)"
  by (auto simp: io_bind_def io_return_def fun_eq_iff split: prod.splits sum.splits)

lemma io_forEach_append:
  "io_forEach (xs @ ys) body = io_bind (io_forEach xs body) (\<lambda>_. io_forEach ys body)"
  by (induction xs) (simp_all add: io_return_bind io_bind_assoc)

lemma io_forEach_map: "io_forEach (map f xs) body = io_forEach xs (\<lambda>x. body (f x))"
  by (induction xs) simp_all

lemma io_forEach_concat:
  "io_forEach (concat xss) body = io_forEach xss (\<lambda>xs. io_forEach xs body)"
  by (induction xss) (simp_all add: io_forEach_append)

subsection \<open>Verification\<close>

lemma verifyPDFsOnPages_flat:
  "verifyPDFsOnPages env repoName chems = io_forEach (pdf_urls repoName chems) (verifyUrl env)"
  by (simp add: verifyPDFsOnPages_def pdf_urls_def io_forEach_concat io_forEach_map Let_def)

lemma checkResponse_run:
  "checkResponse env res h = (r, h') \<Longrightarrow>
     h' = h \<and> (case r of Inr _ \<Rightarrow> passes_verification res
                | Inl e \<Rightarrow> \<not> passes_verification res \<and> (\<exists>m. e = Error m))"
  by (auto simp: checkResponse_def passes_verification_def io_throw_def io_return_def Let_def
      split: if_splits)


lemma verifyUrl_run:
  "verifyUrl env url h = (r, h') \<Longrightarrow>
     h' = h @ [FetchHead url] \<and>
     (case r of Inr _ \<Rightarrow> url_passes env h url
      | Inl e \<Rightarrow> \<not> url_passes env h url
          \<and> (\<exists>m. e = Error (lit ''Verification failed for '' @ url @ lit '': '' @ m)))"
  apply (cases "fetch env h (FetchHead url)")
   apply (auto simp: verifyUrl_def url_passes_def io_catch_def io_bind_def io_call_def io_throw_def
      split: sum.splits prod.splits dest!: checkResponse_run)
  done

lemma verify_all_Inr:
  "io_forEach urls (verifyUrl env) h = (Inr u, h') \<Longrightarrow>
     h' = h @ map FetchHead urls \<and>
     (\<forall>k < length urls. url_passes env (h @ map FetchHead (take k urls)) (urls ! k))"
proof (induction urls arbitrary: h)
  case Nil
  then show ?case by (simp add: io_return_def)
next
  case (Cons a urls)
  from Cons.prems obtain x h1 where
    a: "verifyUrl env a h = (Inr x, h1)" and rest: "io_forEach urls (verifyUrl env) h1 = (Inr u, h')"
    by (auto elim: io_bind_InrE)
  from verifyUrl_run [OF a] have h1: "h1 = h @ [FetchHead a]" and pa: "url_passes env h a"
    by simp_all
  from Cons.IH [OF rest] have
    h': "h' = h1 @ map FetchHead urls" and
    all: "\<forall>k < length urls. url_passes env (h1 @ map FetchHead (take k urls)) (urls ! k)"
    by simp_all
  have "url_passes env (h @ map FetchHead (take k (a # urls))) ((a # urls) ! k)"
    if "k < length (a # urls)" for k
  proof (cases k)
    case 0
    with pa show ?thesis by simp
  next
    case (Suc j)
    with that all h1 show ?thesis by simp
  qed
  with h' h1 show ?case by simp
qed

lemma verify_all_Inl:
  "io_forEach urls (verifyUrl env) h = (Inl e, h') \<Longrightarrow>
     \<exists>k < length urls. h' = h @ map FetchHead (take (Suc k) urls)
        \<and> (\<forall>j < k. url_passes env (h @ map FetchHead (take j urls)) (urls ! j))
        \<and> \<not> url_passes env (h @ map FetchHead (take k urls)) (urls ! k)
        \<and> (\<exists>m. e = Error (lit ''Verification failed for '' @ urls ! k @ lit '': '' @ m))"
proof (induction urls arbitrary: h)
  case Nil
  then show ?case by (simp add: io_return_def)
next
  case (Cons a urls)
  obtain r h1 where a: "verifyUrl env a h = (r, h1)" by (cases "verifyUrl env a h")
  note run = verifyUrl_run [OF a]
  show ?case
  proof (cases r)
    case (Inl e1)
    with a Cons.prems have "e = e1" "h' = h1" by (simp_all add: io_bind_Inl)
    with run Inl have "h' = h @ map FetchHead (take (Suc 0) (a # urls))
        \<and> (\<forall>j < 0. url_passes env (h @ map FetchHead (take j (a # urls))) ((a # urls) ! j))
        \<and> \<not> url_passes env (h @ map FetchHead (take 0 (a # urls))) ((a # urls) ! 0)
        \<and> (\<exists>m. e = Error (lit ''Verification failed for '' @ (a # urls) ! 0 @ lit '': '' @ m))"
      by simp
    then show ?thesis by blast
  next
    case (Inr x)
    with a Cons.prems have rest: "io_forEach urls (verifyUrl env) h1 = (Inl e, h')"
      by (simp add: io_bind_Inr)
    from run Inr have h1: "h1 = h @ [FetchHead a]" and pa: "url_passes env h a" by simp_all
    from Cons.IH [OF rest] obtain k where k: "k < length urls"
      "h' = h1 @ map FetchHead (take (Suc k) urls)"
      "\<forall>j < k. url_passes env (h1 @ map FetchHead (take j urls)) (urls ! j)"
      "\<not> url_passes env (h1 @ map FetchHead (take k urls)) (urls ! k)"
      "\<exists>m. e = Error (lit ''Verification failed for '' @ urls ! k @ lit '': '' @ m)"
      by blast
    have earlier: "url_passes env (h @ map FetchHead (take j (a # urls))) ((a # urls) ! j)"
      if "j < Suc k" for j
    proof (cases j)
      case 0
      with pa show ?thesis by simp
    next
      case (Suc i)
      with that k(3) h1 show ?thesis by simp
    qed
    from k h1 have "Suc k < length (a # urls) \<and> h' = h @ map FetchHead (take (Suc (Suc k)) (a # urls))
        \<and> \<not> url_passes env (h @ map FetchHead (take (Suc k) (a # urls))) ((a # urls) ! Suc k)
        \<and> (\<exists>m. e = Error (lit ''Verification failed for '' @ (a # urls) ! Suc k @ lit '': '' @ m))"
      by simp
    with earlier show ?thesis by blast
  qed
qed

lemma io_read_run: "io_read f h = (r, h') \<longleftrightarrow> r = Inr (f h) \<and> h' = h"
  by (auto simp: io_read_def)

lemma io_emit_run: "io_emit c h = (r, h') \<longleftrightarrow> r = Inr () \<and> h' = h @ [c]"
  by (auto simp: io_emit_def)

lemma io_return_run: "io_return x h = (r, h') \<longleftrightarrow> r = Inr x \<and> h' = h"
  by (auto simp: io_return_def)

lemma deployCustomerSite_InrE:
  assumes "deployCustomerSite env cfg h = (Inr result, h')"
  obtains repo h1 html h2 h3 h4 h5 h6 h7 h8 where
    "createRepository env cfg h = (Inr repo, h1)"
    "generateHTML env cfg h1 = (Inr html, h2)"
    "createDirectoryStructure env (repo_name repo) (deployBranch repo) h2 = (Inr (), h3)"
    "uploadFile env (repo_name repo) (lit ''index.html'') html
       (lit ''Deploy GHS safety binder website'') (deployBranch repo) h3 = (Inr (), h4)"
    "uploadFile env (repo_name repo) (lit ''README.md'')
       (generateReadme env cfg (toLocaleDateString_now env h4))
       (lit ''Add repository documentation'') (deployBranch repo) h4 = (Inr (), h5)"
    "uploadCustomerAssets env (repo_name repo) (ci_slug (customer_info cfg)) (deployBranch repo) h5
       = (Inr (), h6)"
    "uploadPDFs env (repo_name repo) (deployBranch repo) (chemicals cfg) h6 = (Inr (), h7)"
    "enablePages env (repo_name repo) (deployBranch repo) h7 = (Inr (), h8)"
    "verifyPDFsOnPages env (repo_name repo) (chemicals cfg) (h8 @ [SetTimeout 10000]) = (Inr (), h')"
    "result = \<lparr>dr_success = True, dr_repository = repo,
        dr_url = lit ''https://'' @ owner @ lit ''.github.io/'' @ repo_name repo,
        dr_qr_codes = generateQRCodes cfg,
        dr_deployment_info = \<lparr>deployed_at = toISOString_now env h', version = lit ''1.0.0'',
           total_chemicals = length (chemicals cfg)\<rparr>\<rparr>"
  using assms unfolding deployCustomerSite_def Let_def
  by (elim io_bind_InrE) (auto simp: io_read_run io_emit_run io_return_run)

lemma digit_not_space: "is_digit c \<Longrightarrow> \<not> is_space c"
proof
  assume d: "is_digit c" and sp: "is_space c"
  from d have lo: "48 \<le> unat c" and hi: "unat c \<le> 57"
    by (simp_all add: is_digit_def word_le_nat_alt)
  from sp consider "unat c \<le> 13" | "c = 0x20" | "c = 0xA0" | "c = 0x1680" | "0x2000 \<le> unat c"
    | "c = 0x2028" | "c = 0x2029" | "c = 0x202F" | "c = 0x205F" | "c = 0x3000" | "c = 0xFEFF"
    by (auto simp: is_space_def word_le_nat_alt)
  then show False using lo hi by cases simp_all
qed

lemma digit_not_sign: "is_digit c \<Longrightarrow> c \<noteq> 0x2D \<and> c \<noteq> 0x2B"
  unfolding is_digit_def by auto

lemma parseInt10_digits:
  assumes "s \<noteq> []" and "\<forall>c \<in> set s. is_digit c"
  shows "parseInt10 s = Some (digits_value s)"
proof -
  from assms obtain c cs where s: "s = c # cs" by (cases s) auto
  with assms have c: "is_digit c" and cs: "takeWhile is_digit cs = cs"
    by (simp_all add: takeWhile_eq_all_conv)
  from c have "\<not> is_space c" "c \<noteq> 0x2D" "c \<noteq> 0x2B"
    using digit_not_space digit_not_sign by blast+
  with c show ?thesis
    unfolding s by (simp add: parseInt10_def Let_def cs)
qed

lemma passes_verificationD:
  assumes "passes_verification res"
  shows "res_ok res \<and> js_includes (header_or (res_content_type res) []) (lit ''pdf'')
     \<and> (\<exists>s. res_content_length res = Some s
           \<and> \<not> js_less (parseInt10 s) 1024
           \<and> (\<forall>n. parseInt10 s = Some n \<longrightarrow> 1024 \<le> n)
           \<and> ((\<forall>c \<in> set s. is_digit c) \<longrightarrow> 1024 \<le> digits_value s))"
proof -
  have zero: "parseInt10 (lit ''0'') = Some 0"
    by (simp add: parseInt10_def lit_def is_space_def is_digit_def digits_value_def Let_def)
  from assms have ok: "res_ok res"
    and ty: "js_includes (header_or (res_content_type res) []) (lit ''pdf'')"
    and len: "\<not> js_less (parseInt10 (header_or (res_content_length res) (lit ''0''))) 1024"
    by (simp_all add: passes_verification_def)
  from len zero obtain s where s: "res_content_length res = Some s" "s \<noteq> []"
    by (cases "res_content_length res") (auto simp: header_or_def js_less_def split: if_splits)
  with len have l: "\<not> js_less (parseInt10 s) 1024" by (simp add: header_or_def)
  then have n: "\<forall>n. parseInt10 s = Some n \<longrightarrow> 1024 \<le> n" by (auto simp: js_less_def)
  have "(\<forall>c \<in> set s. is_digit c) \<longrightarrow> 1024 \<le> digits_value s"
    using n parseInt10_digits [OF s(2)] by blast
  with ok ty s l n show ?thesis by blast
qed

lemma html_not_pdf: "\<not> js_includes (lit ''text/html'') (lit ''pdf'')"
  by (simp add: lit_def)

subsection \<open>Trace invariants\<close>

lemma emitsD:
  assumes "emits P m" and "m h = (r, h')"
  obtains t where "h' = h @ t" and "list_all P t"
  using assms unfolding emits_def by (metis snd_conv)

lemma emits_return: "emits P (io_return x)"
  by (simp add: emits_def io_return_def)

lemma emits_throw: "emits P (io_throw e)"
  by (simp add: emits_def io_throw_def)

lemma emits_lift: "emits P (io_lift r)"
  by (simp add: emits_def io_lift_def)

lemma emits_read: "emits P (io_read f)"
  by (simp add: emits_def io_read_def)

lemma emits_call: "P c \<Longrightarrow> emits P (io_call oracle c)"
  by (simp add: emits_def io_call_def)

lemma emits_emit: "P c \<Longrightarrow> emits P (io_emit c)"
  by (simp add: emits_def io_emit_def)

lemma emits_bind:
  assumes "emits P m" and "\<And>x. emits P (f x)"
  shows "emits P (io_bind m f)"
  unfolding emits_def
proof
  fix h
  obtain r h1 where m: "m h = (r, h1)" by (cases "m h")
  from emitsD [OF assms(1) m] obtain t1 where t1: "h1 = h @ t1" "list_all P t1" .
  show "\<exists>t. snd (io_bind m f h) = h @ t \<and> list_all P t"
  proof (cases r)
    case (Inl e)
    with m t1 show ?thesis by (auto simp: io_bind_def)
  next
    case (Inr x)
    obtain r2 h2 where f: "f x h1 = (r2, h2)" by (cases "f x h1")
    from emitsD [OF assms(2) f] obtain t2 where "h2 = h1 @ t2" "list_all P t2" .
    with Inr m t1 f show ?thesis by (auto simp: io_bind_def)
  qed
qed

lemma emits_catch:
  assumes "emits P m" and "\<And>e. emits P (handler e)"
  shows "emits P (io_catch m handler)"
  unfolding emits_def
proof
  fix h
  obtain r h1 where m: "m h = (r, h1)" by (cases "m h")
  from emitsD [OF assms(1) m] obtain t1 where t1: "h1 = h @ t1" "list_all P t1" .
  show "\<exists>t. snd (io_catch m handler h) = h @ t \<and> list_all P t"
  proof (cases r)
    case (Inr x)
    with m t1 show ?thesis by (auto simp: io_catch_def)
  next
    case (Inl e)
    obtain r2 h2 where f: "handler e h1 = (r2, h2)" by (cases "handler e h1")
    from emitsD [OF assms(2) f] obtain t2 where "h2 = h1 @ t2" "list_all P t2" .
    with Inl m t1 f show ?thesis by (auto simp: io_catch_def)
  qed
qed

lemma emits_forEach:
  assumes "\<And>x. emits P (body x)"
  shows "emits P (io_forEach xs body)"
  by (induction xs) (simp_all add: emits_return emits_bind assms)

lemma emits_if: "emits P a \<Longrightarrow> emits P b \<Longrightarrow> emits P (if c then a else b)"
  by simp

lemmas emits_intros = emits_return emits_throw emits_lift emits_read emits_bind emits_catch
  emits_forEach emits_if

lemma emits_safeUploadBinary:
  "emits (uses_branch b) (safeUploadBinary env ownr rn b path buf msg)"
  unfolding safeUploadBinary_def Let_def
  by (intro emits_intros emits_call) (simp_all add: uses_branch_def)

lemma emits_uploadFile: "emits (uses_branch b) (uploadFile env rn path content msg b)"
  unfolding uploadFile_def Let_def
  by (intro emits_intros emits_call) (simp_all add: uses_branch_def)

lemma emits_createDirectoryStructure:
  "emits (uses_branch b) (createDirectoryStructure env rn b)"
  unfolding createDirectoryStructure_def
  by (intro emits_intros emits_uploadFile)

lemma emits_generateHTML: "emits P (generateHTML env cfg)"
  unfolding generateHTML_def by (intro emits_intros)

lemma emits_uploadCustomerAssets:
  "emits (uses_branch b) (uploadCustomerAssets env rn slug b)"
  unfolding uploadCustomerAssets_def Let_def
  by (intro emits_intros emits_safeUploadBinary)

lemma emits_uploadPDF: "emits (uses_branch b) (uploadPDF env rn b chemical file)"
  unfolding uploadPDF_def Let_def
  by (cases "file") (auto intro!: emits_intros emits_safeUploadBinary emits_emit simp: uses_branch_def)

lemma emits_uploadPDFs: "emits (uses_branch b) (uploadPDFs env rn b chems)"
  unfolding uploadPDFs_def by (intro emits_intros emits_uploadPDF)

lemma emits_enablePages: "emits (uses_branch b) (enablePages env rn b)"
  unfolding enablePages_def
  by (intro emits_intros emits_call) (simp_all add: uses_branch_def)

lemma emits_checkResponse: "emits P (checkResponse env res)"
  unfolding checkResponse_def Let_def by (intro emits_intros)

lemma emits_verifyUrl: "emits (uses_branch b) (verifyUrl env url)"
  unfolding verifyUrl_def
  by (intro emits_intros emits_call emits_checkResponse) (simp_all add: uses_branch_def)

lemma emits_verifyPDFsOnPages: "emits (uses_branch b) (verifyPDFsOnPages env rn chems)"
  unfolding verifyPDFsOnPages_def Let_def by (intro emits_intros emits_verifyUrl)

subsection \<open>Runs in which the outside world cooperates\<close>

lemma succeedsD:
  assumes "succeeds m"
  obtains x h' where "m h = (Inr x, h')"
  using assms unfolding succeeds_def by blast

lemma succeeds_return: "succeeds (io_return x)"
  by (simp add: succeeds_def io_return_def)

lemma succeeds_read: "succeeds (io_read f)"
  by (simp add: succeeds_def io_read_def)

lemma succeeds_emit: "succeeds (io_emit c)"
  by (simp add: succeeds_def io_emit_def)

lemma succeeds_lift: "succeeds (io_lift (Inr x))"
  by (simp add: succeeds_def io_lift_def)

lemma succeeds_bind:
  assumes "succeeds m" and "\<And>x. succeeds (f x)"
  shows "succeeds (io_bind m f)"
  unfolding succeeds_def
proof
  fix h
  from assms(1) obtain x h1 where m: "m h = (Inr x, h1)" by (rule succeedsD)
  from assms(2) obtain y h2 where "f x h1 = (Inr y, h2)" by (rule succeedsD)
  with m show "\<exists>y h'. io_bind m f h = (Inr y, h')" by (simp add: io_bind_def)
qed

lemma succeeds_forEach:
  assumes "\<And>x. x \<in> set xs \<Longrightarrow> succeeds (body x)"
  shows "succeeds (io_forEach xs body)"
  using assms by (induction xs) (simp_all add: succeeds_return succeeds_bind)

lemma succeeds_bind_tail:
  assumes "m h = (Inr x, h1)" and "succeeds (f x)"
  shows "\<exists>y h'. io_bind m f h = (Inr y, h')"
proof -
  from assms(2) obtain y h2 where "f x h1 = (Inr y, h2)" by (rule succeedsD)
  with assms(1) show ?thesis by (simp add: io_bind_def)
qed

lemma emits_bind_tail:
  assumes "io_bind m f h = (r, h')" and "m h = (Inr x, h1)" and "emits P (f x)"
  shows "\<exists>t. h' = h1 @ t \<and> list_all P t"
proof -
  from assms(1,2) have "f x h1 = (r, h')" by (simp add: io_bind_def)
  from emitsD [OF assms(3) this] show ?thesis by blast
qed

lemma succeeds_probe:
  assumes "github_accepts env"
  shows "succeeds (io_catch (io_call (octokit_getContent env) c)
           (\<lambda>error. if error_status error \<noteq> Some 404 then io_throw error else io_return None))"
  unfolding succeeds_def
proof
  fix h
  from assms have "case octokit_getContent env h c of
      Inl e \<Rightarrow> error_status e = Some 404 | Inr sha \<Rightarrow> True"
    by (simp add: github_accepts_def)
  then show "\<exists>x h'. io_catch (io_call (octokit_getContent env) c)
           (\<lambda>error. if error_status error \<noteq> Some 404 then io_throw error else io_return None) h
           = (Inr x, h')"
    by (auto simp: io_catch_def io_call_def io_return_def split: sum.splits)
qed

lemma succeeds_commit:
  assumes "github_accepts env"
  shows "succeeds (io_call (octokit_createOrUpdateFileContents env) c)"
  using assms by (simp add: succeeds_def io_call_def github_accepts_def)

lemma succeeds_safeUploadBinary:
  "github_accepts env \<Longrightarrow> succeeds (safeUploadBinary env ownr rn b path buf msg)"
  unfolding safeUploadBinary_def Let_def
  by (intro succeeds_bind succeeds_probe succeeds_commit)

lemma succeeds_uploadFile:
  "github_accepts env \<Longrightarrow> succeeds (uploadFile env rn path content msg b)"
  unfolding uploadFile_def Let_def
  by (intro succeeds_bind succeeds_probe succeeds_commit)

lemma succeeds_createDirectoryStructure:
  "github_accepts env \<Longrightarrow> succeeds (createDirectoryStructure env rn b)"
  unfolding createDirectoryStructure_def
  by (intro succeeds_bind succeeds_forEach succeeds_uploadFile)

lemma succeeds_generateHTML:
  "readFile_utf8 env (templatePath env) = Inr template \<Longrightarrow> succeeds (generateHTML env cfg)"
  unfolding generateHTML_def
  by (auto intro!: succeeds_bind succeeds_lift succeeds_read succeeds_return)

lemma io_bind_lift_Inr: "io_bind (io_lift (Inr x)) f = f x"
  by (simp add: io_bind_def io_lift_def)

lemma succeeds_uploadCustomerAssets:
  assumes "github_accepts env" and "assets_readable env slug"
  shows "succeeds (uploadCustomerAssets env rn slug b)"
proof -
  let ?p = "path_join env [dirname env, lit ''..'', lit ''assets'', slug]"
  show ?thesis
  proof (cases "local_fs env ?p")
    case None
    then show ?thesis
      by (simp add: uploadCustomerAssets_def existsSync_def succeeds_return)
  next
    case (Some entry)
    with assms(2) obtain names where names: "local_fs env ?p = Some (Directory names)"
      and all: "list_all (\<lambda>n. local_fs env (path_join env [?p, n]) \<noteq> None) names"
      by (cases entry) (simp_all add: assets_readable_def)
    have one: "succeeds
        (io_bind (io_lift (stat_isDirectory env (path_join env [?p, n]))) (\<lambda>isDirectory.
          if isDirectory \<or> startsWith n (lit ''.'') then io_return ()
          else io_bind (io_lift (readFile env (path_join env [?p, n]))) (\<lambda>buffer.
            safeUploadBinary env owner rn b (lit ''assets/'' @ n) buffer
              (lit ''Upload '' @ slug @ lit '' asset: '' @ n))))"
      if "n \<in> set names" for n
    proof -
      from that all obtain e where e: "local_fs env (path_join env [?p, n]) = Some e"
        by (auto simp: list_all_iff)
      show ?thesis
      proof (cases e)
        case (File bs)
        with e show ?thesis
          by (simp add: stat_isDirectory_def readFile_def io_bind_lift_Inr succeeds_return
              succeeds_safeUploadBinary [OF assms(1)])
      next
        case (Directory ns)
        with e show ?thesis
          by (simp add: stat_isDirectory_def io_bind_lift_Inr succeeds_return)
      qed
    qed
    have "succeeds (io_forEach names (\<lambda>filename.
          io_bind (io_lift (stat_isDirectory env (path_join env [?p, filename]))) (\<lambda>isDirectory.
          if isDirectory \<or> startsWith filename (lit ''.'') then io_return ()
          else io_bind (io_lift (readFile env (path_join env [?p, filename]))) (\<lambda>buffer.
            safeUploadBinary env owner rn b (lit ''assets/'' @ filename) buffer
              (lit ''Upload '' @ slug @ lit '' asset: '' @ filename)))))"
      by (rule succeeds_forEach) (rule one)
    with names show ?thesis
      by (simp add: uploadCustomerAssets_def Let_def existsSync_def readdir_def io_bind_lift_Inr)
  qed
qed

lemma succeeds_enablePages: "github_accepts env \<Longrightarrow> succeeds (enablePages env rn b)"
  unfolding succeeds_def enablePages_def
proof
  fix h
  assume "github_accepts env"
  then have "case octokit_createPagesSite env h (CreatePagesSite owner rn b (lit ''/'')) of
      Inl e \<Rightarrow> error_status e = Some 409 | Inr u \<Rightarrow> True"
    by (simp add: github_accepts_def)
  then show "\<exists>x h'. io_catch (io_call (octokit_createPagesSite env)
        (CreatePagesSite owner rn b (lit ''/'')))
        (\<lambda>error. if error_status error = Some 409 then io_return () else io_throw error) h
        = (Inr x, h')"
    by (auto simp: io_catch_def io_call_def io_return_def split: sum.splits)
qed

lemma succeeds_verifyUrl:
  assumes "documents_served env"
  shows "succeeds (verifyUrl env url)"
  unfolding succeeds_def
proof
  fix h
  from assms have "case fetch env h (FetchHead url) of
      Inl e \<Rightarrow> False | Inr res \<Rightarrow> passes_verification res"
    unfolding documents_served_def by blast
  then obtain res where res: "fetch env h (FetchHead url) = Inr res"
    and p: "passes_verification res"
    by (cases "fetch env h (FetchHead url)") simp_all
  from p have "checkResponse env res (h @ [FetchHead url]) = (Inr (), h @ [FetchHead url])"
    by (simp add: checkResponse_def passes_verification_def io_return_def Let_def)
  with res show "\<exists>x h'. verifyUrl env url h = (Inr x, h')"
    by (simp add: verifyUrl_def io_catch_def io_bind_def io_call_def)
qed

lemma succeeds_verifyPDFsOnPages:
  "documents_served env \<Longrightarrow> succeeds (verifyPDFsOnPages env rn chems)"
  unfolding verifyPDFsOnPages_def Let_def
  by (intro succeeds_forEach succeeds_verifyUrl)

subsection \<open>Step 7: uploading the PDFs\<close>

lemma commits_of_append: "commits_of (s @ t) = commits_of s @ commits_of t"
  by (simp add: commits_of_def)

lemma warnings_of_append: "warnings_of (s @ t) = warnings_of s @ warnings_of t"
  by (simp add: warnings_of_def)

lemma present_documents_append:
  "present_documents env (s @ t) = present_documents env s @ present_documents env t"
  by (simp add: present_documents_def)

lemma missing_warnings_append:
  "missing_warnings env (s @ t) = missing_warnings env s @ missing_warnings env t"
  by (simp add: missing_warnings_def)

lemma pdf_slots_Cons: "pdf_slots (c # cs) = pdf_slots [c] @ pdf_slots cs"
  by (simp add: pdf_slots_def)

lemma safeUploadBinary_accepts:
  assumes "github_accepts env"
  shows "\<exists>sha. safeUploadBinary env ownr rn b p buf msg h
     = (Inr (), h @ [GetContent ownr rn p b,
          CreateOrUpdateFileContents
            \<lparr>fc_owner = ownr, fc_repo = rn, fc_path = p, fc_message = msg,
             fc_content = toString_base64 env buf, fc_branch = b, fc_sha = sha\<rparr>])"
proof -
  from assms have probe: "case octokit_getContent env h (GetContent ownr rn p b) of
      Inl e \<Rightarrow> error_status e = Some 404 | Inr sha \<Rightarrow> True"
    and commit: "\<And>h c. octokit_createOrUpdateFileContents env h c = Inr ()"
    by (simp_all add: github_accepts_def)
  show ?thesis
    using probe
    by (cases "octokit_getContent env h (GetContent ownr rn p b)")
       (simp_all add: safeUploadBinary_def io_bind_def io_catch_def io_call_def io_return_def
          commit Let_def)
qed

lemma uploadPDF_accepts:
  assumes ga: "github_accepts env"
    and nd: "pdfs_readable env [c]"
  shows "\<exists>t. io_forEach [(lit ''Literature'', chem_literature c), (lit ''SDS'', chem_sds c)]
                (uploadPDF env rn b c) h = (Inr (), h @ t)
     \<and> map (\<lambda>fc. (fc_path fc, fc_content fc)) (commits_of t) = present_documents env (pdf_slots [c])
     \<and> warnings_of t = missing_warnings env (pdf_slots [c])"
proof -
  have slot: "\<exists>t. uploadPDF env rn b c (ty, data) h0 = (Inr (), h0 @ t)
     \<and> map (\<lambda>fc. (fc_path fc, fc_content fc)) (commits_of t)
         = present_documents env (filter (\<lambda>(type, c, filename). filename \<noteq> [])
             [(ty, c, slot_filename data)])
     \<and> warnings_of t
         = missing_warnings env (filter (\<lambda>(type, c, filename). filename \<noteq> [])
             [(ty, c, slot_filename data)])"
    if r: "slot_filename data \<noteq> [] \<Longrightarrow>
        (case local_fs env (localPdfPath env (slot_filename data)) of
           Some (Directory names) \<Rightarrow> False | _ \<Rightarrow> True)"
    for ty data h0
  proof (cases "slot_filename data = []")
    case True
    then have "uploadPDF env rn b c (ty, data) h0 = (Inr (), h0 @ [])"
      by (simp add: uploadPDF_def io_return_def)
    moreover have "commits_of [] = []" "warnings_of [] = []"
      by (simp_all add: commits_of_def warnings_of_def)
    ultimately show ?thesis
      using True by (auto simp: present_documents_def missing_warnings_def)
  next
    case False
    show ?thesis
    proof (cases "local_fs env (localPdfPath env (slot_filename data))")
      case None
      with False have "uploadPDF env rn b c (ty, data) h0
          = (Inr (), h0 @ [ConsoleWarn (not_found_warning ty (localPdfPath env (slot_filename data)))])"
        by (simp add: uploadPDF_def existsSync_def io_emit_def Let_def)
      moreover have "commits_of [ConsoleWarn w] = []" "warnings_of [ConsoleWarn w] = [w]" for w
        by (simp_all add: commits_of_def warnings_of_def)
      ultimately show ?thesis
        using False None
        by (auto simp: present_documents_def missing_warnings_def existsSync_def)
    next
      case (Some entry)
      with r [OF False] obtain bs where bs: "local_fs env (localPdfPath env (slot_filename data))
          = Some (File bs)"
        by (cases entry) simp_all
      from safeUploadBinary_accepts [OF ga] obtain sha where
        up: "safeUploadBinary env owner rn b (lit ''pdfs/'' @ slot_filename data) bs
            (lit ''Upload '' @ ty @ lit '' PDF for '' @ chem_name c) h0
          = (Inr (), h0 @ [GetContent owner rn (lit ''pdfs/'' @ slot_filename data) b,
              CreateOrUpdateFileContents
                \<lparr>fc_owner = owner, fc_repo = rn, fc_path = lit ''pdfs/'' @ slot_filename data,
                 fc_message = lit ''Upload '' @ ty @ lit '' PDF for '' @ chem_name c,
                 fc_content = toString_base64 env bs, fc_branch = b, fc_sha = sha\<rparr>])"
        by blast
      with False bs have "uploadPDF env rn b c (ty, data) h0
          = (Inr (), h0 @ [GetContent owner rn (lit ''pdfs/'' @ slot_filename data) b,
              CreateOrUpdateFileContents
                \<lparr>fc_owner = owner, fc_repo = rn, fc_path = lit ''pdfs/'' @ slot_filename data,
                 fc_message = lit ''Upload '' @ ty @ lit '' PDF for '' @ chem_name c,
                 fc_content = toString_base64 env bs, fc_branch = b, fc_sha = sha\<rparr>])"
        by (simp add: uploadPDF_def existsSync_def readFile_def io_bind_lift_Inr Let_def)
      moreover have "commits_of [GetContent o1 o2 o3 o4, CreateOrUpdateFileContents fc] = [fc]"
        "warnings_of [GetContent o1 o2 o3 o4, CreateOrUpdateFileContents fc] = []" for o1 o2 o3 o4 fc
        by (simp_all add: commits_of_def warnings_of_def)
      ultimately show ?thesis
        using False bs
        by (auto simp: present_documents_def missing_warnings_def existsSync_def file_bytes_def)
    qed
  qed
  from nd have r1: "slot_filename (chem_literature c) \<noteq> [] \<Longrightarrow>
        (case local_fs env (localPdfPath env (slot_filename (chem_literature c))) of
           Some (Directory names) \<Rightarrow> False | _ \<Rightarrow> True)"
    and r2: "slot_filename (chem_sds c) \<noteq> [] \<Longrightarrow>
        (case local_fs env (localPdfPath env (slot_filename (chem_sds c))) of
           Some (Directory names) \<Rightarrow> False | _ \<Rightarrow> True)"
    by (auto simp: pdfs_readable_def pdf_slots_def split: if_splits)
  from slot [OF r1, of "lit ''Literature''" h] obtain t1 where
    t1: "uploadPDF env rn b c (lit ''Literature'', chem_literature c) h = (Inr (), h @ t1)"
      "map (\<lambda>fc. (fc_path fc, fc_content fc)) (commits_of t1)
         = present_documents env (filter (\<lambda>(type, c, filename). filename \<noteq> [])
             [(lit ''Literature'', c, slot_filename (chem_literature c))])"
      "warnings_of t1
         = missing_warnings env (filter (\<lambda>(type, c, filename). filename \<noteq> [])
             [(lit ''Literature'', c, slot_filename (chem_literature c))])"
    by blast
  from slot [OF r2, of "lit ''SDS''" "h @ t1"] obtain t2 where
    t2: "uploadPDF env rn b c (lit ''SDS'', chem_sds c) (h @ t1) = (Inr (), (h @ t1) @ t2)"
      "map (\<lambda>fc. (fc_path fc, fc_content fc)) (commits_of t2)
         = present_documents env (filter (\<lambda>(type, c, filename). filename \<noteq> [])
             [(lit ''SDS'', c, slot_filename (chem_sds c))])"
      "warnings_of t2
         = missing_warnings env (filter (\<lambda>(type, c, filename). filename \<noteq> [])
             [(lit ''SDS'', c, slot_filename (chem_sds c))])"
    by blast
  have split: "pdf_slots [c]
      = filter (\<lambda>(type, c, filename). filename \<noteq> [])
          [(lit ''Literature'', c, slot_filename (chem_literature c))]
        @ filter (\<lambda>(type, c, filename). filename \<noteq> [])
          [(lit ''SDS'', c, slot_filename (chem_sds c))]"
    by (simp add: pdf_slots_def)
  have "io_forEach [(lit ''Literature'', chem_literature c), (lit ''SDS'', chem_sds c)]
          (uploadPDF env rn b c) h = (Inr (), h @ (t1 @ t2))"
    using t1(1) t2(1) by (simp add: io_bind_def io_return_def)
  moreover have "map (\<lambda>fc. (fc_path fc, fc_content fc)) (commits_of (t1 @ t2))
      = present_documents env (pdf_slots [c])"
    unfolding split present_documents_append commits_of_append using t1(2) t2(2) by simp
  moreover have "warnings_of (t1 @ t2) = missing_warnings env (pdf_slots [c])"
    unfolding split missing_warnings_append warnings_of_append using t1(3) t2(3) by simp
  ultimately show ?thesis by blast
qed

lemma uploadPDFs_accepts:
  assumes ga: "github_accepts env"
  shows "pdfs_readable env chems \<Longrightarrow>
     \<exists>t. uploadPDFs env rn b chems h = (Inr (), h @ t)
     \<and> map (\<lambda>fc. (fc_path fc, fc_content fc)) (commits_of t) = present_documents env (pdf_slots chems)
     \<and> warnings_of t = missing_warnings env (pdf_slots chems)"
proof (induction chems arbitrary: h)
  case Nil
  have "uploadPDFs env rn b [] h = (Inr (), h @ [])"
    by (simp add: uploadPDFs_def io_return_def)
  moreover have "commits_of [] = []" "warnings_of [] = []" "pdf_slots [] = []"
    by (simp_all add: commits_of_def warnings_of_def pdf_slots_def)
  ultimately show ?case
    by (auto simp: present_documents_def missing_warnings_def)
next
  case (Cons c cs)
  from Cons.prems have rc: "pdfs_readable env [c]" and rcs: "pdfs_readable env cs"
    by (simp_all add: pdfs_readable_def pdf_slots_def)
  from uploadPDF_accepts [OF ga rc, of rn b h] obtain t1 where
    t1: "io_forEach [(lit ''Literature'', chem_literature c), (lit ''SDS'', chem_sds c)]
                (uploadPDF env rn b c) h = (Inr (), h @ t1)"
      "map (\<lambda>fc. (fc_path fc, fc_content fc)) (commits_of t1) = present_documents env (pdf_slots [c])"
      "warnings_of t1 = missing_warnings env (pdf_slots [c])"
    by blast
  from Cons.IH [OF rcs, of "h @ t1"] obtain t2 where
    t2: "uploadPDFs env rn b cs (h @ t1) = (Inr (), (h @ t1) @ t2)"
      "map (\<lambda>fc. (fc_path fc, fc_content fc)) (commits_of t2) = present_documents env (pdf_slots cs)"
      "warnings_of t2 = missing_warnings env (pdf_slots cs)"
    by blast
  have "uploadPDFs env rn b (c # cs) h = (Inr (), h @ (t1 @ t2))"
    using t1(1) t2(1) by (simp add: uploadPDFs_def io_bind_def)
  moreover have "map (\<lambda>fc. (fc_path fc, fc_content fc)) (commits_of (t1 @ t2))
      = present_documents env (pdf_slots (c # cs))"
    unfolding pdf_slots_Cons [of c cs] present_documents_append commits_of_append
    using t1(2) t2(2) by simp
  moreover have "warnings_of (t1 @ t2) = missing_warnings env (pdf_slots (c # cs))"
    unfolding pdf_slots_Cons [of c cs] missing_warnings_append warnings_of_append
    using t1(3) t2(3) by simp
  ultimately show ?case by blast
qed

lemma succeeds_uploadPDFs:
  "github_accepts env \<Longrightarrow> pdfs_readable env chems \<Longrightarrow> succeeds (uploadPDFs env rn b chems)"
  unfolding succeeds_def using uploadPDFs_accepts by blast

subsection \<open>The pipeline as a whole\<close>

lemma createRepository_run:
  "createRepository env cfg h =
     (case octokit_createForAuthenticatedUser env h (CreateForAuthenticatedUser (createParams cfg)) of
        Inr repo \<Rightarrow> (Inr repo, h @ [CreateForAuthenticatedUser (createParams cfg)])
      | Inl e \<Rightarrow>
          if error_status e = Some 422
          then (octokit_get env (h @ [CreateForAuthenticatedUser (createParams cfg)])
                  (ReposGet owner (gh_name (ci_github_repo (customer_info cfg)))),
                h @ [CreateForAuthenticatedUser (createParams cfg),
                     ReposGet owner (gh_name (ci_github_repo (customer_info cfg)))])
          else (Inl e, h @ [CreateForAuthenticatedUser (createParams cfg)]))"
  by (simp add: createRepository_def io_catch_def io_call_def io_throw_def Let_def split: sum.splits)

lemma deploy_succeeds:
  assumes "createRepository env cfg h = (Inr repo, h1)"
    and "readFile_utf8 env (templatePath env) = Inr template"
    and "github_accepts env"
    and "assets_readable env (ci_slug (customer_info cfg))"
    and "pdfs_readable env (chemicals cfg)"
    and "documents_served env"
  shows "\<exists>result h'. deployCustomerSite env cfg h = (Inr result, h')"
  unfolding deployCustomerSite_def
  apply (rule succeeds_bind_tail [where m = "createRepository env cfg" and h = h, OF assms(1)])
  apply (simp only: Let_def)
  apply (intro succeeds_bind succeeds_generateHTML [OF assms(2)]
      succeeds_createDirectoryStructure succeeds_uploadFile succeeds_read
      succeeds_uploadCustomerAssets succeeds_uploadPDFs succeeds_enablePages succeeds_emit
      succeeds_verifyPDFsOnPages succeeds_return assms)
  done

lemma deploy_emits:
  assumes "deployCustomerSite env cfg h = (r, h')"
    and "createRepository env cfg h = (Inr repo, h1)"
  shows "\<exists>t. h' = h1 @ t \<and> list_all (uses_branch (deployBranch repo)) t"
  apply (rule emits_bind_tail [OF assms(1) [unfolded deployCustomerSite_def] assms(2)])
  apply (simp only: Let_def)
  apply (intro emits_intros emits_generateHTML emits_createDirectoryStructure emits_uploadFile
      emits_uploadCustomerAssets emits_uploadPDFs emits_enablePages emits_emit
      emits_verifyPDFsOnPages)
  apply (simp add: uses_branch_def)
  done

subsection \<open>Facts about the concrete environment\<close>

lemma test_env_accepts: "github_accepts test_env"
  by (simp add: github_accepts_def test_env_def)

lemma test_env_template: "readFile_utf8 test_env (templatePath test_env) = Inr (lit ''<html>'')"
  by (simp add: test_env_def)

lemma test_env_assets: "assets_readable test_env (lit ''acme'')"
  by (simp add: assets_readable_def test_env_def lit_def)

lemma acme_slots:
  "pdf_slots (chemicals acme)
     = [(lit ''Literature'', floor_cleaner, lit ''a.pdf''), (lit ''SDS'', floor_cleaner, lit ''b.pdf''),
        (lit ''Literature'', old_wax, lit ''old.pdf'')]"
  by (simp add: pdf_slots_def acme_def floor_cleaner_def old_wax_def slot_filename_def lit_def)

lemma test_env_paths:
  "localPdfPath test_env (lit ''a.pdf'') = lit ''/app/../pdfs/a.pdf''"
  "localPdfPath test_env (lit ''b.pdf'') = lit ''/app/../pdfs/b.pdf''"
  "localPdfPath test_env (lit ''old.pdf'') = lit ''/app/../pdfs/old.pdf''"
  by (simp_all add: localPdfPath_def test_env_def lit_def)

lemma test_env_files:
  "local_fs test_env (lit ''/app/../pdfs/a.pdf'') = Some (File [0x25, 0x50, 0x44, 0x46])"
  "local_fs test_env (lit ''/app/../pdfs/b.pdf'') = None"
  "local_fs test_env (lit ''/app/../pdfs/old.pdf'') = Some (File [0x25, 0x50])"
  by (simp_all add: test_env_def lit_def)

lemma test_env_pdfs: "pdfs_readable test_env (chemicals acme)"
  by (simp add: pdfs_readable_def acme_slots test_env_paths test_env_files)

lemma test_env_served: "documents_served test_env"
  by (simp add: documents_served_def test_env_def passes_verification_def res_ok_def
      header_or_def lit_def parseInt10_def is_space_def is_digit_def digits_value_def js_less_def
      Let_def)

lemma acme_create:
  "createParams acme =
     \<lparr>cp_name = lit ''acme-ghs-binder'',
      cp_description = lit ''GHS Safety Binder for Acme - Professional chemical safety documentation portal'',
      cp_private = False,
      cp_homepage = lit ''https://rasco-inc.github.io/acme-ghs-binder'',
      cp_topics = [lit ''ghs'', lit ''safety'', lit ''chemical-safety'', lit ''osha-compliance'', lit ''sds''],
      cp_has_issues = False, cp_has_projects = False, cp_has_wiki = False,
      cp_auto_init = True, cp_license_template = lit ''mit''\<rparr>"
  by (simp add: createParams_def acme_def lit_def)

lemma uploadFile_InrD:
  assumes "uploadFile env rn p content msg b h = (Inr u, h')"
  shows "\<exists>sha. h' = h @ [GetContent owner rn p b,
          CreateOrUpdateFileContents
            \<lparr>fc_owner = owner, fc_repo = rn, fc_path = p, fc_message = msg,
             fc_content = toString_base64 env (Buffer_from env content), fc_branch = b,
             fc_sha = sha\<rparr>]"
  using assms
  by (auto simp: uploadFile_def io_bind_def io_catch_def io_call_def io_return_def io_throw_def
      Let_def split: sum.splits if_splits)

lemma deploy_trace:
  assumes "deployCustomerSite env cfg h = (Inr result, h')"
  shows "\<exists>h4 sha t6 h6 t7 t8.
      h6 = h4 @ [GetContent owner (repo_name (dr_repository result)) (lit ''README.md'')
                  (deployBranch (dr_repository result)),
               CreateOrUpdateFileContents
                 \<lparr>fc_owner = owner, fc_repo = repo_name (dr_repository result),
                  fc_path = lit ''README.md'', fc_message = lit ''Add repository documentation'',
                  fc_content = toString_base64 env (Buffer_from env
                     (generateReadme env cfg (toLocaleDateString_now env h4))),
                  fc_branch = deployBranch (dr_repository result), fc_sha = sha\<rparr>] @ t6
      \<and> uploadPDFs env (repo_name (dr_repository result)) (deployBranch (dr_repository result))
            (chemicals cfg) h6 = (Inr (), h6 @ t7)
      \<and> verifyPDFsOnPages env (repo_name (dr_repository result)) (chemicals cfg)
            (h6 @ t7 @ t8 @ [SetTimeout 10000]) = (Inr (), h')"
proof -
  from assms obtain repo h1 html h2 h3 h4 h5 h6 h7 h8 where
    steps: "uploadFile env (repo_name repo) (lit ''README.md'')
       (generateReadme env cfg (toLocaleDateString_now env h4))
       (lit ''Add repository documentation'') (deployBranch repo) h4 = (Inr (), h5)"
    "uploadCustomerAssets env (repo_name repo) (ci_slug (customer_info cfg)) (deployBranch repo) h5
       = (Inr (), h6)"
    "uploadPDFs env (repo_name repo) (deployBranch repo) (chemicals cfg) h6 = (Inr (), h7)"
    "enablePages env (repo_name repo) (deployBranch repo) h7 = (Inr (), h8)"
    "verifyPDFsOnPages env (repo_name repo) (chemicals cfg) (h8 @ [SetTimeout 10000]) = (Inr (), h')"
    and res: "dr_repository result = repo"
    by (elim deployCustomerSite_InrE) simp
  from uploadFile_InrD [OF steps(1)] obtain sha where
    h5: "h5 = h4 @ [GetContent owner (repo_name repo) (lit ''README.md'') (deployBranch repo),
          CreateOrUpdateFileContents
            \<lparr>fc_owner = owner, fc_repo = repo_name repo, fc_path = lit ''README.md'',
             fc_message = lit ''Add repository documentation'',
             fc_content = toString_base64 env (Buffer_from env
                (generateReadme env cfg (toLocaleDateString_now env h4))),
             fc_branch = deployBranch repo, fc_sha = sha\<rparr>]"
    by blast
  from emitsD [OF emits_uploadCustomerAssets steps(2)] obtain t6 where h6: "h6 = h5 @ t6" by blast
  from emitsD [OF emits_uploadPDFs steps(3)] obtain t7 where h7: "h7 = h6 @ t7" by blast
  from emitsD [OF emits_enablePages steps(4)] obtain t8 where h8: "h8 = h7 @ t8" by blast
  have a: "h6 = h4 @ [GetContent owner (repo_name (dr_repository result)) (lit ''README.md'')
                  (deployBranch (dr_repository result)),
               CreateOrUpdateFileContents
                 \<lparr>fc_owner = owner, fc_repo = repo_name (dr_repository result),
                  fc_path = lit ''README.md'', fc_message = lit ''Add repository documentation'',
                  fc_content = toString_base64 env (Buffer_from env
                     (generateReadme env cfg (toLocaleDateString_now env h4))),
                  fc_branch = deployBranch (dr_repository result), fc_sha = sha\<rparr>] @ t6"
    using h5 h6 res by simp
  have b: "uploadPDFs env (repo_name (dr_repository result)) (deployBranch (dr_repository result))
            (chemicals cfg) h6 = (Inr (), h6 @ t7)"
    using steps(3) h7 res by simp
  have c: "verifyPDFsOnPages env (repo_name (dr_repository result)) (chemicals cfg)
            (h6 @ t7 @ t8 @ [SetTimeout 10000]) = (Inr (), h')"
    using steps(5) h7 h8 res by simp
  from a b c show ?thesis by blast
qed

lemma deploy_runs_uploadPDFs:
  assumes d: "deployCustomerSite env cfg h = (Inr result, h')"
  shows "\<exists>h6 t t'. uploadPDFs env (repo_name (dr_repository result))
                    (deployBranch (dr_repository result)) (chemicals cfg) h6 = (Inr (), h6 @ t)
         \<and> h' = h6 @ t @ t'"
proof -
  from deploy_trace [OF d] obtain h6 t7 t8 where
    up: "uploadPDFs env (repo_name (dr_repository result)) (deployBranch (dr_repository result))
          (chemicals cfg) h6 = (Inr (), h6 @ t7)"
    and v: "verifyPDFsOnPages env (repo_name (dr_repository result)) (chemicals cfg)
          (h6 @ t7 @ t8 @ [SetTimeout 10000]) = (Inr (), h')"
    by blast
  from emitsD [OF emits_verifyPDFsOnPages v] obtain t9 where
    "h' = (h6 @ t7 @ t8 @ [SetTimeout 10000]) @ t9" by blast
  then have "h' = h6 @ t7 @ (t8 @ [SetTimeout 10000] @ t9)" by simp
  with up show ?thesis by blast
qed

text \<open>
  Claim C1, as amended. Step 7 of the deployment goes through every chemical of the
  configuration, whether active or not, and through its two document slots, literature
  first. A slot that names a file which does not exist in the local \<open>pdfs\<close> folder
  prints a warning and the loop goes on; a slot whose file exists is read as raw bytes and
  uploaded by \<open>safeUploadBinary\<close> to \<open>pdfs/<filename>\<close>. So, when GitHub accepts every
  request and no document path is a directory, the step returns normally, its commits are
  exactly the existing documents of all chemicals, in order, and its warnings are exactly
  the missing ones. A successful deployment has run this step on the full chemical list.
\<close>

theorem uploadPDFs_every_chemical:
  "(slot_filename data \<noteq> [] \<and> \<not> existsSync env (localPdfPath env (slot_filename data)) \<longrightarrow>
      uploadPDF env rn b c (ty, data) h
        = (Inr (), h @ [ConsoleWarn (not_found_warning ty (localPdfPath env (slot_filename data)))]))
   \<and> (slot_filename data \<noteq> []
        \<and> local_fs env (localPdfPath env (slot_filename data)) = Some (File bs) \<longrightarrow>
      uploadPDF env rn b c (ty, data) h
        = safeUploadBinary env owner rn b (lit ''pdfs/'' @ slot_filename data) bs
            (lit ''Upload '' @ ty @ lit '' PDF for '' @ chem_name c) h)
   \<and> (github_accepts env \<and> pdfs_readable env chems \<longrightarrow>
      (\<exists>t. uploadPDFs env rn b chems h = (Inr (), h @ t)
         \<and> map (\<lambda>fc. (fc_path fc, fc_content fc)) (commits_of t)
             = present_documents env (pdf_slots chems)
         \<and> warnings_of t = missing_warnings env (pdf_slots chems)))
   \<and> (deployCustomerSite env cfg h = (Inr result, h') \<longrightarrow>
      (\<exists>h6 t t'. uploadPDFs env (repo_name (dr_repository result))
                    (deployBranch (dr_repository result)) (chemicals cfg) h6 = (Inr (), h6 @ t)
         \<and> h' = h6 @ t @ t'))"
proof -
  have 1: "uploadPDF env rn b c (ty, data) h
        = (Inr (), h @ [ConsoleWarn (not_found_warning ty (localPdfPath env (slot_filename data)))])"
    if "slot_filename data \<noteq> []" "\<not> existsSync env (localPdfPath env (slot_filename data))"
    using that by (simp add: uploadPDF_def io_emit_def Let_def)
  have 2: "uploadPDF env rn b c (ty, data) h
        = safeUploadBinary env owner rn b (lit ''pdfs/'' @ slot_filename data) bs
            (lit ''Upload '' @ ty @ lit '' PDF for '' @ chem_name c) h"
    if "slot_filename data \<noteq> []"
      "local_fs env (localPdfPath env (slot_filename data)) = Some (File bs)"
    using that by (simp add: uploadPDF_def existsSync_def readFile_def io_bind_lift_Inr Let_def)
  have 3: "\<exists>t. uploadPDFs env rn b chems h = (Inr (), h @ t)
         \<and> map (\<lambda>fc. (fc_path fc, fc_content fc)) (commits_of t)
             = present_documents env (pdf_slots chems)
         \<and> warnings_of t = missing_warnings env (pdf_slots chems)"
    if "github_accepts env" "pdfs_readable env chems"
    using uploadPDFs_accepts [OF that] .
  have 4: "\<exists>h6 t t'. uploadPDFs env (repo_name (dr_repository result))
                    (deployBranch (dr_repository result)) (chemicals cfg) h6 = (Inr (), h6 @ t)
         \<and> h' = h6 @ t @ t'"
    if "deployCustomerSite env cfg h = (Inr result, h')"
    using deploy_runs_uploadPDFs [OF that] .
  from 1 2 3 4 show ?thesis by blast
qed

subsection \<open>Literals\<close>

lemma of_char_word16_inj: "(of_char c :: 16 word) = of_char d \<Longrightarrow> c = d"
proof -
  assume a: "(of_char c :: 16 word) = of_char d"
  have "(of_char c :: 16 word) = word_of_nat (of_char c)" for c
    by (simp add: of_nat_of_char)
  with a have "(word_of_nat (of_char c) :: 16 word) = word_of_nat (of_char d)" by simp
  then have "take_bit 16 (of_char c :: nat) = take_bit 16 (of_char d :: nat)"
    by (simp add: word_of_nat_eq_iff)
  moreover have "take_bit 16 (of_char x :: nat) = of_char x" for x
  proof (rule take_bit_nat_eq_self)
    show "(of_char x :: nat) < 2 ^ 16"
      by (rule order_less_trans [OF nat_of_char_less_256]) simp
  qed
  ultimately have "(of_char c :: nat) = of_char d" by simp
  then show ?thesis by (simp add: of_char_eq_iff)
qed

lemma lit_eq_iff: "lit a = lit b \<longleftrightarrow> a = b"
  unfolding lit_def by (rule inj_map_eq_map) (auto intro: injI of_char_word16_inj)

lemma lit_append: "lit a @ lit b = lit (a @ b)"
  by (simp add: lit_def)

lemma lit_append2: "lit a @ lit b @ s = lit (a @ b) @ s"
  by (simp add: lit_def)

lemma lit_eq_Nil: "lit a = [] \<longleftrightarrow> a = []"
  by (simp add: lit_def)

lemmas lit_simps = lit_eq_iff lit_append lit_append2 lit_eq_Nil

subsection \<open>The test deployment\<close>

lemma test_env_base64: "toString_base64 test_env = map ucast"
  by (simp add: test_env_def)

lemma acme_created:
  "createRepository test_env acme []
     = (Inr (acme_repo (lit ''main'')), [CreateForAuthenticatedUser (createParams acme)])"
  by (simp add: createRepository_run test_env_def acme_create acme_repo_def lit_simps)

lemma acme_deploys:
  "\<exists>result h'. deployCustomerSite test_env acme [] = (Inr result, h')
     \<and> dr_repository result = acme_repo (lit ''main'')"
proof -
  have "ci_slug (customer_info acme) = lit ''acme''" by (simp add: acme_def)
  with deploy_succeeds [OF acme_created test_env_template test_env_accepts _ test_env_pdfs
      test_env_served] test_env_assets
  obtain result h' where d: "deployCustomerSite test_env acme [] = (Inr result, h')"
    by auto
  then have "dr_repository result = acme_repo (lit ''main'')"
    using acme_created by (elim deployCustomerSite_InrE) simp
  with d show ?thesis by blast
qed

lemma acme_repo_fields:
  "repo_name (acme_repo b) = lit ''acme-ghs-binder''"
  "deployBranch (acme_repo (lit ''main'')) = lit ''main''"
  "deployBranch (acme_repo (lit ''master'')) = lit ''master''"
  by (simp_all add: acme_repo_def deployBranch_def lit_simps)

lemma acme_present:
  "present_documents test_env (pdf_slots (chemicals acme))
     = [(lit ''pdfs/a.pdf'', [0x25, 0x50, 0x44, 0x46]), (lit ''pdfs/old.pdf'', [0x25, 0x50])]"
  by (simp add: present_documents_def acme_slots existsSync_def test_env_paths test_env_files
      file_bytes_def test_env_base64 lit_simps)

lemma acme_missing:
  "missing_warnings test_env (pdf_slots (chemicals acme))
     = [not_found_warning (lit ''SDS'') (lit ''/app/../pdfs/b.pdf'')]"
  by (simp add: missing_warnings_def acme_slots existsSync_def test_env_paths test_env_files)

theorem uploadPDFs_witness:
  "uploadPDF test_env (lit ''acme-ghs-binder'') (lit ''main'') floor_cleaner
       (lit ''SDS'', chem_sds floor_cleaner) []
     = (Inr (), [ConsoleWarn (not_found_warning (lit ''SDS'') (lit ''/app/../pdfs/b.pdf''))])
   \<and> uploadPDF test_env (lit ''acme-ghs-binder'') (lit ''main'') floor_cleaner
       (lit ''Literature'', chem_literature floor_cleaner) []
     = safeUploadBinary test_env owner (lit ''acme-ghs-binder'') (lit ''main'') (lit ''pdfs/a.pdf'')
         [0x25, 0x50, 0x44, 0x46] (lit ''Upload Literature PDF for Floor Cleaner'') []
   \<and> (\<exists>t. uploadPDFs test_env (lit ''acme-ghs-binder'') (lit ''main'') (chemicals acme) []
            = (Inr (), t)
        \<and> map (\<lambda>fc. (fc_path fc, fc_content fc)) (commits_of t)
            = [(lit ''pdfs/a.pdf'', [0x25, 0x50, 0x44, 0x46]), (lit ''pdfs/old.pdf'', [0x25, 0x50])]
        \<and> warnings_of t = [not_found_warning (lit ''SDS'') (lit ''/app/../pdfs/b.pdf'')])
   \<and> (\<exists>result h6 t t'. deployCustomerSite test_env acme [] = (Inr result, h6 @ t @ t')
        \<and> uploadPDFs test_env (lit ''acme-ghs-binder'') (lit ''main'') (chemicals acme) h6
            = (Inr (), h6 @ t))"
proof -
  have sds: "slot_filename (chem_sds floor_cleaner) = lit ''b.pdf''"
    and lt: "slot_filename (chem_literature floor_cleaner) = lit ''a.pdf''"
    and nm: "chem_name floor_cleaner = lit ''Floor Cleaner''"
    by (simp_all add: floor_cleaner_def slot_filename_def)
  note w1 = uploadPDFs_every_chemical
    [where env = test_env and data = "chem_sds floor_cleaner" and ty = "lit ''SDS''"
       and rn = "lit ''acme-ghs-binder''" and b = "lit ''main''" and c = floor_cleaner and h = "[]"
       and chems = "chemicals acme"]
  note w2 = uploadPDFs_every_chemical
    [where env = test_env and data = "chem_literature floor_cleaner" and ty = "lit ''Literature''"
       and rn = "lit ''acme-ghs-binder''" and b = "lit ''main''" and c = floor_cleaner and h = "[]"
       and bs = "[0x25, 0x50, 0x44, 0x46]"]
  from w1 have 1: "uploadPDF test_env (lit ''acme-ghs-binder'') (lit ''main'') floor_cleaner
       (lit ''SDS'', chem_sds floor_cleaner) []
     = (Inr (), [ConsoleWarn (not_found_warning (lit ''SDS'') (lit ''/app/../pdfs/b.pdf''))])"
    by (simp add: sds existsSync_def test_env_paths test_env_files lit_simps)
  from w2 have 2: "uploadPDF test_env (lit ''acme-ghs-binder'') (lit ''main'') floor_cleaner
       (lit ''Literature'', chem_literature floor_cleaner) []
     = safeUploadBinary test_env owner (lit ''acme-ghs-binder'') (lit ''main'') (lit ''pdfs/a.pdf'')
         [0x25, 0x50, 0x44, 0x46] (lit ''Upload Literature PDF for Floor Cleaner'') []"
    by (simp add: lt nm test_env_paths test_env_files lit_simps)
  from w1 test_env_accepts test_env_pdfs have 3:
    "\<exists>t. uploadPDFs test_env (lit ''acme-ghs-binder'') (lit ''main'') (chemicals acme) []
            = (Inr (), t)
        \<and> map (\<lambda>fc. (fc_path fc, fc_content fc)) (commits_of t)
            = [(lit ''pdfs/a.pdf'', [0x25, 0x50, 0x44, 0x46]), (lit ''pdfs/old.pdf'', [0x25, 0x50])]
        \<and> warnings_of t = [not_found_warning (lit ''SDS'') (lit ''/app/../pdfs/b.pdf'')]"
    by (simp add: acme_present acme_missing)
  from acme_deploys obtain result h' where
    d: "deployCustomerSite test_env acme [] = (Inr result, h')"
    and r: "dr_repository result = acme_repo (lit ''main'')"
    by blast
  from uploadPDFs_every_chemical [where env = test_env and cfg = acme and h = "[]"
      and result = result and h' = h'] d
  obtain h6 t t' where
    u: "uploadPDFs test_env (repo_name (dr_repository result)) (deployBranch (dr_repository result))
       (chemicals acme) h6 = (Inr (), h6 @ t)"
    and h': "h' = h6 @ t @ t'"
    by blast
  from u r have "uploadPDFs test_env (lit ''acme-ghs-binder'') (lit ''main'') (chemicals acme) h6
            = (Inr (), h6 @ t)"
    by (simp add: acme_repo_fields)
  with d h' have 4: "\<exists>result h6 t t'. deployCustomerSite test_env acme [] = (Inr result, h6 @ t @ t')
        \<and> uploadPDFs test_env (lit ''acme-ghs-binder'') (lit ''main'') (chemicals acme) h6
            = (Inr (), h6 @ t)"
    by blast
  from 1 2 3 4 show ?thesis by blast
qed

text \<open>
  Claim C1 as stated says that only the documents of active chemicals are uploaded. The
  loop has no test on \<open>active\<close>: the chemical \<open>old_wax\<close> of the customer \<open>acme\<close> is
  inactive, its literature \<open>old.pdf\<close> exists locally, and the step commits
  \<open>pdfs/old.pdf\<close>, alone and as part of the deployment of \<open>acme\<close>.
\<close>

theorem inactive_chemical_is_uploaded:
  "\<not> chem_active old_wax
   \<and> chemicals acme = [floor_cleaner, old_wax]
   \<and> uploadPDFs test_env (lit ''acme-ghs-binder'') (lit ''main'') [old_wax] []
      = (Inr (), [GetContent owner (lit ''acme-ghs-binder'') (lit ''pdfs/old.pdf'') (lit ''main''),
                  CreateOrUpdateFileContents
                    \<lparr>fc_owner = owner, fc_repo = lit ''acme-ghs-binder'',
                     fc_path = lit ''pdfs/old.pdf'',
                     fc_message = lit ''Upload Literature PDF for Old Wax'',
                     fc_content = [0x25, 0x50], fc_branch = lit ''main'', fc_sha = None\<rparr>])
   \<and> lit ''pdfs/old.pdf'' \<in> set (map fc_path (commits_of (snd (deployCustomerSite test_env acme []))))"
proof -
  have 1: "\<not> chem_active old_wax" "chemicals acme = [floor_cleaner, old_wax]"
    by (simp_all add: old_wax_def acme_def)
  have f: "slot_filename (chem_literature old_wax) = lit ''old.pdf''"
    "slot_filename (chem_sds old_wax) = []" "chem_name old_wax = lit ''Old Wax''"
    by (simp_all add: old_wax_def slot_filename_def)
  have probe: "octokit_getContent test_env h c = Inl (RequestError 404 (lit ''Not Found''))"
    and commit: "octokit_createOrUpdateFileContents test_env h c = Inr ()" for h c
    by (simp_all add: test_env_def)
  have 2: "uploadPDFs test_env (lit ''acme-ghs-binder'') (lit ''main'') [old_wax] []
      = (Inr (), [GetContent owner (lit ''acme-ghs-binder'') (lit ''pdfs/old.pdf'') (lit ''main''),
                  CreateOrUpdateFileContents
                    \<lparr>fc_owner = owner, fc_repo = lit ''acme-ghs-binder'',
                     fc_path = lit ''pdfs/old.pdf'',
                     fc_message = lit ''Upload Literature PDF for Old Wax'',
                     fc_content = [0x25, 0x50], fc_branch = lit ''main'', fc_sha = None\<rparr>])"
    by (simp add: uploadPDFs_def uploadPDF_def f lit_simps existsSync_def test_env_paths
        test_env_files readFile_def safeUploadBinary_def io_bind_def io_lift_def io_catch_def
        io_call_def io_return_def probe commit test_env_base64 Let_def)
  from acme_deploys obtain result h' where
    d: "deployCustomerSite test_env acme [] = (Inr result, h')"
    and r: "dr_repository result = acme_repo (lit ''main'')"
    by blast
  from deploy_runs_uploadPDFs [OF d] obtain h6 t7 t' where
    "uploadPDFs test_env (repo_name (dr_repository result)) (deployBranch (dr_repository result))
       (chemicals acme) h6 = (Inr (), h6 @ t7)"
    and h': "h' = h6 @ t7 @ t'"
    by blast
  with r have up: "uploadPDFs test_env (lit ''acme-ghs-binder'') (lit ''main'') (chemicals acme) h6
           = (Inr (), h6 @ t7)"
    by (simp add: acme_repo_fields)
  from uploadPDFs_accepts [OF test_env_accepts test_env_pdfs, of "lit ''acme-ghs-binder''"
      "lit ''main''" h6] up
  have "map (\<lambda>fc. (fc_path fc, fc_content fc)) (commits_of t7)
      = present_documents test_env (pdf_slots (chemicals acme))"
    by auto
  then have "map fc_path (commits_of t7) = [lit ''pdfs/a.pdf'', lit ''pdfs/old.pdf'']"
    unfolding acme_present by (auto simp: map_eq_Cons_conv)
  then have "lit ''pdfs/old.pdf'' \<in> set (map fc_path (commits_of h'))"
    unfolding h' by (simp add: commits_of_append)
  with d have 3: "lit ''pdfs/old.pdf''
      \<in> set (map fc_path (commits_of (snd (deployCustomerSite test_env acme []))))"
    by simp
  from 1 2 3 show ?thesis by blast
qed

subsection \<open>Verification gates the deployment\<close>

lemma deploy_verification_failure:
  assumes "createRepository env cfg h = (Inr repo, h1)"
    and "generateHTML env cfg h1 = (Inr html, h2)"
    and "createDirectoryStructure env (repo_name repo) (deployBranch repo) h2 = (Inr (), h3)"
    and "uploadFile env (repo_name repo) (lit ''index.html'') html
       (lit ''Deploy GHS safety binder website'') (deployBranch repo) h3 = (Inr (), h4)"
    and "uploadFile env (repo_name repo) (lit ''README.md'')
       (generateReadme env cfg (toLocaleDateString_now env h4))
       (lit ''Add repository documentation'') (deployBranch repo) h4 = (Inr (), h5)"
    and "uploadCustomerAssets env (repo_name repo) (ci_slug (customer_info cfg)) (deployBranch repo) h5
       = (Inr (), h6)"
    and "uploadPDFs env (repo_name repo) (deployBranch repo) (chemicals cfg) h6 = (Inr (), h7)"
    and "enablePages env (repo_name repo) (deployBranch repo) h7 = (Inr (), h8)"
    and "verifyPDFsOnPages env (repo_name repo) (chemicals cfg) (h8 @ [SetTimeout 10000]) = (Inl e, h')"
  shows "deployCustomerSite env cfg h = (Inl e, h')"
  unfolding deployCustomerSite_def Let_def
  by (simp add: io_bind_def assms io_read_def io_emit_def)

lemma text_html_rejected:
  assumes "fetch env h (FetchHead url) = Inr res"
    and "res_content_type res = Some (lit ''text/html'')"
  shows "\<not> url_passes env h url
    \<and> (\<exists>m. verifyUrl env url h
          = (Inl (Error (lit ''Verification failed for '' @ url @ lit '': '' @ m)), h @ [FetchHead url]))"
proof -
  have "lit ''text/html'' \<noteq> []" by (simp add: lit_def)
  with assms(2) have "header_or (res_content_type res) [] = lit ''text/html''"
    by (simp add: header_or_def)
  with html_not_pdf have np: "\<not> passes_verification res"
    by (simp add: passes_verification_def)
  with assms(1) have n: "\<not> url_passes env h url" by (simp add: url_passes_def)
  obtain r h1 where v: "verifyUrl env url h = (r, h1)" by (cases "verifyUrl env url h")
  from verifyUrl_run [OF v] n obtain m where
    "h1 = h @ [FetchHead url]"
    "r = Inl (Error (lit ''Verification failed for '' @ url @ lit '': '' @ m))"
    by (cases r) auto
  with v n show ?thesis by blast
qed

text \<open>
  What verification does enforce. It sends one \<open>HEAD\<close> request for every document URL
  of the chemical list, in order. A deployment that returns a result has got, for each of
  these URLs, a response with a success status, a content type that contains \<open>pdf\<close> and
  a length header that \<open>parseInt\<close> does not find to be below 1024 (a missing or empty
  header counts as 0; a header that is a decimal number is at least 1024). The first URL
  that fails ends verification: no further request is made, and the error thrown names
  that URL; when the steps before verification have succeeded, the deployment throws this
  very error. A response of type \<open>text/html\<close> fails whatever its status.
\<close>

theorem verification_gates_deployment:
  "(deployCustomerSite env cfg h = (Inr result, h') \<longrightarrow>
      (\<exists>h1. h' = h1 @ map FetchHead (pdf_urls (repo_name (dr_repository result)) (chemicals cfg))
         \<and> (\<forall>k < length (pdf_urls (repo_name (dr_repository result)) (chemicals cfg)).
               url_passes env
                 (h1 @ map FetchHead
                    (take k (pdf_urls (repo_name (dr_repository result)) (chemicals cfg))))
                 (pdf_urls (repo_name (dr_repository result)) (chemicals cfg) ! k))))
   \<and> (url_passes env h url \<longrightarrow>
      (\<exists>res. fetch env h (FetchHead url) = Inr res
         \<and> res_ok res
         \<and> js_includes (header_or (res_content_type res) []) (lit ''pdf'')
         \<and> (\<exists>s. res_content_length res = Some s
               \<and> \<not> js_less (parseInt10 s) 1024
               \<and> (\<forall>n. parseInt10 s = Some n \<longrightarrow> 1024 \<le> n)
               \<and> ((\<forall>c \<in> set s. is_digit c) \<longrightarrow> 1024 \<le> digits_value s))))
   \<and> (verifyPDFsOnPages env rn chems h = (Inl e, h') \<longrightarrow>
      (\<exists>k < length (pdf_urls rn chems).
          h' = h @ map FetchHead (take (Suc k) (pdf_urls rn chems))
          \<and> (\<forall>j < k. url_passes env (h @ map FetchHead (take j (pdf_urls rn chems)))
                        (pdf_urls rn chems ! j))
          \<and> \<not> url_passes env (h @ map FetchHead (take k (pdf_urls rn chems))) (pdf_urls rn chems ! k)
          \<and> (\<exists>m. e = Error (lit ''Verification failed for '' @ pdf_urls rn chems ! k
                              @ lit '': '' @ m))))
   \<and> (createRepository env cfg h = (Inr repo, h1)
       \<and> generateHTML env cfg h1 = (Inr html, h2)
       \<and> createDirectoryStructure env (repo_name repo) (deployBranch repo) h2 = (Inr (), h3)
       \<and> uploadFile env (repo_name repo) (lit ''index.html'') html
            (lit ''Deploy GHS safety binder website'') (deployBranch repo) h3 = (Inr (), h4)
       \<and> uploadFile env (repo_name repo) (lit ''README.md'')
            (generateReadme env cfg (toLocaleDateString_now env h4))
            (lit ''Add repository documentation'') (deployBranch repo) h4 = (Inr (), h5)
       \<and> uploadCustomerAssets env (repo_name repo) (ci_slug (customer_info cfg))
            (deployBranch repo) h5 = (Inr (), h6)
       \<and> uploadPDFs env (repo_name repo) (deployBranch repo) (chemicals cfg) h6 = (Inr (), h7)
       \<and> enablePages env (repo_name repo) (deployBranch repo) h7 = (Inr (), h8)
       \<and> verifyPDFsOnPages env (repo_name repo) (chemicals cfg) (h8 @ [SetTimeout 10000])
            = (Inl e, h') \<longrightarrow>
      deployCustomerSite env cfg h = (Inl e, h'))
   \<and> (fetch env h (FetchHead url) = Inr res \<and> res_content_type res = Some (lit ''text/html'') \<longrightarrow>
      \<not> url_passes env h url
      \<and> (\<exists>m. verifyUrl env url h
            = (Inl (Error (lit ''Verification failed for '' @ url @ lit '': '' @ m)),
               h @ [FetchHead url])))"
proof -
  have 1: "\<exists>h1. h' = h1 @ map FetchHead (pdf_urls (repo_name (dr_repository result)) (chemicals cfg))
         \<and> (\<forall>k < length (pdf_urls (repo_name (dr_repository result)) (chemicals cfg)).
               url_passes env
                 (h1 @ map FetchHead
                    (take k (pdf_urls (repo_name (dr_repository result)) (chemicals cfg))))
                 (pdf_urls (repo_name (dr_repository result)) (chemicals cfg) ! k))"
    if d: "deployCustomerSite env cfg h = (Inr result, h')"
  proof -
    from d obtain repo h8 where
      v: "verifyPDFsOnPages env (repo_name repo) (chemicals cfg) (h8 @ [SetTimeout 10000])
            = (Inr (), h')"
      and r: "dr_repository result = repo"
      by (elim deployCustomerSite_InrE) simp
    from v have "io_forEach (pdf_urls (repo_name repo) (chemicals cfg)) (verifyUrl env)
        (h8 @ [SetTimeout 10000]) = (Inr (), h')"
      by (simp add: verifyPDFsOnPages_flat)
    from verify_all_Inr [OF this] r show ?thesis by blast
  qed
  have 2: "\<exists>res. fetch env h (FetchHead url) = Inr res
         \<and> res_ok res
         \<and> js_includes (header_or (res_content_type res) []) (lit ''pdf'')
         \<and> (\<exists>s. res_content_length res = Some s
               \<and> \<not> js_less (parseInt10 s) 1024
               \<and> (\<forall>n. parseInt10 s = Some n \<longrightarrow> 1024 \<le> n)
               \<and> ((\<forall>c \<in> set s. is_digit c) \<longrightarrow> 1024 \<le> digits_value s))"
    if "url_passes env h url"
  proof -
    from that obtain res where f: "fetch env h (FetchHead url) = Inr res"
      and p: "passes_verification res"
      by (cases "fetch env h (FetchHead url)") (simp_all add: url_passes_def)
    from passes_verificationD [OF p] f show ?thesis by blast
  qed
  have 3: "\<exists>k < length (pdf_urls rn chems).
          h' = h @ map FetchHead (take (Suc k) (pdf_urls rn chems))
          \<and> (\<forall>j < k. url_passes env (h @ map FetchHead (take j (pdf_urls rn chems)))
                        (pdf_urls rn chems ! j))
          \<and> \<not> url_passes env (h @ map FetchHead (take k (pdf_urls rn chems))) (pdf_urls rn chems ! k)
          \<and> (\<exists>m. e = Error (lit ''Verification failed for '' @ pdf_urls rn chems ! k
                              @ lit '': '' @ m))"
    if "verifyPDFsOnPages env rn chems h = (Inl e, h')"
    using that verify_all_Inl [of "pdf_urls rn chems" env h e h']
    by (simp add: verifyPDFsOnPages_flat)
  note 4 = deploy_verification_failure [of env cfg h repo h1 html h2 h3 h4 h5 h6 h7 h8 e h']
  note 5 = text_html_rejected [of env h url res]
  from 1 2 3 4 5 show ?thesis by blast
qed


lemma acme_urls:
  "pdf_urls (lit ''acme-ghs-binder'') (chemicals acme)
     = [lit ''https://rascoused.github.io/acme-ghs-binder/pdfs/a.pdf'',
        lit ''https://rascoused.github.io/acme-ghs-binder/pdfs/b.pdf'',
        lit ''https://rascoused.github.io/acme-ghs-binder/pdfs/old.pdf'']"
  by (simp add: pdf_urls_def pdf_filenames_def acme_def floor_cleaner_def old_wax_def
      slot_filename_def owner_def lit_simps)

lemma html_env_world:
  "createRepository html_env acme []
     = (Inr (acme_repo (lit ''main'')), [CreateForAuthenticatedUser (createParams acme)])"
  "readFile_utf8 html_env (templatePath html_env) = Inr (lit ''<html>'')"
  "github_accepts html_env"
  "assets_readable html_env (lit ''acme'')"
  "pdfs_readable html_env (chemicals acme)"
  "\<not> url_passes html_env h url"
proof -
  show "createRepository html_env acme []
     = (Inr (acme_repo (lit ''main'')), [CreateForAuthenticatedUser (createParams acme)])"
    by (simp add: createRepository_run html_env_def test_env_def acme_create acme_repo_def lit_simps)
  show "readFile_utf8 html_env (templatePath html_env) = Inr (lit ''<html>'')"
    by (simp add: html_env_def test_env_def)
  show "github_accepts html_env"
    using test_env_accepts by (simp add: html_env_def github_accepts_def)
  show "assets_readable html_env (lit ''acme'')"
    by (simp add: assets_readable_def html_env_def test_env_def lit_def)
  show "pdfs_readable html_env (chemicals acme)"
    using test_env_pdfs by (simp add: pdfs_readable_def html_env_def localPdfPath_def)
  have "fetch html_env h (FetchHead url)
      = Inr \<lparr>res_status = 200, res_content_type = Some (lit ''text/html''),
             res_content_length = Some (lit ''5000'')\<rparr>"
    by (simp add: html_env_def)
  from text_html_rejected [OF this] show "\<not> url_passes html_env h url" by simp
qed

theorem verification_witness:
  "(\<exists>result h1. deployCustomerSite test_env acme []
       = (Inr result,
          h1 @ map FetchHead
            [lit ''https://rascoused.github.io/acme-ghs-binder/pdfs/a.pdf'',
             lit ''https://rascoused.github.io/acme-ghs-binder/pdfs/b.pdf'',
             lit ''https://rascoused.github.io/acme-ghs-binder/pdfs/old.pdf'']))
   \<and> (\<exists>s. res_content_length
             \<lparr>res_status = 200, res_content_type = Some (lit ''application/pdf''),
              res_content_length = Some (lit ''2048'')\<rparr> = Some s
          \<and> 1024 \<le> digits_value s)
   \<and> (\<exists>m h'. deployCustomerSite html_env acme []
        = (Inl (Error (lit ''Verification failed for ''
               @ lit ''https://rascoused.github.io/acme-ghs-binder/pdfs/a.pdf'' @ lit '': '' @ m)), h'))
   \<and> (\<exists>m. verifyUrl html_env (lit ''https://rascoused.github.io/acme-ghs-binder/pdfs/a.pdf'') []
        = (Inl (Error (lit ''Verification failed for ''
               @ lit ''https://rascoused.github.io/acme-ghs-binder/pdfs/a.pdf'' @ lit '': '' @ m)),
           [FetchHead (lit ''https://rascoused.github.io/acme-ghs-binder/pdfs/a.pdf'')]))"
proof -
  let ?ua = "lit ''https://rascoused.github.io/acme-ghs-binder/pdfs/a.pdf''"
  let ?res = "\<lparr>res_status = 200, res_content_type = Some (lit ''application/pdf''),
              res_content_length = Some (lit ''2048'')\<rparr>"
  let ?html = "\<lparr>res_status = 200, res_content_type = Some (lit ''text/html''),
             res_content_length = Some (lit ''5000'')\<rparr>"
  \<comment> \<open>a successful deployment\<close>
  from acme_deploys obtain result h' where
    d: "deployCustomerSite test_env acme [] = (Inr result, h')"
    and r: "dr_repository result = acme_repo (lit ''main'')"
    by blast
  from verification_gates_deployment [where env = test_env and cfg = acme and h = "[]"
      and result = result and h' = h'] d
  obtain h1 where "h' = h1 @ map FetchHead (pdf_urls (repo_name (dr_repository result)) (chemicals acme))"
    by blast
  with d r have 1: "\<exists>result h1. deployCustomerSite test_env acme []
       = (Inr result,
          h1 @ map FetchHead
            [lit ''https://rascoused.github.io/acme-ghs-binder/pdfs/a.pdf'',
             lit ''https://rascoused.github.io/acme-ghs-binder/pdfs/b.pdf'',
             lit ''https://rascoused.github.io/acme-ghs-binder/pdfs/old.pdf''])"
    by (auto simp: acme_repo_fields acme_urls)
  \<comment> \<open>a response that passes\<close>
  have f: "fetch test_env [] (FetchHead ?ua) = Inr ?res" by (simp add: test_env_def)
  have "url_passes test_env [] ?ua"
    using test_env_served by (simp add: documents_served_def url_passes_def)
  with verification_gates_deployment [where env = test_env and h = "[]" and url = ?ua] f
  obtain s where s: "res_content_length ?res = Some s"
    "(\<forall>c \<in> set s. is_digit c) \<longrightarrow> 1024 \<le> digits_value s"
    by auto
  then have "s = lit ''2048''" by simp
  then have "\<forall>c \<in> set s. is_digit c" by (simp add: lit_def is_digit_def)
  with s have 2: "\<exists>s. res_content_length ?res = Some s \<and> 1024 \<le> digits_value s" by blast
  \<comment> \<open>a site that serves HTML\<close>
  have slug: "ci_slug (customer_info acme) = lit ''acme''" by (simp add: acme_def)
  note c = html_env_world(1)
  from succeeds_generateHTML [OF html_env_world(2)] obtain html h2 where
    g: "generateHTML html_env acme [CreateForAuthenticatedUser (createParams acme)] = (Inr html, h2)"
    by (rule succeedsD)
  from succeeds_createDirectoryStructure [OF html_env_world(3)] obtain u3 h3 where
    "createDirectoryStructure html_env (lit ''acme-ghs-binder'') (lit ''main'') h2 = (Inr u3, h3)"
    by (rule succeedsD)
  then have s3: "createDirectoryStructure html_env (lit ''acme-ghs-binder'') (lit ''main'') h2
      = (Inr (), h3)" by simp
  from succeeds_uploadFile [OF html_env_world(3)] obtain u4 h4 where
    "uploadFile html_env (lit ''acme-ghs-binder'') (lit ''index.html'') html
       (lit ''Deploy GHS safety binder website'') (lit ''main'') h3 = (Inr u4, h4)"
    by (rule succeedsD)
  then have s4: "uploadFile html_env (lit ''acme-ghs-binder'') (lit ''index.html'') html
       (lit ''Deploy GHS safety binder website'') (lit ''main'') h3 = (Inr (), h4)" by simp
  from succeeds_uploadFile [OF html_env_world(3)] obtain u5 h5 where
    "uploadFile html_env (lit ''acme-ghs-binder'') (lit ''README.md'')
       (generateReadme html_env acme (toLocaleDateString_now html_env h4))
       (lit ''Add repository documentation'') (lit ''main'') h4 = (Inr u5, h5)"
    by (rule succeedsD)
  then have s5: "uploadFile html_env (lit ''acme-ghs-binder'') (lit ''README.md'')
       (generateReadme html_env acme (toLocaleDateString_now html_env h4))
       (lit ''Add repository documentation'') (lit ''main'') h4 = (Inr (), h5)" by simp
  from succeeds_uploadCustomerAssets [OF html_env_world(3,4)] obtain u6 h6 where
    "uploadCustomerAssets html_env (lit ''acme-ghs-binder'') (lit ''acme'') (lit ''main'') h5
       = (Inr u6, h6)"
    by (rule succeedsD)
  then have s6: "uploadCustomerAssets html_env (lit ''acme-ghs-binder'') (lit ''acme'') (lit ''main'') h5
       = (Inr (), h6)" by simp
  from succeeds_uploadPDFs [OF html_env_world(3,5)] obtain u7 h7 where
    "uploadPDFs html_env (lit ''acme-ghs-binder'') (lit ''main'') (chemicals acme) h6 = (Inr u7, h7)"
    by (rule succeedsD)
  then have s7: "uploadPDFs html_env (lit ''acme-ghs-binder'') (lit ''main'') (chemicals acme) h6
      = (Inr (), h7)" by simp
  from succeeds_enablePages [OF html_env_world(3)] obtain u8 h8 where
    "enablePages html_env (lit ''acme-ghs-binder'') (lit ''main'') h7 = (Inr u8, h8)"
    by (rule succeedsD)
  then have s8: "enablePages html_env (lit ''acme-ghs-binder'') (lit ''main'') h7 = (Inr (), h8)"
    by simp
  obtain rv hv where v: "verifyPDFsOnPages html_env (lit ''acme-ghs-binder'') (chemicals acme)
      (h8 @ [SetTimeout 10000]) = (rv, hv)"
    by (cases "verifyPDFsOnPages html_env (lit ''acme-ghs-binder'') (chemicals acme)
      (h8 @ [SetTimeout 10000])")
  have "\<exists>e. rv = Inl e"
  proof (cases rv)
    case (Inr x)
    with v have "io_forEach (pdf_urls (lit ''acme-ghs-binder'') (chemicals acme)) (verifyUrl html_env)
        (h8 @ [SetTimeout 10000]) = (Inr x, hv)"
      by (simp add: verifyPDFsOnPages_flat)
    from verify_all_Inr [OF this] html_env_world(6) show ?thesis
      by (auto simp: acme_urls)
  qed simp
  then obtain e where e: "verifyPDFsOnPages html_env (lit ''acme-ghs-binder'') (chemicals acme)
      (h8 @ [SetTimeout 10000]) = (Inl e, hv)"
    using v by blast
  note w3 = verification_gates_deployment
    [where env = html_env and rn = "lit ''acme-ghs-binder''" and chems = "chemicals acme"
       and h = "h8 @ [SetTimeout 10000]" and e = e and h' = hv,
     THEN conjunct2, THEN conjunct2, THEN conjunct1, rule_format, OF e]
  then obtain k m where k: "k < length (pdf_urls (lit ''acme-ghs-binder'') (chemicals acme))"
    "\<forall>j < k. url_passes html_env ((h8 @ [SetTimeout 10000]) @ map FetchHead
        (take j (pdf_urls (lit ''acme-ghs-binder'') (chemicals acme))))
        (pdf_urls (lit ''acme-ghs-binder'') (chemicals acme) ! j)"
    "e = Error (lit ''Verification failed for ''
          @ pdf_urls (lit ''acme-ghs-binder'') (chemicals acme) ! k @ lit '': '' @ m)"
    by blast
  from k(2) html_env_world(6) have "k = 0" by (cases k) auto
  with k(3) have em: "e = Error (lit ''Verification failed for '' @ ?ua @ lit '': '' @ m)"
    by (simp add: acme_urls)
  note w4 = verification_gates_deployment
    [where env = html_env and cfg = acme and h = "[]" and repo = "acme_repo (lit ''main'')"
       and ?h1.0 = "[CreateForAuthenticatedUser (createParams acme)]" and html = html and ?h2.0 = h2
       and ?h3.0 = h3 and ?h4.0 = h4 and ?h5.0 = h5 and ?h6.0 = h6 and ?h7.0 = h7 and ?h8.0 = h8
       and e = e and h' = hv,
     THEN conjunct2, THEN conjunct2, THEN conjunct2, THEN conjunct1]
  from w4 c g s3 s4 s5 s6 s7 s8 e slug
  have "deployCustomerSite html_env acme [] = (Inl e, hv)"
    by (simp add: acme_repo_fields)
  with em have 3: "\<exists>m h'. deployCustomerSite html_env acme []
        = (Inl (Error (lit ''Verification failed for '' @ ?ua @ lit '': '' @ m)), h')"
    by blast
  have fh: "fetch html_env [] (FetchHead ?ua) = Inr ?html" by (simp add: html_env_def)
  note w5 = verification_gates_deployment [where env = html_env and h = "[]" and url = ?ua
      and res = ?html,
     THEN conjunct2, THEN conjunct2, THEN conjunct2, THEN conjunct2]
  from w5 fh
  have 4: "\<exists>m. verifyUrl html_env ?ua []
        = (Inl (Error (lit ''Verification failed for '' @ ?ua @ lit '': '' @ m)), [FetchHead ?ua])"
    by simp
  from 1 2 3 4 show ?thesis by blast
qed



subsection \<open>The rendered page and the README\<close>

lemma generateHTML_run:
  "generateHTML env cfg h =
     (case readFile_utf8 env (templatePath env) of
        Inl e \<Rightarrow> (Inl e, h)
      | Inr template \<Rightarrow>
          (Inr (mustache_render env template
                  (templateData env cfg (toLocaleDateString_now env h))), h))"
  by (simp add: generateHTML_def io_bind_def io_lift_def io_read_def io_return_def split: sum.splits)

lemma templateData_active_only:
  "templateData env (cfg\<lparr>chemicals := filter chem_active (chemicals cfg)\<rparr>) date
     = templateData env cfg date"
  by (simp add: templateData_def Let_def)

text \<open>
  Claim C8. \<open>generateHTML\<close> keeps the chemicals with \<open>active\<close> set before it counts and
  embeds: the product count of the template data is the number of active chemicals, the
  document count is twice that, and the products JSON is the serialisation of the list of
  active chemicals, in their order. The page is the template rendered with these data, so
  it is the same page as for the configuration with the inactive chemicals taken out:
  nothing of an inactive chemical reaches the output.
\<close>

theorem generateHTML_active_only:
  "TOTAL_PRODUCTS (templateData env cfg date) = length (filter chem_active (chemicals cfg))
   \<and> TOTAL_DOCUMENTS (templateData env cfg date) = 2 * length (filter chem_active (chemicals cfg))
   \<and> PRODUCTS_JSON (templateData env cfg date)
       = JSON_stringify_chemicals env (filter chem_active (chemicals cfg))
   \<and> set (filter chem_active (chemicals cfg)) = {c. c \<in> set (chemicals cfg) \<and> chem_active c}
   \<and> generateHTML env cfg h
       = (case readFile_utf8 env (templatePath env) of
            Inl e \<Rightarrow> (Inl e, h)
          | Inr template \<Rightarrow>
              (Inr (mustache_render env template
                      (templateData env cfg (toLocaleDateString_now env h))), h))
   \<and> generateHTML env (cfg\<lparr>chemicals := filter chem_active (chemicals cfg)\<rparr>) h
       = generateHTML env cfg h"
proof -
  have "generateHTML env (cfg\<lparr>chemicals := filter chem_active (chemicals cfg)\<rparr>) h
       = generateHTML env cfg h"
    unfolding generateHTML_run templateData_active_only ..
  moreover have "set (filter chem_active (chemicals cfg))
      = {c. c \<in> set (chemicals cfg) \<and> chem_active c}"
    by auto
  moreover have "TOTAL_PRODUCTS (templateData env cfg date) = length (filter chem_active (chemicals cfg))"
    "TOTAL_DOCUMENTS (templateData env cfg date) = 2 * length (filter chem_active (chemicals cfg))"
    "PRODUCTS_JSON (templateData env cfg date)
       = JSON_stringify_chemicals env (filter chem_active (chemicals cfg))"
    by (simp_all add: templateData_def Let_def)
  ultimately show ?thesis using generateHTML_run [of env cfg h] by simp
qed

theorem generateHTML_witness:
  "TOTAL_PRODUCTS (templateData test_env acme (lit ''7/28/2025'')) = 1
   \<and> TOTAL_DOCUMENTS (templateData test_env acme (lit ''7/28/2025'')) = 2
   \<and> PRODUCTS_JSON (templateData test_env acme (lit ''7/28/2025'')) = lit ''floor-cleaner;''
   \<and> generateHTML test_env acme [] = (Inr (lit ''<html>floor-cleaner;''), [])"
proof -
  have a: "filter chem_active (chemicals acme) = [floor_cleaner]"
    by (simp add: acme_def floor_cleaner_def old_wax_def)
  have j: "JSON_stringify_chemicals test_env [floor_cleaner] = lit ''floor-cleaner;''"
    by (simp add: test_env_def floor_cleaner_def lit_simps)
  have r: "mustache_render test_env t d = t @ PRODUCTS_JSON d"
    "toLocaleDateString_now test_env h = lit ''7/28/2025''" for t d h
    by (simp_all add: test_env_def)
  note w = generateHTML_active_only [where env = test_env and cfg = acme and h = "[]"
      and date = "lit ''7/28/2025''"]
  from w a j have 1: "TOTAL_PRODUCTS (templateData test_env acme (lit ''7/28/2025'')) = 1"
    "TOTAL_DOCUMENTS (templateData test_env acme (lit ''7/28/2025'')) = 2"
    "PRODUCTS_JSON (templateData test_env acme (lit ''7/28/2025'')) = lit ''floor-cleaner;''"
    by simp_all
  from w test_env_template have "generateHTML test_env acme []
      = (Inr (mustache_render test_env (lit ''<html>'')
           (templateData test_env acme (toLocaleDateString_now test_env []))), [])"
    by simp
  with 1(3) have 2: "generateHTML test_env acme [] = (Inr (lit ''<html>floor-cleaner;''), [])"
    by (simp add: r lit_simps)
  from 1 2 show ?thesis by blast
qed

lemma readme_total_products:
  "sublist (lit ''- **Total Products**: ''
       @ number_toString env (Some (int (length (filter chem_active (chemicals cfg))))) @ [0x0A])
     (generateReadme env cfg date)"
  unfolding generateReadme_def Let_def sublist_def
  apply (rule exI [where x = "concat (map (\<lambda>l. l @ [0x0A])
       [lit ''# '' @ ci_name (customer_info cfg) @ lit '' - GHS Safety Binder'',
        [],
        lit ''Professional chemical safety documentation portal providing 24/7 access to GHS-compliant Safety Data Sheets and product literature.'',
        [],
        lit ''## '' @ [0xD83E, 0xDDEA] @ lit '' Chemical Safety Information'',
        []])"])
  apply (rule exI)
  apply (simp only: list.map concat.simps append_assoc append_Nil append_Nil2 append_Cons)
  done


text \<open>
  Claim C10. The result of a successful deployment reports \<open>total_chemicals\<close> as the
  length of the whole chemical list, inactive chemicals included, while the README that
  the same deployment commits as \<open>README.md\<close> is generated with the number of active
  chemicals: its line \<open>Total Products\<close> prints that number. With at least one inactive
  chemical in the configuration the number in the README is smaller than the number in
  the result.
\<close>

theorem deploy_counts_all_readme_counts_active:
  "(deployCustomerSite env cfg h = (Inr result, h') \<longrightarrow>
      total_chemicals (dr_deployment_info result) = length (chemicals cfg)
      \<and> (\<exists>h4 sha t.
            h' = h4 @ [GetContent owner (repo_name (dr_repository result)) (lit ''README.md'')
                         (deployBranch (dr_repository result)),
                       CreateOrUpdateFileContents
                         \<lparr>fc_owner = owner, fc_repo = repo_name (dr_repository result),
                          fc_path = lit ''README.md'',
                          fc_message = lit ''Add repository documentation'',
                          fc_content = toString_base64 env (Buffer_from env
                             (generateReadme env cfg (toLocaleDateString_now env h4))),
                          fc_branch = deployBranch (dr_repository result), fc_sha = sha\<rparr>] @ t)
      \<and> ((\<exists>c. c \<in> set (chemicals cfg) \<and> \<not> chem_active c) \<longrightarrow>
            length (filter chem_active (chemicals cfg)) < total_chemicals (dr_deployment_info result)))
   \<and> sublist (lit ''- **Total Products**: ''
         @ number_toString env (Some (int (length (filter chem_active (chemicals cfg))))) @ [0x0A])
       (generateReadme env cfg date)"
proof -
  have 1: "total_chemicals (dr_deployment_info result) = length (chemicals cfg)"
    if "deployCustomerSite env cfg h = (Inr result, h')"
    using that by (elim deployCustomerSite_InrE) simp
  have 2: "\<exists>h4 sha t.
            h' = h4 @ [GetContent owner (repo_name (dr_repository result)) (lit ''README.md'')
                         (deployBranch (dr_repository result)),
                       CreateOrUpdateFileContents
                         \<lparr>fc_owner = owner, fc_repo = repo_name (dr_repository result),
                          fc_path = lit ''README.md'',
                          fc_message = lit ''Add repository documentation'',
                          fc_content = toString_base64 env (Buffer_from env
                             (generateReadme env cfg (toLocaleDateString_now env h4))),
                          fc_branch = deployBranch (dr_repository result), fc_sha = sha\<rparr>] @ t"
    if d: "deployCustomerSite env cfg h = (Inr result, h')"
  proof -
    from deploy_trace [OF d] obtain h4 sha t6 h6 t7 t8 where
      h6: "h6 = h4 @ [GetContent owner (repo_name (dr_repository result)) (lit ''README.md'')
                  (deployBranch (dr_repository result)),
               CreateOrUpdateFileContents
                 \<lparr>fc_owner = owner, fc_repo = repo_name (dr_repository result),
                  fc_path = lit ''README.md'', fc_message = lit ''Add repository documentation'',
                  fc_content = toString_base64 env (Buffer_from env
                     (generateReadme env cfg (toLocaleDateString_now env h4))),
                  fc_branch = deployBranch (dr_repository result), fc_sha = sha\<rparr>] @ t6"
      and v: "verifyPDFsOnPages env (repo_name (dr_repository result)) (chemicals cfg)
            (h6 @ t7 @ t8 @ [SetTimeout 10000]) = (Inr (), h')"
      by blast
    from emitsD [OF emits_verifyPDFsOnPages v] obtain t9 where
      "h' = (h6 @ t7 @ t8 @ [SetTimeout 10000]) @ t9" by blast
    with h6 have "h' = h4 @ [GetContent owner (repo_name (dr_repository result)) (lit ''README.md'')
                  (deployBranch (dr_repository result)),
               CreateOrUpdateFileContents
                 \<lparr>fc_owner = owner, fc_repo = repo_name (dr_repository result),
                  fc_path = lit ''README.md'', fc_message = lit ''Add repository documentation'',
                  fc_content = toString_base64 env (Buffer_from env
                     (generateReadme env cfg (toLocaleDateString_now env h4))),
                  fc_branch = deployBranch (dr_repository result), fc_sha = sha\<rparr>]
               @ (t6 @ t7 @ t8 @ [SetTimeout 10000] @ t9)"
      by simp
    then show ?thesis by blast
  qed
  have 3: "length (filter chem_active (chemicals cfg)) < total_chemicals (dr_deployment_info result)"
    if d: "deployCustomerSite env cfg h = (Inr result, h')"
      and i: "\<exists>c. c \<in> set (chemicals cfg) \<and> \<not> chem_active c"
  proof -
    from i obtain c where "c \<in> set (chemicals cfg)" "\<not> chem_active c" by blast
    then have "length (filter chem_active (chemicals cfg)) < length (chemicals cfg)"
      by (rule length_filter_less)
    with 1 [OF d] show ?thesis by simp
  qed
  from 1 2 3 readme_total_products [of env cfg date] show ?thesis by blast
qed

lemma decimal_one: "decimal (Some 1) = lit ''1''"
  by code_simp

lemma acme_counts: "length (filter chem_active (chemicals acme)) = 1" "length (chemicals acme) = 2"
  by (simp_all add: acme_def floor_cleaner_def old_wax_def)

lemma acme_has_inactive: "\<exists>c. c \<in> set (chemicals acme) \<and> \<not> chem_active c"
proof -
  have "old_wax \<in> set (chemicals acme)" "\<not> chem_active old_wax"
    by (simp_all add: acme_def old_wax_def)
  then show ?thesis by blast
qed

lemma test_env_number: "number_toString test_env = decimal" by (simp add: test_env_def)


lemma acme_products_line: "lit ''- **Total Products**: ''
         @ number_toString test_env (Some (int (length (filter chem_active (chemicals acme))))) @ [0x0A]
       = lit ''- **Total Products**: 1'' @ [0x0A]"
  by (simp add: acme_counts test_env_number decimal_one lit_simps)

theorem deploy_counts_witness:
  "(\<exists>result h'. deployCustomerSite test_env acme [] = (Inr result, h')
       \<and> total_chemicals (dr_deployment_info result) = 2
       \<and> length (filter chem_active (chemicals acme)) < total_chemicals (dr_deployment_info result))
   \<and> length (filter chem_active (chemicals acme)) = 1
   \<and> sublist (lit ''- **Total Products**: 1'' @ [0x0A])
       (generateReadme test_env acme (lit ''7/28/2025''))"
proof -
  from acme_deploys obtain result h' where
    d: "deployCustomerSite test_env acme [] = (Inr result, h')"
    by blast
  note w = deploy_counts_all_readme_counts_active
    [where env = test_env and cfg = acme and h = "[]" and result = result and h' = h'
       and date = "lit ''7/28/2025''"]
  note w1 = w [THEN conjunct1, rule_format, OF d]
  from w1 have t: "total_chemicals (dr_deployment_info result) = length (chemicals acme)"
    by (rule conjunct1)
  from w1 [THEN conjunct2, THEN conjunct2] acme_has_inactive
  have l: "length (filter chem_active (chemicals acme))
      < total_chemicals (dr_deployment_info result)"
    by (rule mp)
  from t have "total_chemicals (dr_deployment_info result) = 2" by (simp only: acme_counts)
  with d l have 1: "\<exists>result h'. deployCustomerSite test_env acme [] = (Inr result, h')
       \<and> total_chemicals (dr_deployment_info result) = 2
       \<and> length (filter chem_active (chemicals acme)) < total_chemicals (dr_deployment_info result)"
    by blast
  from w [THEN conjunct2] have 2: "sublist (lit ''- **Total Products**: 1'' @ [0x0A])
       (generateReadme test_env acme (lit ''7/28/2025''))"
    by (simp only: acme_products_line)
  from 1 acme_counts(1) 2 show ?thesis by blast
qed

subsection \<open>The chemical registry\<close>

lemma findIndex_Some:
  "findIndex p xs = Some i \<Longrightarrow> i < length xs \<and> p (xs ! i)"
proof (induction xs arbitrary: i)
  case Nil
  then show ?case by simp
next
  case (Cons x xs)
  show ?case
  proof (cases "p x")
    case True
    with Cons.prems show ?thesis by simp
  next
    case False
    with Cons.prems obtain j where "findIndex p xs = Some j" "i = Suc j" by auto
    with Cons.IH [of j] show ?thesis by simp
  qed
qed

lemma findIndex_None: "findIndex p xs = None \<longleftrightarrow> (\<forall>x \<in> set xs. \<not> p x)"
  by (induction xs) auto

lemma load_save: "loadCustomerConfig (saveCustomerConfig store slug cfg) slug = Inr cfg"
  by (simp add: loadCustomerConfig_def saveCustomerConfig_def update_conv')

lemma removeChemical_store:
  assumes "loadCustomerConfig store slug = Inr cfg"
    and "findIndex (\<lambda>c. chem_id c = cid) (chemicals cfg) = Some i"
  shows "fst (snd (removeChemical env slug cid (store, h)))
    = saveCustomerConfig store slug
        (cfg\<lparr>chemicals := (chemicals cfg)
                 [i := (chemicals cfg ! i)\<lparr>chem_active := False,
                                            chem_deactivated_date := Some (today env h)\<rparr>],
             site_settings := (site_settings cfg)\<lparr>ss_last_updated := today env h\<rparr>\<rparr>)"
  using assms by (simp add: removeChemical_def Let_def split: sum.splits prod.splits)

lemma updateChemical_store:
  assumes "loadCustomerConfig store slug = Inr cfg"
    and "findIndex (\<lambda>c. chem_id c = cid) (chemicals cfg) = Some i"
  shows "fst (snd (updateChemical env slug cid upd (store, h)))
    = saveCustomerConfig store slug
        (cfg\<lparr>chemicals := (chemicals cfg)
                 [i := (Object_assign (chemicals cfg ! i) upd)\<lparr>chem_last_updated := today env h\<rparr>],
             site_settings := (site_settings cfg)\<lparr>ss_last_updated := today env h\<rparr>\<rparr>)"
  using assms by (simp add: updateChemical_def Let_def split: sum.splits prod.splits)

lemma addChemical_store:
  assumes "loadCustomerConfig store slug = Inr cfg"
  shows "fst (snd (addChemical env slug cd (store, h)))
    = (case validateChemicalData cd of
         Inl e \<Rightarrow> store
       | Inr u \<Rightarrow>
          (case findIndex (\<lambda>c. chem_id c
                     = generateChemicalId (toLowerCase env) (or_default (p_name cd) []))
                  (chemicals cfg) of
             Some i \<Rightarrow>
               saveCustomerConfig store slug
                 (cfg\<lparr>chemicals := (chemicals cfg)
                     [i := (Object_assign (chemicals cfg ! i) cd)\<lparr>chem_last_updated := today env h\<rparr>],
                   site_settings := (site_settings cfg)\<lparr>ss_last_updated := today env h\<rparr>\<rparr>)
           | None \<Rightarrow>
               saveCustomerConfig store slug
                 (cfg\<lparr>chemicals := chemicals cfg
                     @ [newChemical env h
                          (generateChemicalId (toLowerCase env) (or_default (p_name cd) [])) cd],
                   site_settings := (site_settings cfg)\<lparr>ss_last_updated := today env h\<rparr>\<rparr>)))"
proof (cases "validateChemicalData cd")
  case (Inl e)
  with assms show ?thesis by (simp add: addChemical_def)
next
  case (Inr u)
  show ?thesis
  proof (cases "findIndex (\<lambda>c. chem_id c
                     = generateChemicalId (toLowerCase env) (or_default (p_name cd) []))
                  (chemicals cfg)")
    case None
    with assms Inr show ?thesis
      by (simp add: addChemical_def Let_def split: sum.splits prod.splits)
  next
    case (Some i)
    from updateChemical_store [OF assms Some, of env cd h]
    have "fst (snd (case updateChemical env slug
              (generateChemicalId (toLowerCase env) (or_default (p_name cd) [])) cd (store, h) of
            (Inl e, w') \<Rightarrow> (Inl e, w') | (Inr r, w') \<Rightarrow> (Inr (Updated r), w')))
        = saveCustomerConfig store slug
                 (cfg\<lparr>chemicals := (chemicals cfg)
                     [i := (Object_assign (chemicals cfg ! i) cd)\<lparr>chem_last_updated := today env h\<rparr>],
                   site_settings := (site_settings cfg)\<lparr>ss_last_updated := today env h\<rparr>\<rparr>)"
      by (auto split: prod.splits sum.splits)
    with assms Inr Some show ?thesis
      by (simp add: addChemical_def Let_def)
  qed
qed

text \<open>
  Claim C5. When the customer's configuration has a chemical with the given id,
  \<open>removeChemical\<close> deletes nothing: whether or not the redeployment that follows
  succeeds, the saved configuration has the same chemicals at the same places, but for
  the first record with that id, which now has \<open>active\<close> false and the date of the day as
  \<open>deactivated_date\<close>. The full listing still shows that record; the listing without
  the inactive chemicals does not, and when the ids of the configuration are distinct it
  shows no record with that id.
\<close>

theorem removeChemical_soft_delete:
  assumes "loadCustomerConfig store slug = Inr cfg"
    and "chemicalId \<in> set (map chem_id (chemicals cfg))"
    and "removeChemical env slug chemicalId (store, h) = (r, store', h')"
  shows "\<exists>i cfg' listed_all listed_active.
      findIndex (\<lambda>c. chem_id c = chemicalId) (chemicals cfg) = Some i
    \<and> i < length (chemicals cfg)
    \<and> loadCustomerConfig store' slug = Inr cfg'
    \<and> chemicals cfg' = (chemicals cfg)
         [i := (chemicals cfg ! i)\<lparr>chem_active := False,
                                    chem_deactivated_date := Some (today env h)\<rparr>]
    \<and> length (chemicals cfg') = length (chemicals cfg)
    \<and> chem_id (chemicals cfg' ! i) = chemicalId
    \<and> \<not> chem_active (chemicals cfg' ! i)
    \<and> chem_deactivated_date (chemicals cfg' ! i) = Some (today env h)
    \<and> listChemicals store' slug True = Inr listed_all
    \<and> lr_chemicals listed_all = chemicals cfg'
    \<and> listChemicals store' slug False = Inr listed_active
    \<and> chemicals cfg' ! i \<notin> set (lr_chemicals listed_active)
    \<and> (distinct (map chem_id (chemicals cfg)) \<longrightarrow>
          chemicalId \<notin> set (map chem_id (lr_chemicals listed_active)))"
proof -
  from assms(2) have "findIndex (\<lambda>c. chem_id c = chemicalId) (chemicals cfg) \<noteq> None"
    by (auto simp: findIndex_None)
  then obtain i where i: "findIndex (\<lambda>c. chem_id c = chemicalId) (chemicals cfg) = Some i"
    by blast
  from findIndex_Some [OF i] have il: "i < length (chemicals cfg)"
    and iid: "chem_id (chemicals cfg ! i) = chemicalId"
    by simp_all
  let ?c = "(chemicals cfg ! i)\<lparr>chem_active := False, chem_deactivated_date := Some (today env h)\<rparr>"
  let ?cs = "(chemicals cfg)[i := ?c]"
  define cfg' where "cfg' = cfg\<lparr>chemicals := ?cs,
             site_settings := (site_settings cfg)\<lparr>ss_last_updated := today env h\<rparr>\<rparr>"
  from removeChemical_store [OF assms(1) i, of env h] assms(3)
  have "store' = saveCustomerConfig store slug cfg'" by (simp add: cfg'_def)
  then have ld: "loadCustomerConfig store' slug = Inr cfg'" by (simp add: load_save)
  have cs: "chemicals cfg' = ?cs" by (simp add: cfg'_def)
  have len: "length (chemicals cfg') = length (chemicals cfg)" by (simp add: cs)
  have ci: "chemicals cfg' ! i = ?c" using il by (simp add: cs)
  have c1: "chem_id (chemicals cfg' ! i) = chemicalId" using iid by (simp add: ci)
  have c2: "\<not> chem_active (chemicals cfg' ! i)" by (simp add: ci)
  have c3: "chem_deactivated_date (chemicals cfg' ! i) = Some (today env h)" by (simp add: ci)
  obtain la where la: "listChemicals store' slug True = Inr la"
    "lr_chemicals la = chemicals cfg'"
    using ld by (simp add: listChemicals_def Let_def)
  obtain lf where lf: "listChemicals store' slug False = Inr lf"
    and lfc: "lr_chemicals lf = filter chem_active (chemicals cfg')"
    using ld by (simp add: listChemicals_def Let_def)
  have notin: "chemicals cfg' ! i \<notin> set (lr_chemicals lf)"
    using c2 by (simp add: lfc)
  have ids: "map chem_id (chemicals cfg') = map chem_id (chemicals cfg)"
    using il iid by (simp add: cs map_update list_update_same_conv)
  have dist: "distinct (map chem_id (chemicals cfg)) \<longrightarrow>
      chemicalId \<notin> set (map chem_id (lr_chemicals lf))"
  proof (intro impI notI)
    assume d: "distinct (map chem_id (chemicals cfg))"
    assume "chemicalId \<in> set (map chem_id (lr_chemicals lf))"
    then obtain c where c: "c \<in> set (chemicals cfg')" "chem_active c" "chem_id c = chemicalId"
      by (auto simp: lfc)
    then obtain j where j: "j < length (chemicals cfg')" "chemicals cfg' ! j = c"
      by (auto simp: in_set_conv_nth)
    from d ids have dd: "distinct (map chem_id (chemicals cfg'))" by simp
    have jl: "j < length (map chem_id (chemicals cfg'))"
      and il': "i < length (map chem_id (chemicals cfg'))"
      using j(1) il len by simp_all
    have "map chem_id (chemicals cfg') ! j = map chem_id (chemicals cfg') ! i"
      using j c(3) il len c1 by simp
    with nth_eq_iff_index_eq [OF dd jl il'] have "j = i" by blast
    with j(2) c(2) c2 show False by blast
  qed
  from i il ld cs len c1 c2 c3 la lf notin dist show ?thesis by blast
qed

lemma test_env_today: "today test_env h = lit ''2025-07-28''"
  by (simp add: today_def test_env_def lit_def)

lemma acme_store_load: "loadCustomerConfig acme_store (lit ''acme'') = Inr acme"
  by (simp add: loadCustomerConfig_def acme_store_def lit_def)

lemma acme_ids: "map chem_id (chemicals acme) = [lit ''floor-cleaner'', lit ''old-wax'']"
  by (simp add: acme_def floor_cleaner_def old_wax_def)

lemma acme_ids_distinct: "distinct (map chem_id (chemicals acme))"
  by (simp add: acme_ids lit_eq_iff)

lemma floor_cleaner_id:
  "generateChemicalId (toLowerCase test_env) (lit ''Floor Cleaner'') = lit ''floor-cleaner''"
  by (simp add: generateChemicalId_def test_env_def ascii_toLowerCase_def lit_def is_az09_def
      is_digit_def is_space_def hyphen_def)

lemma glass_cleaner_id:
  "generateChemicalId (toLowerCase test_env) (lit ''Glass Cleaner'') = lit ''glass-cleaner''"
  by (simp add: generateChemicalId_def test_env_def ascii_toLowerCase_def lit_def is_az09_def
      is_digit_def is_space_def hyphen_def)

lemma acme_find_floor_cleaner:
  "findIndex (\<lambda>c. chem_id c = lit ''floor-cleaner'') (chemicals acme) = Some 0"
  by (simp add: acme_def floor_cleaner_def)

lemma acme_find_glass_cleaner:
  "findIndex (\<lambda>c. chem_id c = lit ''glass-cleaner'') (chemicals acme) = None"
  by (simp add: findIndex_None acme_def floor_cleaner_def old_wax_def lit_eq_iff)

theorem removeChemical_witness:
  "loadCustomerConfig acme_store (lit ''acme'') = Inr acme
   \<and> lit ''floor-cleaner'' \<in> set (map chem_id (chemicals acme))
   \<and> distinct (map chem_id (chemicals acme))
   \<and> (\<exists>r store' h' cfg' l.
        removeChemical test_env (lit ''acme'') (lit ''floor-cleaner'') (acme_store, [])
          = (r, store', h')
      \<and> loadCustomerConfig store' (lit ''acme'') = Inr cfg'
      \<and> chemicals cfg'
          = [floor_cleaner\<lparr>chem_active := False,
                            chem_deactivated_date := Some (lit ''2025-07-28'')\<rparr>, old_wax]
      \<and> listChemicals store' (lit ''acme'') False = Inr l
      \<and> lit ''floor-cleaner'' \<notin> set (map chem_id (lr_chemicals l)))"
proof -
  have m: "lit ''floor-cleaner'' \<in> set (map chem_id (chemicals acme))"
    by (simp add: acme_ids)
  obtain r store' h' where run:
    "removeChemical test_env (lit ''acme'') (lit ''floor-cleaner'') (acme_store, []) = (r, store', h')"
    by (metis prod_cases3)
  from removeChemical_soft_delete [OF acme_store_load m run]
  obtain i cfg' la lf where
    i: "findIndex (\<lambda>c. chem_id c = lit ''floor-cleaner'') (chemicals acme) = Some i"
    and ld: "loadCustomerConfig store' (lit ''acme'') = Inr cfg'"
    and cs: "chemicals cfg' = (chemicals acme)
         [i := (chemicals acme ! i)\<lparr>chem_active := False,
                  chem_deactivated_date := Some (today test_env [])\<rparr>]"
    and lf: "listChemicals store' (lit ''acme'') False = Inr lf"
    and d: "distinct (map chem_id (chemicals acme)) \<longrightarrow>
          lit ''floor-cleaner'' \<notin> set (map chem_id (lr_chemicals lf))"
    by blast
  from i have i0: "i = 0" by (simp add: acme_find_floor_cleaner)
  have cs': "chemicals cfg'
          = [floor_cleaner\<lparr>chem_active := False,
                            chem_deactivated_date := Some (lit ''2025-07-28'')\<rparr>, old_wax]"
    by (simp add: cs i0 test_env_today) (simp add: acme_def)
  from d acme_ids_distinct
  have n: "lit ''floor-cleaner'' \<notin> set (map chem_id (lr_chemicals lf))" by blast
  from run ld cs' lf n acme_store_load m acme_ids_distinct show ?thesis by blast
qed

lemma chem_id_newChemical: "chem_id (newChemical env h i cd) = i"
  by (simp add: newChemical_def Let_def)

lemma chem_id_Object_assign:
  "chem_id ((Object_assign c cd)\<lparr>chem_last_updated := d\<rparr>)
     = (case p_id cd of None \<Rightarrow> chem_id c | Some v \<Rightarrow> v)"
  by (simp add: Object_assign_def)

lemma distinct_ids_update:
  assumes "distinct (map chem_id cs)" and "i < length cs"
    and "chem_id c = chem_id (cs ! i) \<or> chem_id c \<notin> set (map chem_id cs)"
  shows "distinct (map chem_id (cs[i := c]))"
proof -
  have "map chem_id (cs[i := c]) = (map chem_id cs)[i := chem_id c]"
    by (simp add: map_update)
  moreover have "chem_id c \<notin> set (map chem_id cs) - {map chem_id cs ! i}"
    using assms(2,3) by auto
  with assms(1) have "distinct ((map chem_id cs)[i := chem_id c])"
    by (rule distinct_list_update)
  ultimately show ?thesis by (simp only:)
qed

text \<open>
  Claim C7 asks that \<open>addChemical\<close> keeps the ids of a configuration distinct. It does
  not for an input that carries an \<open>id\<close> key: when a record with the derived id exists,
  \<open>addChemical\<close> hands the whole input to \<open>updateChemical\<close>, and \<open>Object.assign\<close> copies
  every key of the input to that record, the \<open>id\<close> key too, whereas the path that appends
  a new record sets its id to the derived id. The ids of \<open>acme\<close> are distinct; the input
  is valid and named \<open>Floor Cleaner\<close>, so that its derived id is \<open>floor-cleaner\<close>, the id
  of the first record, and it carries the id \<open>old-wax\<close> of the second. Afterwards both
  records of the saved configuration have the id \<open>old-wax\<close>.
\<close>

theorem addChemical_input_id_duplicates:
  "loadCustomerConfig acme_store (lit ''acme'') = Inr acme
   \<and> distinct (map chem_id (chemicals acme))
   \<and> validateChemicalData relabel_input = Inr ()
   \<and> generateChemicalId (toLowerCase test_env) (or_default (p_name relabel_input) [])
        = lit ''floor-cleaner''
   \<and> (\<exists>cfg'.
        loadCustomerConfig
          (fst (snd (addChemical test_env (lit ''acme'') relabel_input (acme_store, []))))
          (lit ''acme'') = Inr cfg'
      \<and> map chem_id (chemicals cfg') = [lit ''old-wax'', lit ''old-wax'']
      \<and> \<not> distinct (map chem_id (chemicals cfg')))"
proof -
  have v: "validateChemicalData relabel_input = Inr ()"
    by (simp add: validateChemicalData_def relabel_input_def or_default_def slot_filename_def
        Let_def endsWith_def lit_def suffix_Cons)
  have g: "generateChemicalId (toLowerCase test_env) (or_default (p_name relabel_input) [])
        = lit ''floor-cleaner''"
    using floor_cleaner_id by (simp add: relabel_input_def or_default_def lit_def)
  define cfg' where "cfg' = acme\<lparr>chemicals := (chemicals acme)
        [0 := (Object_assign (chemicals acme ! 0) relabel_input)
                 \<lparr>chem_last_updated := today test_env []\<rparr>],
      site_settings := (site_settings acme)\<lparr>ss_last_updated := today test_env []\<rparr>\<rparr>"
  have "fst (snd (addChemical test_env (lit ''acme'') relabel_input (acme_store, [])))
      = saveCustomerConfig acme_store (lit ''acme'') cfg'"
    by (simp add: addChemical_store [OF acme_store_load] v g acme_find_floor_cleaner cfg'_def)
  then have ld: "loadCustomerConfig
          (fst (snd (addChemical test_env (lit ''acme'') relabel_input (acme_store, []))))
          (lit ''acme'') = Inr cfg'"
    by (simp add: load_save)
  have ids: "map chem_id (chemicals cfg') = [lit ''old-wax'', lit ''old-wax'']"
    by (simp add: cfg'_def acme_def Object_assign_def relabel_input_def old_wax_def)
  have nd: "\<not> distinct (map chem_id (chemicals cfg'))"
    by (simp add: ids)
  from ld ids nd have "\<exists>cfg'.
        loadCustomerConfig
          (fst (snd (addChemical test_env (lit ''acme'') relabel_input (acme_store, []))))
          (lit ''acme'') = Inr cfg'
      \<and> map chem_id (chemicals cfg') = [lit ''old-wax'', lit ''old-wax'']
      \<and> \<not> distinct (map chem_id (chemicals cfg'))"
    by (intro exI [where x = cfg'] conjI)
  with acme_store_load acme_ids_distinct v g show ?thesis
    by (intro conjI)
qed

text \<open>
  Apart from such inputs the ids stay distinct. Take a configuration with distinct ids
  and an input that, if it is valid and a record with its derived id exists, has no \<open>id\<close>
  key or has there the derived id or the id of no record. Whatever the outcome of the
  redeployment, the saved configuration has distinct ids again. When the input is valid
  and a record with the derived id exists, active or not, the list keeps its length and
  that record is updated in place with the keys of the input; when none exists, one new
  record with the derived id is appended, whatever the \<open>id\<close> key of the input. An invalid
  input leaves the saved configuration as it was.
\<close>

lemma addChemical_distinct_ids:
  assumes "loadCustomerConfig store slug = Inr cfg"
    and "distinct (map chem_id (chemicals cfg))"
    and "\<forall>i j. validateChemicalData chemicalData = Inr ()
           \<and> findIndex (\<lambda>c. chem_id c
                  = generateChemicalId (toLowerCase env) (or_default (p_name chemicalData) []))
                (chemicals cfg) = Some j
           \<and> p_id chemicalData = Some i \<longrightarrow>
           i = generateChemicalId (toLowerCase env) (or_default (p_name chemicalData) [])
           \<or> i \<notin> set (map chem_id (chemicals cfg))"
    and "addChemical env slug chemicalData (store, h) = (r, store', h')"
  shows "\<exists>cfg'.
      loadCustomerConfig store' slug = Inr cfg'
    \<and> distinct (map chem_id (chemicals cfg'))
    \<and> (validateChemicalData chemicalData \<noteq> Inr () \<longrightarrow> cfg' = cfg \<and> store' = store)
    \<and> (validateChemicalData chemicalData = Inr () \<longrightarrow>
         (case findIndex (\<lambda>c. chem_id c
                    = generateChemicalId (toLowerCase env) (or_default (p_name chemicalData) []))
                 (chemicals cfg) of
            Some i \<Rightarrow>
              chemicals cfg' = (chemicals cfg)
                [i := (Object_assign (chemicals cfg ! i) chemicalData)
                         \<lparr>chem_last_updated := today env h\<rparr>]
              \<and> length (chemicals cfg') = length (chemicals cfg)
          | None \<Rightarrow>
              chemicals cfg' = chemicals cfg
                @ [newChemical env h
                     (generateChemicalId (toLowerCase env) (or_default (p_name chemicalData) []))
                     chemicalData]))"
proof -
  let ?d = "generateChemicalId (toLowerCase env) (or_default (p_name chemicalData) [])"
  from addChemical_store [OF assms(1), of env chemicalData h] assms(4)
  have st: "store' = (case validateChemicalData chemicalData of
         Inl e \<Rightarrow> store
       | Inr u \<Rightarrow>
          (case findIndex (\<lambda>c. chem_id c = ?d) (chemicals cfg) of
             Some i \<Rightarrow>
               saveCustomerConfig store slug
                 (cfg\<lparr>chemicals := (chemicals cfg)
                     [i := (Object_assign (chemicals cfg ! i) chemicalData)
                              \<lparr>chem_last_updated := today env h\<rparr>],
                   site_settings := (site_settings cfg)\<lparr>ss_last_updated := today env h\<rparr>\<rparr>)
           | None \<Rightarrow>
               saveCustomerConfig store slug
                 (cfg\<lparr>chemicals := chemicals cfg @ [newChemical env h ?d chemicalData],
                   site_settings := (site_settings cfg)\<lparr>ss_last_updated := today env h\<rparr>\<rparr>)))"
    by simp
  show ?thesis
  proof (cases "validateChemicalData chemicalData")
    case (Inl e)
    with st have "store' = store" by simp
    with assms(1,2) Inl show ?thesis by simp
  next
    case (Inr u)
    show ?thesis
    proof (cases "findIndex (\<lambda>c. chem_id c = ?d) (chemicals cfg)")
      case None
      define cfg' where "cfg' = cfg\<lparr>chemicals := chemicals cfg @ [newChemical env h ?d chemicalData],
                   site_settings := (site_settings cfg)\<lparr>ss_last_updated := today env h\<rparr>\<rparr>"
      from st Inr None have "store' = saveCustomerConfig store slug cfg'"
        by (simp add: cfg'_def)
      then have ld: "loadCustomerConfig store' slug = Inr cfg'" by (simp add: load_save)
      have cs: "chemicals cfg' = chemicals cfg @ [newChemical env h ?d chemicalData]"
        by (simp add: cfg'_def)
      from None have "?d \<notin> set (map chem_id (chemicals cfg))"
        by (auto simp: findIndex_None)
      with assms(2) have "distinct (map chem_id (chemicals cfg'))"
        by (simp add: cs chem_id_newChemical)
      with ld cs Inr None show ?thesis by simp
    next
      case (Some i)
      define c where "c = (Object_assign (chemicals cfg ! i) chemicalData)
                              \<lparr>chem_last_updated := today env h\<rparr>"
      define cfg' where "cfg' = cfg\<lparr>chemicals := (chemicals cfg)[i := c],
                   site_settings := (site_settings cfg)\<lparr>ss_last_updated := today env h\<rparr>\<rparr>"
      from st Inr Some have "store' = saveCustomerConfig store slug cfg'"
        by (simp add: cfg'_def c_def)
      then have ld: "loadCustomerConfig store' slug = Inr cfg'" by (simp add: load_save)
      have cs: "chemicals cfg' = (chemicals cfg)[i := c]"
        by (simp add: cfg'_def)
      from findIndex_Some [OF Some] have il: "i < length (chemicals cfg)"
        and iid: "chem_id (chemicals cfg ! i) = ?d" by simp_all
      have "chem_id c = chem_id (chemicals cfg ! i) \<or> chem_id c \<notin> set (map chem_id (chemicals cfg))"
      proof (cases "p_id chemicalData")
        case None
        then show ?thesis by (simp add: c_def chem_id_Object_assign)
      next
        case (Some v)
        from Inr have "validateChemicalData chemicalData = Inr ()" by simp
        with assms(3) \<open>findIndex (\<lambda>c. chem_id c = ?d) (chemicals cfg) = Some i\<close> Some
        have "v = ?d \<or> v \<notin> set (map chem_id (chemicals cfg))" by blast
        with Some iid show ?thesis by (simp add: c_def chem_id_Object_assign)
      qed
      from distinct_ids_update [OF assms(2) il this]
      have "distinct (map chem_id (chemicals cfg'))" by (simp add: cs)
      with ld cs Inr Some show ?thesis by (simp add: c_def)
    qed
  qed
qed

text \<open>Two runs on \<open>acme\<close>: an input with no \<open>id\<close> key that names the existing
  \<open>Floor Cleaner\<close> updates that record in place, and the ids are as before; an input that
  carries the id \<open>old-wax\<close> but names a chemical that \<open>acme\<close> does not have is appended
  under its derived id.\<close>

lemma addChemical_examples:
  "(\<exists>r store' h' cfg'.
        addChemical test_env (lit ''acme'') (relabel_input\<lparr>p_id := None\<rparr>) (acme_store, [])
          = (r, store', h')
      \<and> loadCustomerConfig store' (lit ''acme'') = Inr cfg'
      \<and> map chem_id (chemicals cfg') = [lit ''floor-cleaner'', lit ''old-wax'']
      \<and> map chem_last_updated (chemicals cfg') = [lit ''2025-07-28'', lit ''2025-06-01''])
   \<and> (\<exists>r store' h' cfg'.
        addChemical test_env (lit ''acme'') (glass_cleaner_input\<lparr>p_id := Some (lit ''old-wax'')\<rparr>)
          (acme_store, []) = (r, store', h')
      \<and> loadCustomerConfig store' (lit ''acme'') = Inr cfg'
      \<and> map chem_id (chemicals cfg')
           = [lit ''floor-cleaner'', lit ''old-wax'', lit ''glass-cleaner''])"
proof -
  let ?in1 = "relabel_input\<lparr>p_id := None\<rparr>"
  let ?in2 = "glass_cleaner_input\<lparr>p_id := Some (lit ''old-wax'')\<rparr>"
  have v1: "validateChemicalData ?in1 = Inr ()"
    by (simp add: validateChemicalData_def relabel_input_def or_default_def slot_filename_def
        Let_def endsWith_def lit_def suffix_Cons)
  have g1: "generateChemicalId (toLowerCase test_env) (or_default (p_name ?in1) [])
        = lit ''floor-cleaner''"
    using floor_cleaner_id by (simp add: relabel_input_def or_default_def lit_def)
  have v2: "validateChemicalData ?in2 = Inr ()"
    by (simp add: validateChemicalData_def glass_cleaner_input_def or_default_def slot_filename_def
        Let_def endsWith_def lit_def suffix_Cons)
  have g2: "generateChemicalId (toLowerCase test_env) (or_default (p_name ?in2) [])
        = lit ''glass-cleaner''"
    using glass_cleaner_id by (simp add: glass_cleaner_input_def or_default_def lit_def)
  obtain r1 s1 h1 where run1:
    "addChemical test_env (lit ''acme'') ?in1 (acme_store, []) = (r1, s1, h1)"
    by (metis prod_cases3)
  obtain r2 s2 h2 where run2:
    "addChemical test_env (lit ''acme'') ?in2 (acme_store, []) = (r2, s2, h2)"
    by (metis prod_cases3)
  have hyp1: "\<forall>i j. validateChemicalData ?in1 = Inr ()
           \<and> findIndex (\<lambda>c. chem_id c
                  = generateChemicalId (toLowerCase test_env) (or_default (p_name ?in1) []))
                (chemicals acme) = Some j
           \<and> p_id ?in1 = Some i \<longrightarrow>
           i = generateChemicalId (toLowerCase test_env) (or_default (p_name ?in1) [])
           \<or> i \<notin> set (map chem_id (chemicals acme))"
    by simp
  have hyp2: "\<forall>i j. validateChemicalData ?in2 = Inr ()
           \<and> findIndex (\<lambda>c. chem_id c
                  = generateChemicalId (toLowerCase test_env) (or_default (p_name ?in2) []))
                (chemicals acme) = Some j
           \<and> p_id ?in2 = Some i \<longrightarrow>
           i = generateChemicalId (toLowerCase test_env) (or_default (p_name ?in2) [])
           \<or> i \<notin> set (map chem_id (chemicals acme))"
    using g2 acme_find_glass_cleaner by simp
  from addChemical_distinct_ids [OF acme_store_load acme_ids_distinct hyp1 run1]
  obtain c1 where ld1: "loadCustomerConfig s1 (lit ''acme'') = Inr c1"
    and k1: "validateChemicalData ?in1 = Inr () \<longrightarrow>
         (case findIndex (\<lambda>c. chem_id c
                    = generateChemicalId (toLowerCase test_env) (or_default (p_name ?in1) []))
                 (chemicals acme) of
            Some i \<Rightarrow>
              chemicals c1 = (chemicals acme)
                [i := (Object_assign (chemicals acme ! i) ?in1)
                         \<lparr>chem_last_updated := today test_env []\<rparr>]
              \<and> length (chemicals c1) = length (chemicals acme)
          | None \<Rightarrow>
              chemicals c1 = chemicals acme
                @ [newChemical test_env []
                     (generateChemicalId (toLowerCase test_env) (or_default (p_name ?in1) []))
                     ?in1])"
    by blast
  from k1 v1 g1 acme_find_floor_cleaner have cs1: "chemicals c1 = (chemicals acme)
                [0 := (Object_assign (chemicals acme ! 0) ?in1)
                         \<lparr>chem_last_updated := today test_env []\<rparr>]"
    by simp
  have ids1: "map chem_id (chemicals c1) = [lit ''floor-cleaner'', lit ''old-wax'']"
    by (simp add: cs1 acme_def Object_assign_def relabel_input_def floor_cleaner_def old_wax_def)
  have upd1: "map chem_last_updated (chemicals c1) = [lit ''2025-07-28'', lit ''2025-06-01'']"
    by (simp add: cs1 acme_def old_wax_def test_env_today)
  from addChemical_distinct_ids [OF acme_store_load acme_ids_distinct hyp2 run2]
  obtain c2 where ld2: "loadCustomerConfig s2 (lit ''acme'') = Inr c2"
    and k2: "validateChemicalData ?in2 = Inr () \<longrightarrow>
         (case findIndex (\<lambda>c. chem_id c
                    = generateChemicalId (toLowerCase test_env) (or_default (p_name ?in2) []))
                 (chemicals acme) of
            Some i \<Rightarrow>
              chemicals c2 = (chemicals acme)
                [i := (Object_assign (chemicals acme ! i) ?in2)
                         \<lparr>chem_last_updated := today test_env []\<rparr>]
              \<and> length (chemicals c2) = length (chemicals acme)
          | None \<Rightarrow>
              chemicals c2 = chemicals acme
                @ [newChemical test_env []
                     (generateChemicalId (toLowerCase test_env) (or_default (p_name ?in2) []))
                     ?in2])"
    by blast
  from k2 v2 g2 acme_find_glass_cleaner have cs2: "chemicals c2 = chemicals acme
                @ [newChemical test_env [] (lit ''glass-cleaner'') ?in2]"
    by simp
  have ids2: "map chem_id (chemicals c2)
           = [lit ''floor-cleaner'', lit ''old-wax'', lit ''glass-cleaner'']"
    by (simp add: cs2 acme_ids chem_id_newChemical)
  have p1: "\<exists>r store' h' cfg'.
        addChemical test_env (lit ''acme'') ?in1 (acme_store, []) = (r, store', h')
      \<and> loadCustomerConfig store' (lit ''acme'') = Inr cfg'
      \<and> map chem_id (chemicals cfg') = [lit ''floor-cleaner'', lit ''old-wax'']
      \<and> map chem_last_updated (chemicals cfg') = [lit ''2025-07-28'', lit ''2025-06-01'']"
    using run1 ld1 ids1 upd1 by (intro exI conjI)
  have p2: "\<exists>r store' h' cfg'.
        addChemical test_env (lit ''acme'') ?in2 (acme_store, []) = (r, store', h')
      \<and> loadCustomerConfig store' (lit ''acme'') = Inr cfg'
      \<and> map chem_id (chemicals cfg')
           = [lit ''floor-cleaner'', lit ''old-wax'', lit ''glass-cleaner'']"
    using run2 ld2 ids2 by (intro exI conjI)
  from p1 p2 show ?thesis by (intro conjI)
qed

subsection \<open>The file status report\<close>

lemma checkSlot_inv:
  assumes "distinct files"
    and "map mf_filename m = filter (\<lambda>f. f \<notin> set files) R"
    and "orph = filter (\<lambda>f. f \<notin> set R) files"
    and "checkSlot files ty c slot (m, orph) = (m', orph')"
  shows "map mf_filename m'
           = filter (\<lambda>f. f \<notin> set files) (R @ filter (\<lambda>f. f \<noteq> []) [slot_filename slot])
       \<and> orph' = filter (\<lambda>f. f \<notin> set (R @ filter (\<lambda>f. f \<noteq> []) [slot_filename slot])) files"
proof (cases "slot_filename slot = []")
  case True
  with assms show ?thesis by (simp add: checkSlot_def)
next
  case False
  show ?thesis
  proof (cases "slot_filename slot \<in> set files")
    case False
    with \<open>slot_filename slot \<noteq> []\<close> assms(4)
    have "m' = m @ [\<lparr>mf_type = ty, mf_chemical = chem_name c, mf_filename = slot_filename slot\<rparr>]"
      and "orph' = orph"
      by (simp_all add: checkSlot_def)
    moreover have "filter (\<lambda>f. f \<noteq> slot_filename slot \<and> f \<notin> set R) files
        = filter (\<lambda>f. f \<notin> set R) files"
      using False by (auto intro: filter_cong)
    ultimately show ?thesis
      using assms(2,3) False \<open>slot_filename slot \<noteq> []\<close> by simp
  next
    case True
    with \<open>slot_filename slot \<noteq> []\<close> assms(4)
    have m: "m' = m" and o: "orph' = remove1 (slot_filename slot) orph"
      by (simp_all add: checkSlot_def)
    from assms(1,3) have "distinct orph" by simp
    then have "remove1 (slot_filename slot) orph = filter (\<lambda>f. slot_filename slot \<noteq> f) orph"
      by (simp add: distinct_remove1_removeAll removeAll_filter_not_eq)
    also have "\<dots> = filter (\<lambda>f. f \<noteq> slot_filename slot \<and> f \<notin> set R) files"
      by (auto simp: assms(3) intro: filter_cong)
    finally show ?thesis
      using m o assms(2) True \<open>slot_filename slot \<noteq> []\<close> by simp
  qed
qed

lemma reconcile_step:
  assumes "distinct files"
    and "map mf_filename m = filter (\<lambda>f. f \<notin> set files) R"
    and "orph = filter (\<lambda>f. f \<notin> set R) files"
    and "checkSlot files (lit ''sds'') c (chem_sds c)
           (checkSlot files (lit ''literature'') c (chem_literature c) (m, orph)) = (m', orph')"
  shows "map mf_filename m' = filter (\<lambda>f. f \<notin> set files) (R @ pdf_filenames c)
       \<and> orph' = filter (\<lambda>f. f \<notin> set (R @ pdf_filenames c)) files"
proof -
  obtain m1 o1 where s1:
    "checkSlot files (lit ''literature'') c (chem_literature c) (m, orph) = (m1, o1)"
    by (cases "checkSlot files (lit ''literature'') c (chem_literature c) (m, orph)")
  from checkSlot_inv [OF assms(1,2,3) s1]
  have a: "map mf_filename m1 = filter (\<lambda>f. f \<notin> set files)
               (R @ filter (\<lambda>f. f \<noteq> []) [slot_filename (chem_literature c)])"
    and b: "o1 = filter (\<lambda>f. f \<notin> set (R @ filter (\<lambda>f. f \<noteq> [])
               [slot_filename (chem_literature c)])) files"
    by blast+
  from assms(4) s1 have s2: "checkSlot files (lit ''sds'') c (chem_sds c) (m1, o1) = (m', orph')"
    by simp
  from checkSlot_inv [OF assms(1) a b s2]
  show ?thesis by (simp add: pdf_filenames_def)
qed

lemma reconcile_fold:
  assumes "distinct files"
    and "map mf_filename m = filter (\<lambda>f. f \<notin> set files) R"
    and "orph = filter (\<lambda>f. f \<notin> set R) files"
  shows "map mf_filename (fst (foldl (\<lambda>st chemical.
              checkSlot files (lit ''sds'') chemical (chem_sds chemical)
                (checkSlot files (lit ''literature'') chemical (chem_literature chemical) st))
           (m, orph) chems))
           = filter (\<lambda>f. f \<notin> set files) (R @ concat (map pdf_filenames chems))
       \<and> snd (foldl (\<lambda>st chemical.
              checkSlot files (lit ''sds'') chemical (chem_sds chemical)
                (checkSlot files (lit ''literature'') chemical (chem_literature chemical) st))
           (m, orph) chems)
           = filter (\<lambda>f. f \<notin> set (R @ concat (map pdf_filenames chems))) files"
  using assms(2,3)
proof (induction chems arbitrary: m orph R)
  case Nil
  then show ?case by simp
next
  case (Cons c chems)
  obtain m1 o1 where s:
    "checkSlot files (lit ''sds'') c (chem_sds c)
           (checkSlot files (lit ''literature'') c (chem_literature c) (m, orph)) = (m1, o1)"
    by (cases "checkSlot files (lit ''sds'') c (chem_sds c)
           (checkSlot files (lit ''literature'') c (chem_literature c) (m, orph))")
  from reconcile_step [OF assms(1) Cons.prems s]
  have a: "map mf_filename m1 = filter (\<lambda>f. f \<notin> set files) (R @ pdf_filenames c)"
    and b: "o1 = filter (\<lambda>f. f \<notin> set (R @ pdf_filenames c)) files"
    by blast+
  from Cons.IH [OF a b] s show ?case by simp
qed

lemma reconcile_lists:
  assumes "distinct files"
  shows "map mf_filename (fst (reconcile files chems))
           = filter (\<lambda>f. f \<notin> set files) (concat (map pdf_filenames chems))"
    and "snd (reconcile files chems)
           = filter (\<lambda>f. f \<notin> set (concat (map pdf_filenames chems))) files"
  using reconcile_fold [OF assms, of "[]" "[]" files chems]
  by (simp_all add: reconcile_def)

lemma complete_not_incomplete: "lit ''incomplete'' \<noteq> lit ''complete''"
  by (simp add: lit_def)

lemma acme_summary_listed: "listCustomerSites acme_store = [acme_summary]"
  by (simp add: listCustomerSites_def acme_store_def acme_summary_def acme_def floor_cleaner_def
      old_wax_def endsWith_def lit_def suffix_Cons)

lemma staging_env_readdir:
  "readdir staging_env
     (path_join staging_env [dirname staging_env, lit ''../uploads'', cs_slug acme_summary])
     = Inr [lit ''b.pdf'', lit ''c.pdf'']"
  by (simp add: readdir_def staging_env_def test_env_def acme_summary_def lit_def)

lemma test_env_readdir:
  "readdir test_env
     (path_join test_env [dirname test_env, lit ''../uploads'', cs_slug acme_summary])
     = Inl (SystemError (lit ''ENOENT'') (lit ''/app/../uploads/acme''))"
  by (simp add: readdir_def test_env_def acme_summary_def lit_def)

lemma active_store_load:
  "loadCustomerConfig active_store (cs_slug acme_summary) = Inr (acme\<lparr>chemicals := [floor_cleaner]\<rparr>)"
  by (simp add: loadCustomerConfig_def active_store_def acme_summary_def lit_def)

lemma floor_cleaner_files: "pdf_filenames floor_cleaner = [lit ''a.pdf'', lit ''b.pdf'']"
  by (simp add: pdf_filenames_def floor_cleaner_def slot_filename_def lit_def)

lemma old_wax_files: "pdf_filenames old_wax = [lit ''old.pdf'']"
  by (simp add: pdf_filenames_def old_wax_def slot_filename_def lit_def)

text \<open>
  Claim C9, as stated, does not hold: the report does not look at the \<open>active\<close> flag.
  The only active chemical of \<open>acme\<close> refers to \<open>a.pdf\<close> and \<open>b.pdf\<close>, and the staging
  directory holds \<open>b.pdf\<close> and \<open>c.pdf\<close>, so that \<open>a.pdf\<close> is the one file that an active
  chemical refers to and the directory lacks. The report lists two missing files,
  \<open>a.pdf\<close> and the \<open>old.pdf\<close> of the inactive chemical.
\<close>

theorem file_status_counts_inactive_chemicals:
  "filter chem_active (chemicals acme) = [floor_cleaner]
   \<and> readdir staging_env
        (path_join staging_env [dirname staging_env, lit ''../uploads'', cs_slug acme_summary])
        = Inr [lit ''b.pdf'', lit ''c.pdf'']
   \<and> filter (\<lambda>f. f \<notin> set [lit ''b.pdf'', lit ''c.pdf''])
        (concat (map pdf_filenames (filter chem_active (chemicals acme)))) = [lit ''a.pdf'']
   \<and> (\<exists>st. handleFileStatus staging_env acme_store = [Status st]
         \<and> map mf_filename (fs_missingFilesList st) = [lit ''a.pdf'', lit ''old.pdf'']
         \<and> map mf_chemical (fs_missingFilesList st) = [lit ''Floor Cleaner'', lit ''Old Wax'']
         \<and> fs_missingFiles st = 2)"
proof -
  have a: "filter chem_active (chemicals acme) = [floor_cleaner]"
    by (simp add: acme_def floor_cleaner_def old_wax_def)
  have b: "filter (\<lambda>f. f \<notin> set [lit ''b.pdf'', lit ''c.pdf''])
        (concat (map pdf_filenames (filter chem_active (chemicals acme)))) = [lit ''a.pdf'']"
    by (simp add: a floor_cleaner_files) (simp add: lit_def)
  have ld: "loadCustomerConfig acme_store (cs_slug acme_summary) = Inr acme"
    by (simp add: loadCustomerConfig_def acme_store_def acme_summary_def lit_def)
  have r: "reconcile [lit ''b.pdf'', lit ''c.pdf''] (chemicals acme)
      = ([\<lparr>mf_type = lit ''literature'', mf_chemical = lit ''Floor Cleaner'',
            mf_filename = lit ''a.pdf''\<rparr>,
          \<lparr>mf_type = lit ''literature'', mf_chemical = lit ''Old Wax'',
            mf_filename = lit ''old.pdf''\<rparr>], [lit ''c.pdf''])"
    by (simp add: reconcile_def checkSlot_def acme_def floor_cleaner_def old_wax_def
        slot_filename_def lit_def)
  obtain st where st: "fileStatusEntry staging_env acme_store acme_summary = Status st"
    and m: "fs_missingFilesList st
      = [\<lparr>mf_type = lit ''literature'', mf_chemical = lit ''Floor Cleaner'',
            mf_filename = lit ''a.pdf''\<rparr>,
          \<lparr>mf_type = lit ''literature'', mf_chemical = lit ''Old Wax'',
            mf_filename = lit ''old.pdf''\<rparr>]"
    and n: "fs_missingFiles st = 2"
    by (simp add: fileStatusEntry_def ld staging_env_readdir r Let_def)
  have h: "handleFileStatus staging_env acme_store = [Status st]"
    by (simp add: handleFileStatus_def acme_summary_listed st)
  have "\<exists>st. handleFileStatus staging_env acme_store = [Status st]
         \<and> map mf_filename (fs_missingFilesList st) = [lit ''a.pdf'', lit ''old.pdf'']
         \<and> map mf_chemical (fs_missingFilesList st) = [lit ''Floor Cleaner'', lit ''Old Wax'']
         \<and> fs_missingFiles st = 2"
    using h m n by (intro exI [where x = st]) simp
  with a staging_env_readdir b show ?thesis by (intro conjI)
qed

text \<open>
  Claim C9, for all the chemicals of the configuration, active or not. When the
  customer's configuration loads, the entry of the report is a status, never an error;
  the files are the names in the staging directory, and none when the directory cannot
  be read. The missing files are, in order, the file names in the literature and SDS
  slots of the chemicals that are not among the files; the orphaned files are the files
  that no slot of any chemical names (the names of a directory are distinct); the status
  is \<open>complete\<close> exactly when no file is missing, and \<open>incomplete\<close> otherwise.
\<close>

theorem file_status_reconciles_all_chemicals:
  assumes "loadCustomerConfig store (cs_slug customer) = Inr cfg"
    and "files = (case readdir env
                         (path_join env [dirname env, lit ''../uploads'', cs_slug customer]) of
                    Inl dirError \<Rightarrow> [] | Inr names \<Rightarrow> names)"
    and "distinct files"
  shows "\<exists>st. fileStatusEntry env store customer = Status st
     \<and> map mf_filename (fs_missingFilesList st)
         = filter (\<lambda>f. f \<notin> set files) (concat (map pdf_filenames (chemicals cfg)))
     \<and> fs_orphanedFilesList st
         = filter (\<lambda>f. f \<notin> set (concat (map pdf_filenames (chemicals cfg)))) files
     \<and> (fs_status st = lit ''complete'' \<longleftrightarrow> fs_missingFilesList st = [])
     \<and> (fs_status st = lit ''complete'' \<or> fs_status st = lit ''incomplete'')
     \<and> fs_totalFiles st = length files
     \<and> fs_totalChemicals st = length (chemicals cfg)
     \<and> fs_missingFiles st = length (fs_missingFilesList st)
     \<and> fs_orphanedFiles st = length (fs_orphanedFilesList st)
     \<and> (\<forall>e. readdir env (path_join env [dirname env, lit ''../uploads'', cs_slug customer])
               = Inl e \<longrightarrow> fs_totalFiles st = 0 \<and> fs_orphanedFilesList st = [])"
proof -
  obtain m orph where r: "reconcile files (chemicals cfg) = (m, orph)"
    by (cases "reconcile files (chemicals cfg)")
  define st where "st = \<lparr>fs_customer = cs_name customer,
                     fs_slug = cs_slug customer,
                     fs_totalFiles = length files,
                     fs_totalChemicals = length (chemicals cfg),
                     fs_missingFiles = length m,
                     fs_orphanedFiles = length orph,
                     fs_missingFilesList = m,
                     fs_orphanedFilesList = orph,
                     fs_status = (if length m = 0 then lit ''complete''
                                  else lit ''incomplete'')\<rparr>"
  have e: "fileStatusEntry env store customer = Status st"
    using r by (simp add: fileStatusEntry_def assms(1) assms(2) [symmetric] Let_def st_def)
  from reconcile_lists [OF assms(3), of "chemicals cfg"] r
  have m: "map mf_filename m
         = filter (\<lambda>f. f \<notin> set files) (concat (map pdf_filenames (chemicals cfg)))"
    and o: "orph = filter (\<lambda>f. f \<notin> set (concat (map pdf_filenames (chemicals cfg)))) files"
    by simp_all
  have c1: "map mf_filename (fs_missingFilesList st)
         = filter (\<lambda>f. f \<notin> set files) (concat (map pdf_filenames (chemicals cfg)))"
    using m by (simp add: st_def)
  have c2: "fs_orphanedFilesList st
         = filter (\<lambda>f. f \<notin> set (concat (map pdf_filenames (chemicals cfg)))) files"
    using o by (simp add: st_def)
  have c3: "fs_status st = lit ''complete'' \<longleftrightarrow> fs_missingFilesList st = []"
    by (simp add: st_def complete_not_incomplete)
  have c4: "fs_status st = lit ''complete'' \<or> fs_status st = lit ''incomplete''"
    by (simp add: st_def)
  have c5: "fs_totalFiles st = length files" by (simp add: st_def)
  have c6: "fs_totalChemicals st = length (chemicals cfg)" by (simp add: st_def)
  have c7: "fs_missingFiles st = length (fs_missingFilesList st)" by (simp add: st_def)
  have c8: "fs_orphanedFiles st = length (fs_orphanedFilesList st)" by (simp add: st_def)
  have c9: "\<forall>e. readdir env (path_join env [dirname env, lit ''../uploads'', cs_slug customer])
               = Inl e \<longrightarrow> fs_totalFiles st = 0 \<and> fs_orphanedFilesList st = []"
    using assms(2) c2 c5 by simp
  from e c1 c2 c3 c4 c5 c6 c7 c8 c9 show ?thesis
    by (intro exI [where x = st] conjI)
qed

theorem file_status_witness:
  "loadCustomerConfig active_store (cs_slug acme_summary) = Inr (acme\<lparr>chemicals := [floor_cleaner]\<rparr>)
   \<and> concat (map pdf_filenames (chemicals (acme\<lparr>chemicals := [floor_cleaner]\<rparr>)))
       = [lit ''a.pdf'', lit ''b.pdf'']
   \<and> readdir staging_env
        (path_join staging_env [dirname staging_env, lit ''../uploads'', cs_slug acme_summary])
        = Inr [lit ''b.pdf'', lit ''c.pdf'']
   \<and> distinct [lit ''b.pdf'', lit ''c.pdf'']
   \<and> (\<exists>st. fileStatusEntry staging_env active_store acme_summary = Status st
         \<and> map mf_filename (fs_missingFilesList st) = [lit ''a.pdf'']
         \<and> fs_orphanedFilesList st = [lit ''c.pdf'']
         \<and> fs_status st = lit ''incomplete'')
   \<and> (\<exists>e. readdir test_env
        (path_join test_env [dirname test_env, lit ''../uploads'', cs_slug acme_summary]) = Inl e)
   \<and> (\<exists>st. fileStatusEntry test_env active_store acme_summary = Status st
         \<and> fs_totalFiles st = 0
         \<and> map mf_filename (fs_missingFilesList st) = [lit ''a.pdf'', lit ''b.pdf'']
         \<and> fs_orphanedFilesList st = []
         \<and> fs_status st = lit ''incomplete'')"
proof -
  have refs: "concat (map pdf_filenames (chemicals (acme\<lparr>chemicals := [floor_cleaner]\<rparr>)))
       = [lit ''a.pdf'', lit ''b.pdf'']"
    by (simp add: floor_cleaner_files)
  have d: "distinct [lit ''b.pdf'', lit ''c.pdf'']" by (simp add: lit_def)
  have f1: "[lit ''b.pdf'', lit ''c.pdf''] = (case readdir staging_env
              (path_join staging_env [dirname staging_env, lit ''../uploads'', cs_slug acme_summary]) of
                    Inl dirError \<Rightarrow> [] | Inr names \<Rightarrow> names)"
    by (simp add: staging_env_readdir)
  from file_status_reconciles_all_chemicals [OF active_store_load f1 d]
  obtain st where s1: "fileStatusEntry staging_env active_store acme_summary = Status st"
    and m1: "map mf_filename (fs_missingFilesList st)
         = filter (\<lambda>f. f \<notin> set [lit ''b.pdf'', lit ''c.pdf''])
             (concat (map pdf_filenames (chemicals (acme\<lparr>chemicals := [floor_cleaner]\<rparr>))))"
    and o1: "fs_orphanedFilesList st
         = filter (\<lambda>f. f \<notin> set (concat (map pdf_filenames
               (chemicals (acme\<lparr>chemicals := [floor_cleaner]\<rparr>))))) [lit ''b.pdf'', lit ''c.pdf'']"
    and c1: "fs_status st = lit ''complete'' \<longleftrightarrow> fs_missingFilesList st = []"
    and i1: "fs_status st = lit ''complete'' \<or> fs_status st = lit ''incomplete''"
    by blast
  have m1': "map mf_filename (fs_missingFilesList st) = [lit ''a.pdf'']"
    unfolding m1 refs by (simp add: lit_def)
  have o1': "fs_orphanedFilesList st = [lit ''c.pdf'']"
    unfolding o1 refs by (simp add: lit_def)
  from m1' have "fs_missingFilesList st \<noteq> []" by auto
  with c1 i1 have t1: "fs_status st = lit ''incomplete''" by blast
  have p1: "\<exists>st. fileStatusEntry staging_env active_store acme_summary = Status st
         \<and> map mf_filename (fs_missingFilesList st) = [lit ''a.pdf'']
         \<and> fs_orphanedFilesList st = [lit ''c.pdf'']
         \<and> fs_status st = lit ''incomplete''"
    using s1 m1' o1' t1 by (intro exI [where x = st] conjI)
  have f2: "[] = (case readdir test_env
              (path_join test_env [dirname test_env, lit ''../uploads'', cs_slug acme_summary]) of
                    Inl dirError \<Rightarrow> [] | Inr names \<Rightarrow> names)"
    by (simp add: test_env_readdir)
  have d2: "distinct ([] :: jsstring list)" by simp
  from file_status_reconciles_all_chemicals [OF active_store_load f2 d2]
  obtain st2 where s2: "fileStatusEntry test_env active_store acme_summary = Status st2"
    and m2: "map mf_filename (fs_missingFilesList st2)
         = filter (\<lambda>f. f \<notin> set [])
             (concat (map pdf_filenames (chemicals (acme\<lparr>chemicals := [floor_cleaner]\<rparr>))))"
    and o2: "fs_orphanedFilesList st2
         = filter (\<lambda>f. f \<notin> set (concat (map pdf_filenames
               (chemicals (acme\<lparr>chemicals := [floor_cleaner]\<rparr>))))) []"
    and c2: "fs_status st2 = lit ''complete'' \<longleftrightarrow> fs_missingFilesList st2 = []"
    and i2: "fs_status st2 = lit ''complete'' \<or> fs_status st2 = lit ''incomplete''"
    and n2: "fs_totalFiles st2 = length ([] :: jsstring list)"
    by blast
  have m2': "map mf_filename (fs_missingFilesList st2) = [lit ''a.pdf'', lit ''b.pdf'']"
    unfolding m2 refs by simp
  have o2': "fs_orphanedFilesList st2 = []"
    unfolding o2 by simp
  from m2' have "fs_missingFilesList st2 \<noteq> []" by auto
  with c2 i2 have t2: "fs_status st2 = lit ''incomplete''" by blast
  have n2': "fs_totalFiles st2 = 0" using n2 by simp
  have p2: "\<exists>st. fileStatusEntry test_env active_store acme_summary = Status st
         \<and> fs_totalFiles st = 0
         \<and> map mf_filename (fs_missingFilesList st) = [lit ''a.pdf'', lit ''b.pdf'']
         \<and> fs_orphanedFilesList st = []
         \<and> fs_status st = lit ''incomplete''"
    using s2 n2' m2' o2' t2 by (intro exI [where x = st2] conjI)
  have e: "\<exists>e. readdir test_env
        (path_join test_env [dirname test_env, lit ''../uploads'', cs_slug acme_summary]) = Inl e"
    by (simp add: test_env_readdir)
  from active_store_load refs staging_env_readdir d p1 e p2 show ?thesis
    by (intro conjI)
qed

subsection \<open>Reusing an existing repository\<close>

lemma enablePages_trace:
  "enablePages env rn b h = (r, h') \<Longrightarrow> h' = h @ [CreatePagesSite owner rn b (lit ''/'')]"
  by (auto simp: enablePages_def io_catch_def io_call_def io_return_def io_throw_def
      split: sum.splits if_splits)

lemma deploy_calls_on_branch:
  assumes "deployCustomerSite env cfg h = (Inr result, h')"
    and "createRepository env cfg h = (Inr repo, h1)"
  shows "\<exists>t. h' = h1 @ t
    \<and> GetContent owner (repo_name repo) (lit ''index.html'') (deployBranch repo) \<in> set t
    \<and> (\<exists>fc. CreateOrUpdateFileContents fc \<in> set t \<and> fc_repo fc = repo_name repo
           \<and> fc_path fc = lit ''index.html'' \<and> fc_branch fc = deployBranch repo)
    \<and> CreatePagesSite owner (repo_name repo) (deployBranch repo) (lit ''/'') \<in> set t"
proof -
  from assms(1) obtain repo' h1' html h2 h3 h4 h5 h6 h7 h8 where
    cr: "createRepository env cfg h = (Inr repo', h1')"
    and steps: "generateHTML env cfg h1' = (Inr html, h2)"
    "createDirectoryStructure env (repo_name repo') (deployBranch repo') h2 = (Inr (), h3)"
    "uploadFile env (repo_name repo') (lit ''index.html'') html
       (lit ''Deploy GHS safety binder website'') (deployBranch repo') h3 = (Inr (), h4)"
    "uploadFile env (repo_name repo') (lit ''README.md'')
       (generateReadme env cfg (toLocaleDateString_now env h4))
       (lit ''Add repository documentation'') (deployBranch repo') h4 = (Inr (), h5)"
    "uploadCustomerAssets env (repo_name repo') (ci_slug (customer_info cfg)) (deployBranch repo') h5
       = (Inr (), h6)"
    "uploadPDFs env (repo_name repo') (deployBranch repo') (chemicals cfg) h6 = (Inr (), h7)"
    "enablePages env (repo_name repo') (deployBranch repo') h7 = (Inr (), h8)"
    "verifyPDFsOnPages env (repo_name repo') (chemicals cfg) (h8 @ [SetTimeout 10000]) = (Inr (), h')"
    by (elim deployCustomerSite_InrE)
  from cr assms(2) have eq: "repo' = repo" "h1' = h1" by simp_all
  let ?b = "deployBranch repo"
  let ?n = "repo_name repo"
  from emitsD [OF emits_generateHTML [where P = "uses_branch ?b"] steps(1)]
  obtain t2 where h2: "h2 = h1 @ t2" using eq by blast
  from emitsD [OF emits_createDirectoryStructure steps(2)] obtain t3 where h3: "h3 = h2 @ t3"
    by blast
  from uploadFile_InrD [OF steps(3)] obtain sha where
    h4: "h4 = h3 @ [GetContent owner ?n (lit ''index.html'') ?b,
          CreateOrUpdateFileContents
            \<lparr>fc_owner = owner, fc_repo = ?n, fc_path = lit ''index.html'',
             fc_message = lit ''Deploy GHS safety binder website'',
             fc_content = toString_base64 env (Buffer_from env html), fc_branch = ?b,
             fc_sha = sha\<rparr>]"
    using eq by blast
  from emitsD [OF emits_uploadFile steps(4)] obtain t5 where h5: "h5 = h4 @ t5" by blast
  from emitsD [OF emits_uploadCustomerAssets steps(5)] obtain t6 where h6: "h6 = h5 @ t6" by blast
  from emitsD [OF emits_uploadPDFs steps(6)] obtain t7 where h7: "h7 = h6 @ t7" by blast
  from enablePages_trace [OF steps(7)] eq
  have h8: "h8 = h7 @ [CreatePagesSite owner ?n ?b (lit ''/'')]" by simp
  from emitsD [OF emits_verifyPDFsOnPages [where b = ?b] steps(8)]
  obtain t9 where h': "h' = (h8 @ [SetTimeout 10000]) @ t9" by blast
  let ?fc = "\<lparr>fc_owner = owner, fc_repo = ?n, fc_path = lit ''index.html'',
             fc_message = lit ''Deploy GHS safety binder website'',
             fc_content = toString_base64 env (Buffer_from env html), fc_branch = ?b,
             fc_sha = sha\<rparr>"
  let ?t = "t2 @ t3 @ [GetContent owner ?n (lit ''index.html'') ?b, CreateOrUpdateFileContents ?fc]
      @ t5 @ t6 @ t7 @ [CreatePagesSite owner ?n ?b (lit ''/''), SetTimeout 10000] @ t9"
  have a: "h' = h1 @ ?t" using h2 h3 h4 h5 h6 h7 h8 h' by simp
  have b: "GetContent owner ?n (lit ''index.html'') ?b \<in> set ?t" by simp
  have c: "\<exists>fc. CreateOrUpdateFileContents fc \<in> set ?t \<and> fc_repo fc = ?n
           \<and> fc_path fc = lit ''index.html'' \<and> fc_branch fc = ?b"
    by (rule exI [where x = ?fc]) simp
  have d: "CreatePagesSite owner ?n ?b (lit ''/'') \<in> set ?t" by simp
  from a b c d show ?thesis by blast
qed

text \<open>
  Claim C4. \<open>createRepository\<close> asks for a public repository (\<open>private: false\<close>) named
  after the customer. When the creation succeeds it returns the new repository; when it
  fails with the status 422, by which the API reports that the name is taken, it fetches
  the repository of that name and returns it (or throws what the fetch throws); any other
  error of the creation is thrown on, and is the error of the deployment. A deployment
  that meets the conflict carries on with the existing repository, on the branch that
  this repository gives as its default branch (\<open>main\<close> if it gives none): every later
  call that names a branch names that one; a deployment that returns a result reports
  the existing repository and has probed and committed \<open>index.html\<close> in that repository on
  that branch and asked for the Pages site of that branch; and the deployment does
  complete whenever the remaining steps meet no error.
\<close>

theorem createRepository_reuses_existing:
  "cp_private (createParams cfg) = False
   \<and> cp_name (createParams cfg) = gh_name (ci_github_repo (customer_info cfg))
   \<and> (octokit_createForAuthenticatedUser env h (CreateForAuthenticatedUser (createParams cfg))
        = Inr repo \<longrightarrow>
      createRepository env cfg h = (Inr repo, h @ [CreateForAuthenticatedUser (createParams cfg)]))
   \<and> (octokit_createForAuthenticatedUser env h (CreateForAuthenticatedUser (createParams cfg))
        = Inl e \<and> error_status e = Some 422 \<longrightarrow>
      createRepository env cfg h
        = (octokit_get env (h @ [CreateForAuthenticatedUser (createParams cfg)])
             (ReposGet owner (gh_name (ci_github_repo (customer_info cfg)))),
           h @ [CreateForAuthenticatedUser (createParams cfg),
                ReposGet owner (gh_name (ci_github_repo (customer_info cfg)))]))
   \<and> (octokit_createForAuthenticatedUser env h (CreateForAuthenticatedUser (createParams cfg))
        = Inl e \<and> error_status e \<noteq> Some 422 \<longrightarrow>
      createRepository env cfg h = (Inl e, h @ [CreateForAuthenticatedUser (createParams cfg)])
      \<and> deployCustomerSite env cfg h
          = (Inl e, h @ [CreateForAuthenticatedUser (createParams cfg)]))
   \<and> (octokit_createForAuthenticatedUser env h (CreateForAuthenticatedUser (createParams cfg))
        = Inl e \<and> error_status e = Some 422
      \<and> octokit_get env (h @ [CreateForAuthenticatedUser (createParams cfg)])
             (ReposGet owner (gh_name (ci_github_repo (customer_info cfg)))) = Inr existing
      \<and> branch = (if repo_default_branch existing = [] then lit ''main''
                   else repo_default_branch existing) \<longrightarrow>
      (\<forall>r h'. deployCustomerSite env cfg h = (r, h') \<longrightarrow>
         (\<exists>t. h' = h @ [CreateForAuthenticatedUser (createParams cfg),
                        ReposGet owner (gh_name (ci_github_repo (customer_info cfg)))] @ t
              \<and> list_all (uses_branch branch) t
              \<and> (\<forall>result. r = Inr result \<longrightarrow>
                    dr_repository result = existing
                  \<and> GetContent owner (repo_name existing) (lit ''index.html'') branch \<in> set t
                  \<and> (\<exists>fc. CreateOrUpdateFileContents fc \<in> set t
                         \<and> fc_repo fc = repo_name existing
                         \<and> fc_path fc = lit ''index.html''
                         \<and> fc_branch fc = branch)
                  \<and> CreatePagesSite owner (repo_name existing) branch (lit ''/'') \<in> set t)))
      \<and> (readFile_utf8 env (templatePath env) = Inr template
         \<and> github_accepts env
         \<and> assets_readable env (ci_slug (customer_info cfg))
         \<and> pdfs_readable env (chemicals cfg)
         \<and> documents_served env \<longrightarrow>
         (\<exists>result h'. deployCustomerSite env cfg h = (Inr result, h')
            \<and> dr_repository result = existing)))"
proof -
  let ?create = "CreateForAuthenticatedUser (createParams cfg)"
  let ?get = "ReposGet owner (gh_name (ci_github_repo (customer_info cfg)))"
  have params: "cp_private (createParams cfg) = False"
    "cp_name (createParams cfg) = gh_name (ci_github_repo (customer_info cfg))"
    by (simp_all add: createParams_def Let_def)
  have created: "createRepository env cfg h = (Inr repo, h @ [?create])"
    if "octokit_createForAuthenticatedUser env h ?create = Inr repo"
    using that by (simp add: createRepository_run)
  have conflict: "createRepository env cfg h
      = (octokit_get env (h @ [?create]) ?get, h @ [?create, ?get])"
    if "octokit_createForAuthenticatedUser env h ?create = Inl e" "error_status e = Some 422"
    using that by (simp add: createRepository_run)
  have other: "createRepository env cfg h = (Inl e, h @ [?create])
       \<and> deployCustomerSite env cfg h = (Inl e, h @ [?create])"
    if "octokit_createForAuthenticatedUser env h ?create = Inl e" "error_status e \<noteq> Some 422"
  proof -
    from that have c: "createRepository env cfg h = (Inl e, h @ [?create])"
      by (simp add: createRepository_run)
    then show ?thesis by (simp add: deployCustomerSite_def io_bind_Inl)
  qed
  have reuse: "(\<forall>r h'. deployCustomerSite env cfg h = (r, h') \<longrightarrow>
         (\<exists>t. h' = h @ [?create, ?get] @ t
              \<and> list_all (uses_branch branch) t
              \<and> (\<forall>result. r = Inr result \<longrightarrow>
                    dr_repository result = existing
                  \<and> GetContent owner (repo_name existing) (lit ''index.html'') branch \<in> set t
                  \<and> (\<exists>fc. CreateOrUpdateFileContents fc \<in> set t
                         \<and> fc_repo fc = repo_name existing
                         \<and> fc_path fc = lit ''index.html''
                         \<and> fc_branch fc = branch)
                  \<and> CreatePagesSite owner (repo_name existing) branch (lit ''/'') \<in> set t)))
      \<and> (readFile_utf8 env (templatePath env) = Inr template
         \<and> github_accepts env
         \<and> assets_readable env (ci_slug (customer_info cfg))
         \<and> pdfs_readable env (chemicals cfg)
         \<and> documents_served env \<longrightarrow>
         (\<exists>result h'. deployCustomerSite env cfg h = (Inr result, h')
            \<and> dr_repository result = existing))"
    if c: "octokit_createForAuthenticatedUser env h ?create = Inl e" "error_status e = Some 422"
      and g: "octokit_get env (h @ [?create]) ?get = Inr existing"
      and br: "branch = (if repo_default_branch existing = [] then lit ''main''
                   else repo_default_branch existing)"
  proof -
    from conflict [OF c] g have cr: "createRepository env cfg h = (Inr existing, h @ [?create, ?get])"
      by simp
    from br have b: "deployBranch existing = branch" by (simp add: deployBranch_def)
    have repo: "dr_repository result = existing"
      if "deployCustomerSite env cfg h = (Inr result, h')" for result h'
      using that cr by (elim deployCustomerSite_InrE) simp
    have tr: "\<exists>t. h' = h @ [?create, ?get] @ t
              \<and> list_all (uses_branch branch) t
              \<and> (\<forall>result. r = Inr result \<longrightarrow>
                    dr_repository result = existing
                  \<and> GetContent owner (repo_name existing) (lit ''index.html'') branch \<in> set t
                  \<and> (\<exists>fc. CreateOrUpdateFileContents fc \<in> set t
                         \<and> fc_repo fc = repo_name existing
                         \<and> fc_path fc = lit ''index.html''
                         \<and> fc_branch fc = branch)
                  \<and> CreatePagesSite owner (repo_name existing) branch (lit ''/'') \<in> set t)"
      if d: "deployCustomerSite env cfg h = (r, h')" for r h'
    proof -
      from deploy_emits [OF d cr] b obtain t where
        t: "h' = h @ [?create, ?get] @ t" and u: "list_all (uses_branch branch) t"
        by auto
      have "dr_repository result = existing
                  \<and> GetContent owner (repo_name existing) (lit ''index.html'') branch \<in> set t
                  \<and> (\<exists>fc. CreateOrUpdateFileContents fc \<in> set t
                         \<and> fc_repo fc = repo_name existing
                         \<and> fc_path fc = lit ''index.html''
                         \<and> fc_branch fc = branch)
                  \<and> CreatePagesSite owner (repo_name existing) branch (lit ''/'') \<in> set t"
        if r: "r = Inr result" for result
      proof -
        from d r have d': "deployCustomerSite env cfg h = (Inr result, h')" by simp
        from deploy_calls_on_branch [OF d' cr] obtain t' where
          t': "h' = (h @ [?create, ?get]) @ t'"
          and m: "GetContent owner (repo_name existing) (lit ''index.html'') (deployBranch existing)
                    \<in> set t'"
            "\<exists>fc. CreateOrUpdateFileContents fc \<in> set t' \<and> fc_repo fc = repo_name existing
               \<and> fc_path fc = lit ''index.html'' \<and> fc_branch fc = deployBranch existing"
            "CreatePagesSite owner (repo_name existing) (deployBranch existing) (lit ''/'') \<in> set t'"
          by blast
        from t t' have "t' = t" by simp
        with m b repo [OF d'] show ?thesis by simp
      qed
      with t u show ?thesis by blast
    qed
    have "\<exists>result h'. deployCustomerSite env cfg h = (Inr result, h')
            \<and> dr_repository result = existing"
      if "readFile_utf8 env (templatePath env) = Inr template" "github_accepts env"
        "assets_readable env (ci_slug (customer_info cfg))" "pdfs_readable env (chemicals cfg)"
        "documents_served env"
      using deploy_succeeds [OF cr that] repo by blast
    with tr show ?thesis by blast
  qed
  from params created conflict other reuse show ?thesis by blast
qed

lemma conflict_env_world:
  "readFile_utf8 conflict_env (templatePath conflict_env) = Inr (lit ''<html>'')"
  "github_accepts conflict_env"
  "assets_readable conflict_env (ci_slug (customer_info acme))"
  "pdfs_readable conflict_env (chemicals acme)"
  "documents_served conflict_env"
proof -
  show "readFile_utf8 conflict_env (templatePath conflict_env) = Inr (lit ''<html>'')"
    using test_env_template by (simp add: conflict_env_def templatePath_def)
  show "github_accepts conflict_env"
    using test_env_accepts by (simp add: conflict_env_def github_accepts_def)
  show "assets_readable conflict_env (ci_slug (customer_info acme))"
    by (simp add: assets_readable_def conflict_env_def test_env_def acme_def lit_def)
  show "pdfs_readable conflict_env (chemicals acme)"
    using test_env_pdfs by (simp add: pdfs_readable_def conflict_env_def localPdfPath_def)
  show "documents_served conflict_env"
    using test_env_served by (simp add: conflict_env_def documents_served_def)
qed

lemma trunk_env_world:
  "readFile_utf8 trunk_env (templatePath trunk_env) = Inr (lit ''<html>'')"
  "github_accepts trunk_env"
  "assets_readable trunk_env (ci_slug (customer_info acme))"
  "pdfs_readable trunk_env (chemicals acme)"
  "documents_served trunk_env"
proof -
  show "readFile_utf8 trunk_env (templatePath trunk_env) = Inr (lit ''<html>'')"
    using conflict_env_world(1) by (simp add: trunk_env_def templatePath_def)
  show "github_accepts trunk_env"
    using conflict_env_world(2) by (simp add: trunk_env_def github_accepts_def)
  show "assets_readable trunk_env (ci_slug (customer_info acme))"
    by (simp add: assets_readable_def trunk_env_def conflict_env_def test_env_def acme_def lit_def)
  show "pdfs_readable trunk_env (chemicals acme)"
    using conflict_env_world(4) by (simp add: pdfs_readable_def trunk_env_def localPdfPath_def)
  show "documents_served trunk_env"
    using conflict_env_world(5) by (simp add: trunk_env_def documents_served_def)
qed

lemma acme_conflict:
  "octokit_createForAuthenticatedUser conflict_env []
        (CreateForAuthenticatedUser (createParams acme))
      = Inl (RequestError 422 (lit ''Repository creation failed.''))"
  "octokit_get conflict_env ([] @ [CreateForAuthenticatedUser (createParams acme)])
        (ReposGet owner (gh_name (ci_github_repo (customer_info acme))))
      = Inr (acme_repo (lit ''master''))"
  "octokit_createForAuthenticatedUser trunk_env []
        (CreateForAuthenticatedUser (createParams acme))
      = Inl (RequestError 422 (lit ''Repository creation failed.''))"
  "octokit_get trunk_env ([] @ [CreateForAuthenticatedUser (createParams acme)])
        (ReposGet owner (gh_name (ci_github_repo (customer_info acme))))
      = Inr (acme_repo (lit ''trunk''))"
  by (simp_all add: trunk_env_def conflict_env_def test_env_def acme_repo_def acme_def lit_def)

lemma acme_repo_branch:
  "lit ''master'' = (if repo_default_branch (acme_repo (lit ''master'')) = [] then lit ''main''
                      else repo_default_branch (acme_repo (lit ''master'')))"
  "lit ''trunk'' = (if repo_default_branch (acme_repo (lit ''trunk'')) = [] then lit ''main''
                      else repo_default_branch (acme_repo (lit ''trunk'')))"
  by (simp_all add: acme_repo_def lit_def)

theorem createRepository_witness:
  "createRepository test_env acme []
     = (Inr (acme_repo (lit ''main'')), [CreateForAuthenticatedUser (createParams acme)])
   \<and> createRepository conflict_env acme []
     = (Inr (acme_repo (lit ''master'')),
        [CreateForAuthenticatedUser (createParams acme), ReposGet owner (lit ''acme-ghs-binder'')])
   \<and> deployCustomerSite broken_env acme []
     = (Inl (RequestError 500 (lit ''Server Error'')), [CreateForAuthenticatedUser (createParams acme)])
   \<and> (\<exists>result t. deployCustomerSite conflict_env acme []
        = (Inr result, [CreateForAuthenticatedUser (createParams acme),
                        ReposGet owner (lit ''acme-ghs-binder'')] @ t)
      \<and> dr_repository result = acme_repo (lit ''master'')
      \<and> list_all (uses_branch (lit ''master'')) t
      \<and> GetContent owner (lit ''acme-ghs-binder'') (lit ''index.html'') (lit ''master'') \<in> set t
      \<and> CreatePagesSite owner (lit ''acme-ghs-binder'') (lit ''master'') (lit ''/'') \<in> set t)
   \<and> (\<exists>result t. deployCustomerSite trunk_env acme []
        = (Inr result, [CreateForAuthenticatedUser (createParams acme),
                        ReposGet owner (lit ''acme-ghs-binder'')] @ t)
      \<and> dr_repository result = acme_repo (lit ''trunk'')
      \<and> list_all (uses_branch (lit ''trunk'')) t
      \<and> GetContent owner (lit ''acme-ghs-binder'') (lit ''index.html'') (lit ''trunk'') \<in> set t
      \<and> CreatePagesSite owner (lit ''acme-ghs-binder'') (lit ''trunk'') (lit ''/'') \<in> set t)"
proof -
  have name: "gh_name (ci_github_repo (customer_info acme)) = lit ''acme-ghs-binder''"
    by (simp add: acme_def)
  have rn: "repo_name (acme_repo b) = lit ''acme-ghs-binder''" for b
    by (simp add: acme_repo_def)
  have c1: "octokit_createForAuthenticatedUser test_env [] (CreateForAuthenticatedUser (createParams acme))
      = Inr (acme_repo (lit ''main''))"
    by (simp add: test_env_def acme_create acme_repo_def lit_def)
  have c3: "octokit_createForAuthenticatedUser broken_env []
        (CreateForAuthenticatedUser (createParams acme))
      = Inl (RequestError 500 (lit ''Server Error''))"
    "error_status (RequestError 500 (lit ''Server Error'')) \<noteq> Some 422"
    by (simp_all add: broken_env_def)
  have st: "error_status (RequestError 422 (lit ''Repository creation failed.'')) = Some 422"
    by simp
  note a = createRepository_reuses_existing
      [where env = test_env and cfg = acme and h = "[]" and repo = "acme_repo (lit ''main'')"]
  note b = createRepository_reuses_existing
      [where env = conflict_env and cfg = acme and h = "[]"
         and e = "RequestError 422 (lit ''Repository creation failed.'')"
         and existing = "acme_repo (lit ''master'')" and template = "lit ''<html>''"
         and branch = "lit ''master''"]
  note c = createRepository_reuses_existing
      [where env = broken_env and cfg = acme and h = "[]"
         and e = "RequestError 500 (lit ''Server Error'')"]
  note d = createRepository_reuses_existing
      [where env = trunk_env and cfg = acme and h = "[]"
         and e = "RequestError 422 (lit ''Repository creation failed.'')"
         and existing = "acme_repo (lit ''trunk'')" and template = "lit ''<html>''"
         and branch = "lit ''trunk''"]
  from a [THEN conjunct2, THEN conjunct2, THEN conjunct1, THEN mp, OF c1]
  have 1: "createRepository test_env acme []
     = (Inr (acme_repo (lit ''main'')), [CreateForAuthenticatedUser (createParams acme)])"
    by simp
  from b [THEN conjunct2, THEN conjunct2, THEN conjunct2, THEN conjunct1, THEN mp,
      OF conjI [OF acme_conflict(1) st]] acme_conflict(2)
  have 2: "createRepository conflict_env acme []
     = (Inr (acme_repo (lit ''master'')),
        [CreateForAuthenticatedUser (createParams acme), ReposGet owner (lit ''acme-ghs-binder'')])"
    by (simp add: name)
  from c [THEN conjunct2, THEN conjunct2, THEN conjunct2, THEN conjunct2, THEN conjunct1, THEN mp,
      OF conjI [OF c3]]
  have 3: "deployCustomerSite broken_env acme []
     = (Inl (RequestError 500 (lit ''Server Error'')), [CreateForAuthenticatedUser (createParams acme)])"
    by simp
  have 4: "\<exists>result t. deployCustomerSite conflict_env acme []
        = (Inr result, [CreateForAuthenticatedUser (createParams acme),
                        ReposGet owner (lit ''acme-ghs-binder'')] @ t)
      \<and> dr_repository result = acme_repo (lit ''master'')
      \<and> list_all (uses_branch (lit ''master'')) t
      \<and> GetContent owner (lit ''acme-ghs-binder'') (lit ''index.html'') (lit ''master'') \<in> set t
      \<and> CreatePagesSite owner (lit ''acme-ghs-binder'') (lit ''master'') (lit ''/'') \<in> set t"
  proof -
    note r = b [THEN conjunct2, THEN conjunct2, THEN conjunct2, THEN conjunct2, THEN conjunct2,
      THEN mp, OF conjI [OF acme_conflict(1) conjI [OF st conjI [OF acme_conflict(2) acme_repo_branch(1)]]]]
    from r [THEN conjunct2, THEN mp] conflict_env_world
    obtain result h' where run: "deployCustomerSite conflict_env acme [] = (Inr result, h')"
      by blast
    from r [THEN conjunct1, rule_format, OF run] obtain t where
      t: "h' = [] @ [CreateForAuthenticatedUser (createParams acme),
                     ReposGet owner (gh_name (ci_github_repo (customer_info acme)))] @ t"
      and u: "list_all (uses_branch (lit ''master'')) t"
      and m: "\<forall>res. Inr result = (Inr res :: js_error + deploy_result) \<longrightarrow>
                    dr_repository res = acme_repo (lit ''master'')
                  \<and> GetContent owner (repo_name (acme_repo (lit ''master''))) (lit ''index.html'')
                      (lit ''master'') \<in> set t
                  \<and> (\<exists>fc. CreateOrUpdateFileContents fc \<in> set t
                         \<and> fc_repo fc = repo_name (acme_repo (lit ''master''))
                         \<and> fc_path fc = lit ''index.html''
                         \<and> fc_branch fc = lit ''master'')
                  \<and> CreatePagesSite owner (repo_name (acme_repo (lit ''master''))) (lit ''master'')
                      (lit ''/'') \<in> set t"
      by blast
    from m [rule_format, OF refl] have
      "dr_repository result = acme_repo (lit ''master'')"
      "GetContent owner (lit ''acme-ghs-binder'') (lit ''index.html'') (lit ''master'') \<in> set t"
      "CreatePagesSite owner (lit ''acme-ghs-binder'') (lit ''master'') (lit ''/'') \<in> set t"
      by (simp_all only: rn)
    moreover from run t have "deployCustomerSite conflict_env acme []
        = (Inr result, [CreateForAuthenticatedUser (createParams acme),
                        ReposGet owner (lit ''acme-ghs-binder'')] @ t)"
      by (simp add: name)
    ultimately show ?thesis using u by blast
  qed
  have 5: "\<exists>result t. deployCustomerSite trunk_env acme []
        = (Inr result, [CreateForAuthenticatedUser (createParams acme),
                        ReposGet owner (lit ''acme-ghs-binder'')] @ t)
      \<and> dr_repository result = acme_repo (lit ''trunk'')
      \<and> list_all (uses_branch (lit ''trunk'')) t
      \<and> GetContent owner (lit ''acme-ghs-binder'') (lit ''index.html'') (lit ''trunk'') \<in> set t
      \<and> CreatePagesSite owner (lit ''acme-ghs-binder'') (lit ''trunk'') (lit ''/'') \<in> set t"
  proof -
    note r = d [THEN conjunct2, THEN conjunct2, THEN conjunct2, THEN conjunct2, THEN conjunct2,
      THEN mp, OF conjI [OF acme_conflict(3) conjI [OF st conjI [OF acme_conflict(4) acme_repo_branch(2)]]]]
    from r [THEN conjunct2, THEN mp] trunk_env_world
    obtain result h' where run: "deployCustomerSite trunk_env acme [] = (Inr result, h')"
      by blast
    from r [THEN conjunct1, rule_format, OF run] obtain t where
      t: "h' = [] @ [CreateForAuthenticatedUser (createParams acme),
                     ReposGet owner (gh_name (ci_github_repo (customer_info acme)))] @ t"
      and u: "list_all (uses_branch (lit ''trunk'')) t"
      and m: "\<forall>res. Inr result = (Inr res :: js_error + deploy_result) \<longrightarrow>
                    dr_repository res = acme_repo (lit ''trunk'')
                  \<and> GetContent owner (repo_name (acme_repo (lit ''trunk''))) (lit ''index.html'')
                      (lit ''trunk'') \<in> set t
                  \<and> (\<exists>fc. CreateOrUpdateFileContents fc \<in> set t
                         \<and> fc_repo fc = repo_name (acme_repo (lit ''trunk''))
                         \<and> fc_path fc = lit ''index.html''
                         \<and> fc_branch fc = lit ''trunk'')
                  \<and> CreatePagesSite owner (repo_name (acme_repo (lit ''trunk''))) (lit ''trunk'')
                      (lit ''/'') \<in> set t"
      by blast
    from m [rule_format, OF refl] have
      "dr_repository result = acme_repo (lit ''trunk'')"
      "GetContent owner (lit ''acme-ghs-binder'') (lit ''index.html'') (lit ''trunk'') \<in> set t"
      "CreatePagesSite owner (lit ''acme-ghs-binder'') (lit ''trunk'') (lit ''/'') \<in> set t"
      by (simp_all only: rn)
    moreover from run t have "deployCustomerSite trunk_env acme []
        = (Inr result, [CreateForAuthenticatedUser (createParams acme),
                        ReposGet owner (lit ''acme-ghs-binder'')] @ t)"
      by (simp add: name)
    ultimately show ?thesis using u by blast
  qed
  from 1 2 3 4 5 show ?thesis by (intro conjI)
qed

end
